theory Spec2Isabelle
  imports Complex_Main "HOL-Library.Sublist" "HOL-Library.AList"
begin

section \<open>Repository metrics aggregation (src/lib/db.ts)\<close>

text \<open>
  A shallow embedding of the GitHub part of \<^verbatim>\<open>src/lib/db.ts\<close>: the pagination client
  \<^verbatim>\<open>fetchGithubReposFromApi\<close>, repository discovery \<^verbatim>\<open>scanGithubRepos\<close>, the refresh entry
  point \<^verbatim>\<open>refreshGithubMetrics\<close> with its three passes, and the read-back
  \<^verbatim>\<open>getGithubMetrics\<close>.

  Everything the code obtains from outside is an oracle of the environment \<open>env\<close>, asked
  with the history of effects so far, so a server, a database or a clock may answer
  differently each time. Every effect appends an event to the trace of the state. An
  exception is a value \<open>Inl msg\<close> (the \<^verbatim>\<open>message\<close> of the thrown \<^verbatim>\<open>Error\<close>); a loop that
  may run forever returns \<open>None\<close> when it does. Console output is not modelled. JavaScript
  numbers are integers here (byte counts, line counts, millisecond time values).
\<close>

subsection \<open>JavaScript strings\<close>

text \<open>A string is falsy exactly when it is empty; \<^verbatim>\<open>undefined\<close> and \<^verbatim>\<open>null\<close> are \<open>None\<close>.\<close>

definition truthy :: "string option \<Rightarrow> bool" where
  "truthy v = (case v of None \<Rightarrow> False | Some s \<Rightarrow> s \<noteq> [])"

text \<open>\<^verbatim>\<open>a || b\<close> on possibly undefined strings.\<close>

definition or_else :: "string option \<Rightarrow> string option \<Rightarrow> string option" where
  "or_else a b = (if truthy a then a else b)"

text \<open>\<^verbatim>\<open>s.split(c)\<close> for a separator of one character.\<close>

fun split_on :: "char \<Rightarrow> string \<Rightarrow> string list" where
  "split_on c [] = [[]]"
| "split_on c (x # xs) =
     (if x = c then [] # split_on c xs
      else (case split_on c xs of [] \<Rightarrow> [[x]] | p # ps \<Rightarrow> (x # p) # ps))"

text \<open>\<^verbatim>\<open>parts.join(sep)\<close>.\<close>

fun join_with :: "string \<Rightarrow> string list \<Rightarrow> string" where
  "join_with sep [] = []"
| "join_with sep [p] = p"
| "join_with sep (p # q # ps) = p @ sep @ join_with sep (q # ps)"

text \<open>\<^verbatim>\<open>s.includes(sub)\<close>; \<^verbatim>\<open>s.startsWith(p)\<close> is \<^const>\<open>prefix\<close>.\<close>

fun str_includes :: "string \<Rightarrow> string \<Rightarrow> bool" where
  "str_includes [] sub = (sub = [])"
| "str_includes (x # xs) sub = (prefix sub (x # xs) \<or> str_includes xs sub)"

text \<open>
  \<^verbatim>\<open>s.match(/<([^>]+)>/)\<close>: the first capture group of the leftmost match. At a \<^verbatim>\<open><\<close> the
  group takes the longest run of characters other than \<^verbatim>\<open>>\<close>; the match succeeds when
  that run is not empty and a \<^verbatim>\<open>>\<close> follows it, and is tried at the next position
  otherwise.
\<close>

fun match_angle :: "string \<Rightarrow> string option" where
  "match_angle [] = None"
| "match_angle (x # xs) =
     (if x = CHR ''<'' then
        (let cap = takeWhile (\<lambda>c. c \<noteq> CHR ''>'') xs in
         if cap \<noteq> [] \<and> length cap < length xs then Some cap else match_angle xs)
      else match_angle xs)"

definition rel_next :: string where
  \<open>rel_next = ''rel="next"''\<close>

text \<open>
  The next-page link of a \<^verbatim>\<open>Link\<close> header, as both pagination loops compute it: split at
  commas, take the first entry that contains \<^verbatim>\<open>rel="next"\<close>, and match its \<^verbatim>\<open><URL>\<close>.
\<close>

definition next_link :: "string option \<Rightarrow> string option" where
  "next_link linkHeader =
     (if truthy linkHeader then
        (case find (\<lambda>link. str_includes link rel_next) (split_on CHR '','' (the linkHeader)) of
           None \<Rightarrow> None
         | Some nextLink \<Rightarrow> match_angle nextLink)
      else None)"

text \<open>\<^verbatim>\<open>String(n)\<close> for a natural number.\<close>

definition digit :: "nat \<Rightarrow> char" where
  "digit d = ''0123456789'' ! d"

fun String_nat :: "nat \<Rightarrow> string" where
  "String_nat n = (if n < 10 then [digit n] else String_nat (n div 10) @ [digit (n mod 10)])"

text \<open>\<^verbatim>\<open>Math.round(n / d)\<close> for integers \<open>n\<close> and \<open>d > 0\<close>: halves round up.\<close>

definition Math_round_div :: "int \<Rightarrow> int \<Rightarrow> int" where
  "Math_round_div n d = (2 * n + d) div (2 * d)"

subsection \<open>Data\<close>

text \<open>\<^verbatim>\<open>GithubRepoData\<close> (schemas): \<^verbatim>\<open>url\<close> and \<^verbatim>\<open>fullName\<close> are optional.\<close>

record GithubRepoData =
  repo_id :: string
  repo_name :: string
  repo_url :: "string option"
  repo_fullName :: "string option"

text \<open>\<^verbatim>\<open>GithubApiRepo\<close>, the fields the code reads; \<open>api_id\<close> is \<^verbatim>\<open>String(repo.id)\<close>.\<close>

record GithubApiRepo =
  api_id :: string
  api_name :: string
  html_url :: "string option"
  full_name :: "string option"

text \<open>\<^verbatim>\<open>GithubApiCommit\<close>.\<close>

record git_actor =
  actor_name :: "string option"
  actor_date :: "string option"

record commit_body =
  raw_author :: "git_actor option"
  raw_committer :: "git_actor option"

record commit_stats =
  additions :: int
  deletions :: int
  total :: int

record GithubApiCommit =
  sha :: string
  commit :: "commit_body option"
  author :: "string option"
  committer :: "string option"
  stats :: "commit_stats option"

text \<open>
  In \<^typ>\<open>GithubApiCommit\<close>, \<open>author\<close> and \<open>committer\<close> hold \<^verbatim>\<open>author?.login\<close> and
  \<^verbatim>\<open>committer?.login\<close>: \<open>None\<close> when the object is \<^verbatim>\<open>null\<close>.
\<close>

record GithubApiTag =
  tag_name :: string
  tag_sha :: string

record latest_tag =
  lt_name :: string
  lt_date :: string

text \<open>\<^verbatim>\<open>GithubMetricsPeriodData\<close>: every field is optional; \<open>info\<close> holds \<^verbatim>\<open>info.message\<close>.\<close>

record GithubMetricsPeriodData =
  apiTotalBytes_current :: "int option"
  apiBytesByLanguage_current :: "(string \<times> int) list option"
  apiEstimatedTotalLines_current :: "int option"
  apiEstimatedLinesByLanguage_current :: "(string \<times> int) list option"
  apiProcessedRepoFullNames :: "string list option"
  apiLastRefreshed :: "string option"
  clonedActualTotalLines :: "int option"
  clonedActualLinesByLanguage :: "(string \<times> int) list option"
  clonedProcessedRepoFullNames :: "string list option"
  clonedLoCLastRefreshed :: "string option"
  latestTags :: "latest_tag list option"
  linesAdded_period :: "int option"
  uniqueCommitters_period :: "int option"
  uniqueCommitterNames_period :: "string list option"
  periodStartDate :: "string option"
  periodEndDate :: "string option"
  periodLastRefreshed :: "string option"
  info :: "string option"

text \<open>The object \<^verbatim>\<open>{}\<close>.\<close>

definition no_data :: GithubMetricsPeriodData where
  "no_data = \<lparr>apiTotalBytes_current = None, apiBytesByLanguage_current = None,
     apiEstimatedTotalLines_current = None, apiEstimatedLinesByLanguage_current = None,
     apiProcessedRepoFullNames = None, apiLastRefreshed = None,
     clonedActualTotalLines = None, clonedActualLinesByLanguage = None,
     clonedProcessedRepoFullNames = None, clonedLoCLastRefreshed = None,
     latestTags = None, linesAdded_period = None, uniqueCommitters_period = None,
     uniqueCommitterNames_period = None, periodStartDate = None, periodEndDate = None,
     periodLastRefreshed = None, info = None\<rparr>"

subsection \<open>The environment and the state\<close>

text \<open>
  An HTTP response: status, \<^verbatim>\<open>Link\<close> header, \<^verbatim>\<open>text()\<close>, and \<^verbatim>\<open>json()\<close>, which rejects
  (\<open>Inl\<close>) on a body that is not JSON. The JSON of each endpoint is typed as the
  interface the source declares for it; \<^verbatim>\<open>fetch\<close> itself may reject.
\<close>

record 'b response =
  status :: nat
  link_header :: "string option"
  body_text :: string
  body_json :: "string + 'b"

datatype 'b fetched = Rejected string | Responded "'b response"

datatype 'a listing = Items "'a list" | MessageObj string | OtherJson

definition ok :: "'b response \<Rightarrow> bool" where
  "ok r = (200 \<le> status r \<and> status r \<le> 299)"

text \<open>A row of \<^verbatim>\<open>github_team_metrics\<close>: the \<^verbatim>\<open>data\<close> column parses or not, and \<^verbatim>\<open>lastRefreshed\<close>.\<close>

datatype metric_row = Row GithubMetricsPeriodData string | Unparsable string

text \<open>The row of \<^verbatim>\<open>github_configs\<close>; its columns are nullable.\<close>

datatype sel_column = SelEmpty | SelJson "GithubRepoData list" | SelUnparsable string

record config_row =
  row_rootUrl :: "string option"
  row_accessToken :: "string option"
  row_selectedRepos :: sel_column

record GithubConfigFormData =
  rootUrl :: "string option"
  accessToken :: string
  selectedRepos :: "GithubRepoData list"

text \<open>The statements sent to the database, for the one team of the call.\<close>

datatype stmt =
    SelectMetrics
  | SelectConfig
  | InsertOrReplace string GithubMetricsPeriodData string
  | DeleteMetrics

text \<open>The tree a clone leaves in its directory; \<open>None\<close> is a read error.\<close>

datatype fs_entry =
    File string "string option"
  | Dir string "fs_entry list option"
  | Special string

datatype clone_outcome = Cloned "fs_entry list option" | CloneFailed string | CloneTimeout string

datatype event =
    NewDate int
  | Sql stmt "string option"
  | Fetch string
  | TmpDir "string + string"
  | GitClone string string
  | Remove string "string option"

record env =
  now :: "event list \<Rightarrow> int"
  toISOString :: "int \<Rightarrow> string"
  LocalTZA :: "int \<Rightarrow> bool \<Rightarrow> int"
  date_value :: "string \<Rightarrow> int"
  url_parts :: "string \<Rightarrow> (string \<times> string) option"
  db_error :: "event list \<Rightarrow> stmt \<Rightarrow> string option"
  fetch_repos :: "event list \<Rightarrow> string \<Rightarrow> GithubApiRepo listing fetched"
  fetch_languages :: "event list \<Rightarrow> string \<Rightarrow> (string \<times> int) list fetched"
  fetch_tags :: "event list \<Rightarrow> string \<Rightarrow> GithubApiTag listing fetched"
  fetch_commits :: "event list \<Rightarrow> string \<Rightarrow> GithubApiCommit listing fetched"
  fetch_commit :: "event list \<Rightarrow> string \<Rightarrow> GithubApiCommit fetched"
  tmp_dirSync :: "event list \<Rightarrow> string + string"
  git_clone :: "event list \<Rightarrow> string \<Rightarrow> string \<Rightarrow> clone_outcome"
  removeCallback :: "event list \<Rightarrow> string \<Rightarrow> string option"

text \<open>
  The oracles: \<open>now\<close> is the time value of \<^verbatim>\<open>new Date()\<close>; \<open>url_parts\<close> is \<^verbatim>\<open>new URL(s)\<close>
  (\<open>None\<close>: it throws), giving \<^verbatim>\<open>origin\<close> and \<^verbatim>\<open>pathname\<close>; \<open>date_value\<close> is
  \<^verbatim>\<open>new Date(s).getTime()\<close>; \<open>LocalTZA t isUTC\<close> is the zone offset of the host;
  \<open>db_error\<close> says whether a statement fails and with which message; \<open>tmp_dirSync\<close> gives the
  name of the new directory (\<open>Inr\<close>) or throws; \<open>removeCallback\<close> may throw.
\<close>

record state =
  trace :: "event list"
  metric_rows :: "(string \<times> metric_row) list"
  github_config :: "config_row option"
  tmp_dirs :: "string list"

definition emit :: "event \<Rightarrow> state \<Rightarrow> state" where
  "emit ev s = s\<lparr>trace := trace s @ [ev]\<rparr>"

text \<open>\<^verbatim>\<open>new Date()\<close>: one reading of the clock.\<close>

definition new_Date :: "env \<Rightarrow> state \<Rightarrow> int \<times> state" where
  "new_Date e s = (now e (trace s), emit (NewDate (now e (trace s))) s)"

text \<open>A statement on the database: it fails and changes nothing, or it runs.\<close>

definition run_stmt :: "stmt \<Rightarrow> (string \<times> metric_row) list \<Rightarrow> (string \<times> metric_row) list" where
  "run_stmt q rows =
     (case q of
        InsertOrReplace k d t \<Rightarrow> AList.update k (Row d t) rows
      | DeleteMetrics \<Rightarrow> []
      | _ \<Rightarrow> rows)"

definition sql :: "env \<Rightarrow> stmt \<Rightarrow> state \<Rightarrow> (string + unit) \<times> state" where
  "sql e q s =
     (case db_error e (trace s) q of
        Some msg \<Rightarrow> (Inl msg, emit (Sql q (Some msg)) s)
      | None \<Rightarrow> (Inr (), emit (Sql q None) (s\<lparr>metric_rows := run_stmt q (metric_rows s)\<rparr>)))"

subsection \<open>The persistence functions\<close>

definition saveGithubTeamMetric ::
  "env \<Rightarrow> string \<Rightarrow> GithubMetricsPeriodData \<Rightarrow> state \<Rightarrow> (string + unit) \<times> state" where
  "saveGithubTeamMetric e periodKey d s =
     (let (t, s1) = new_Date e s
      in sql e (InsertOrReplace periodKey d (toISOString e t)) s1)"

definition parse_row :: "string \<Rightarrow> metric_row \<Rightarrow> GithubMetricsPeriodData" where
  "parse_row periodKey r =
     (case r of
        Row d t \<Rightarrow> d
      | Unparsable t \<Rightarrow> no_data\<lparr>info := Some (''Error loading data for period '' @ periodKey
            @ ''. Last DB update: '' @ t)\<rparr>)"

definition metrics_of_rows ::
  "(string \<times> metric_row) list \<Rightarrow> (string \<times> GithubMetricsPeriodData) list" where
  "metrics_of_rows rows = foldl (\<lambda>metrics (k, r). AList.update k (parse_row k r) metrics) [] rows"

definition getGithubTeamMetricsFromDb ::
  "env \<Rightarrow> state \<Rightarrow> (string + (string \<times> GithubMetricsPeriodData) list) \<times> state" where
  "getGithubTeamMetricsFromDb e s =
     (case sql e SelectMetrics s of
        (Inl msg, s1) \<Rightarrow> (Inl msg, s1)
      | (Inr u, s1) \<Rightarrow> (Inr (metrics_of_rows (metric_rows s1)), s1))"

definition clearGithubTeamMetrics :: "env \<Rightarrow> state \<Rightarrow> (string + unit) \<times> state" where
  "clearGithubTeamMetrics e s = sql e DeleteMetrics s"

definition getGithubConfigFromDb ::
  "env \<Rightarrow> state \<Rightarrow> (string + GithubConfigFormData option) \<times> state" where
  "getGithubConfigFromDb e s =
     (case sql e SelectConfig s of
        (Inl msg, s1) \<Rightarrow> (Inl msg, s1)
      | (Inr u, s1) \<Rightarrow>
          (case github_config s1 of
             None \<Rightarrow> (Inr None, s1)
           | Some row \<Rightarrow>
               (case row_selectedRepos row of
                  SelUnparsable msg \<Rightarrow> (Inl msg, s1)
                | SelEmpty \<Rightarrow>
                    (Inr (Some \<lparr>rootUrl = row_rootUrl row,
                       accessToken = (if truthy (row_accessToken row) then the (row_accessToken row) else []),
                       selectedRepos = []\<rparr>), s1)
                | SelJson rs \<Rightarrow>
                    (Inr (Some \<lparr>rootUrl = row_rootUrl row,
                       accessToken = (if truthy (row_accessToken row) then the (row_accessToken row) else []),
                       selectedRepos = rs\<rparr>), s1))))"

subsection \<open>The pagination client\<close>

definition do_fetch :: "(event list \<Rightarrow> string \<Rightarrow> 'b fetched) \<Rightarrow> string \<Rightarrow> state \<Rightarrow> 'b fetched \<times> state" where
  "do_fetch oracle u s = (oracle (trace s) u, emit (Fetch u) s)"

text \<open>
  One turn of the \<^verbatim>\<open>while (nextPageUrl)\<close> loop of \<^verbatim>\<open>fetchGithubReposFromApi\<close>: it throws,
  or gives the repositories so far and the next value of \<^verbatim>\<open>nextPageUrl\<close> (\<open>None\<close> for
  \<^verbatim>\<open>null\<close>).
\<close>

definition repos_page ::
  "env \<Rightarrow> string \<Rightarrow> GithubApiRepo list \<Rightarrow> state
     \<Rightarrow> (string + GithubApiRepo list \<times> string option) \<times> state" where
  "repos_page e nextPageUrl allRepos s =
     (case do_fetch (fetch_repos e) nextPageUrl s of
        (Rejected msg, s1) \<Rightarrow> (Inl msg, s1)
      | (Responded r, s1) \<Rightarrow>
          if \<not> ok r then
            (Inl (''Failed to fetch repositories from '' @ nextPageUrl @ ''. Status: ''
                  @ String_nat (status r) @ ''. Message: '' @ body_text r), s1)
          else
            (case body_json r of
               Inl msg \<Rightarrow> (Inl msg, s1)
             | Inr (Items page) \<Rightarrow> (Inr (allRepos @ page, next_link (link_header r)), s1)
             | Inr other \<Rightarrow>
                 (Inl (''Unexpected response format from GitHub API for URL '' @ nextPageUrl
                       @ ''. Expected an array of repositories.''), s1)))"

partial_function (option) repos_loop ::
  "env \<Rightarrow> string option \<Rightarrow> GithubApiRepo list \<Rightarrow> state
     \<Rightarrow> ((string + GithubApiRepo list) \<times> state) option" where
  "repos_loop e nextPageUrl allRepos s =
     (if \<not> truthy nextPageUrl then Some (Inr allRepos, s)
      else
        (case repos_page e (the nextPageUrl) allRepos s of
           (Inl msg, s1) \<Rightarrow> Some (Inl msg, s1)
         | (Inr (allRepos1, nextPageUrl1), s1) \<Rightarrow> repos_loop e nextPageUrl1 allRepos1 s1))"

declare repos_loop.simps [code]

definition fetchGithubReposFromApi ::
  "env \<Rightarrow> string \<Rightarrow> string \<Rightarrow> state \<Rightarrow> ((string + GithubApiRepo list) \<times> state) option" where
  "fetchGithubReposFromApi e apiUrl token s =
     (if token = [] then Some (Inl ''GitHub Access Token is required to fetch repositories.'', s)
      else repos_loop e (Some apiUrl) [] s)"

subsection \<open>Repository discovery\<close>

record scan_result =
  scan_success :: bool
  scan_message :: string
  scan_repos :: "GithubRepoData list"

definition GITHUB_API_BASE :: "env \<Rightarrow> string \<Rightarrow> string + string" where
  "GITHUB_API_BASE e root_url =
     (if str_includes root_url ''api.github.com'' then
        Inr (join_with ''/'' (take 3 (split_on CHR ''/'' root_url)))
      else if prefix ''https://github.com'' root_url then Inr ''https://api.github.com''
      else (case url_parts e root_url of
              None \<Rightarrow> Inl ''Invalid URL''
            | Some (origin, pathname) \<Rightarrow> Inr (origin @ ''/api/v3'')))"

definition perPageQuery :: string where
  "perPageQuery = ''type=all&per_page=100''"

text \<open>
  The body of the inner \<^verbatim>\<open>try\<close> of \<^verbatim>\<open>scanGithubRepos\<close>: the probe of the organization
  endpoint, which gives the listing endpoint or throws.
\<close>

definition org_probe_try ::
  "env \<Rightarrow> string \<Rightarrow> string \<Rightarrow> state \<Rightarrow> (string + string) \<times> state" where
  "org_probe_try e potentialOrgUrl userUrl s =
     (case do_fetch (fetch_repos e) potentialOrgUrl s of
        (Rejected msg, s1) \<Rightarrow> (Inl msg, s1)
      | (Responded orgResponse, s1) \<Rightarrow>
          if ok orgResponse then (Inr potentialOrgUrl, s1)
          else if status orgResponse = 404 \<or> status orgResponse = 403 then (Inr userUrl, s1)
          else (Inl (''GitHub API error for orgs endpoint '' @ potentialOrgUrl @ '': ''
                     @ String_nat (status orgResponse) @ '' - '' @ body_text orgResponse), s1))"

text \<open>The inner \<^verbatim>\<open>try\<close> with its \<^verbatim>\<open>catch\<close>, which takes the user endpoint.\<close>

definition org_probe :: "env \<Rightarrow> string \<Rightarrow> string \<Rightarrow> state \<Rightarrow> string \<times> state" where
  "org_probe e GITHUB_API_BASE' orgOrUser s =
     (let potentialOrgUrl = GITHUB_API_BASE' @ ''/orgs/'' @ orgOrUser @ ''/repos?'' @ perPageQuery;
          userUrl = GITHUB_API_BASE' @ ''/users/'' @ orgOrUser @ ''/repos?'' @ perPageQuery
      in case org_probe_try e potentialOrgUrl userUrl s of
           (Inl msg, s1) \<Rightarrow> (userUrl, s1)
         | (Inr apiEndpointForRepoListing, s1) \<Rightarrow> (apiEndpointForRepoListing, s1))"

definition listing_endpoint ::
  "env \<Rightarrow> string \<Rightarrow> string \<Rightarrow> string list \<Rightarrow> state \<Rightarrow> string \<times> state" where
  "listing_endpoint e root_url GITHUB_API_BASE' urlPathParts s =
     (if str_includes root_url ''api.github.com/''
         \<and> (str_includes root_url ''/repos'' \<or> str_includes root_url ''/user'' \<or> str_includes root_url ''/orgs'')
      then ((if str_includes root_url ''?'' then root_url @ ''&'' @ perPageQuery
             else root_url @ ''?'' @ perPageQuery), s)
      else if urlPathParts \<noteq> [] then org_probe e GITHUB_API_BASE' (last urlPathParts) s
      else (GITHUB_API_BASE' @ ''/user/repos?'' @ perPageQuery, s))"

definition format_repo :: "GithubApiRepo \<Rightarrow> GithubRepoData" where
  "format_repo repo = \<lparr>repo_id = api_id repo, repo_name = api_name repo,
     repo_url = html_url repo, repo_fullName = full_name repo\<rparr>"

definition scan_try :: "env \<Rightarrow> state \<Rightarrow> ((string + scan_result) \<times> state) option" where
  "scan_try e s =
     (case getGithubConfigFromDb e s of
        (Inl msg, s1) \<Rightarrow> Some (Inl msg, s1)
      | (Inr config, s1) \<Rightarrow>
          if config = None \<or> \<not> truthy (rootUrl (the config)) \<or> accessToken (the config) = [] then
            Some (Inr \<lparr>scan_success = False,
              scan_message = ''GitHub configuration (Root URL or Access Token) not found for this team. Please configure it first.'',
              scan_repos = []\<rparr>, s1)
          else
            (let root_url = the (rootUrl (the config)); token = accessToken (the config)
             in case GITHUB_API_BASE e root_url of
                  Inl msg \<Rightarrow> Some (Inl msg, s1)
                | Inr base \<Rightarrow>
                    (case url_parts e root_url of
                       None \<Rightarrow> Some (Inl ''Invalid URL'', s1)
                     | Some (origin, pathname) \<Rightarrow>
                         (let urlPathParts = filter (\<lambda>p. p \<noteq> []) (split_on CHR ''/'' pathname);
                              (apiEndpointForRepoListing, s2) = listing_endpoint e root_url base urlPathParts s1
                          in case fetchGithubReposFromApi e apiEndpointForRepoListing token s2 of
                               None \<Rightarrow> None
                             | Some (Inl msg, s3) \<Rightarrow> Some (Inl msg, s3)
                             | Some (Inr reposFromApi, s3) \<Rightarrow>
                                 if reposFromApi = [] then
                                   Some (Inr \<lparr>scan_success = True,
                                     scan_message = ''No repositories found for the configured URL: ''
                                       @ apiEndpointForRepoListing
                                       @ ''. This could be due to permissions, an incorrect URL, or no repositories present.'',
                                     scan_repos = []\<rparr>, s3)
                                 else
                                   Some (Inr \<lparr>scan_success = True,
                                     scan_message = ''Found '' @ String_nat (length reposFromApi) @ '' repositories.'',
                                     scan_repos = map format_repo reposFromApi\<rparr>, s3)))))"

definition scanGithubRepos :: "env \<Rightarrow> state \<Rightarrow> (scan_result \<times> state) option" where
  "scanGithubRepos e s =
     (case scan_try e s of
        None \<Rightarrow> None
      | Some (Inl msg, s1) \<Rightarrow>
          Some (\<lparr>scan_success = False,
            scan_message = (if msg \<noteq> [] then msg
                            else ''An unexpected error occurred while scanning repositories.''),
            scan_repos = []\<rparr>, s1)
      | Some (Inr r, s1) \<Rightarrow> Some (r, s1))"

subsection \<open>The snapshot collector\<close>

text \<open>\<^verbatim>\<open>v || 0\<close>.\<close>

definition or0 :: "int option \<Rightarrow> int" where
  "or0 v = (case v of None \<Rightarrow> 0 | Some n \<Rightarrow> n)"

definition ESTIMATED_BYTES_PER_LINE :: int where
  "ESTIMATED_BYTES_PER_LINE = 50"

text \<open>
  The accumulators of the first loop of \<^verbatim>\<open>refreshGithubMetrics\<close>, under the names the
  source gives them.
\<close>

record api_totals =
  overallApiTotalBytes :: int
  overallApiBytesByLanguage :: "(string \<times> int) list"
  overallLatestTags :: "latest_tag list"
  overallApiProcessedRepoFullNames :: "string list"

text \<open>\<^verbatim>\<open>for (const lang in languages)\<close>: the histogram entry and the total grow together.\<close>

fun add_languages :: "(string \<times> int) list \<Rightarrow> api_totals \<Rightarrow> api_totals" where
  "add_languages [] acc = acc"
| "add_languages ((lang, n) # languages) acc =
     add_languages languages
       (acc\<lparr>overallApiBytesByLanguage :=
              AList.update lang (or0 (map_of (overallApiBytesByLanguage acc) lang) + n)
                (overallApiBytesByLanguage acc),
            overallApiTotalBytes := overallApiTotalBytes acc + n\<rparr>)"

text \<open>The first \<^verbatim>\<open>try\<close> of the loop body: a failure of any kind leaves the totals as they are.\<close>

definition collect_languages ::
  "env \<Rightarrow> string \<Rightarrow> string \<Rightarrow> api_totals \<Rightarrow> state \<Rightarrow> api_totals \<times> state" where
  "collect_languages e GITHUB_API_BASE' fullName acc s =
     (case do_fetch (fetch_languages e) (GITHUB_API_BASE' @ ''/repos/'' @ fullName @ ''/languages'') s of
        (Rejected msg, s1) \<Rightarrow> (acc, s1)
      | (Responded langResponse, s1) \<Rightarrow>
          if ok langResponse then
            (case body_json langResponse of
               Inl msg \<Rightarrow> (acc, s1)
             | Inr languages \<Rightarrow> (add_languages languages acc, s1))
          else (acc, s1))"

definition fetchCommitDetails ::
  "env \<Rightarrow> string \<Rightarrow> string \<Rightarrow> string \<Rightarrow> string \<Rightarrow> state
     \<Rightarrow> (string + GithubApiCommit option) \<times> state" where
  "fetchCommitDetails e repoFullName commitSha token githubApiBase s =
     (case do_fetch (fetch_commit e)
             (githubApiBase @ ''/repos/'' @ repoFullName @ ''/commits/'' @ commitSha) s of
        (Rejected msg, s1) \<Rightarrow> (Inl msg, s1)
      | (Responded r, s1) \<Rightarrow>
          if \<not> ok r then (Inr None, s1)
          else (case body_json r of
                  Inl msg \<Rightarrow> (Inl msg, s1)
                | Inr c \<Rightarrow> (Inr (Some c), s1)))"

text \<open>\<^verbatim>\<open>commitDetail?.commit.committer?.date\<close>, where it evaluates to a string.\<close>

definition committer_date :: "GithubApiCommit option \<Rightarrow> string option" where
  "committer_date commitDetail =
     (case commitDetail of
        None \<Rightarrow> None
      | Some c \<Rightarrow>
          (case commit c of
             None \<Rightarrow> None
           | Some b \<Rightarrow> (case raw_committer b of None \<Rightarrow> None | Some a \<Rightarrow> actor_date a)))"

text \<open>
  One tag: the date of its commit, or the time of the call when the lookup throws, is
  refused, or carries no date (a missing \<^verbatim>\<open>commit\<close> object throws inside the inner
  \<^verbatim>\<open>try\<close>, whose \<^verbatim>\<open>catch\<close> pushes the same entry).
\<close>

definition push_tag ::
  "env \<Rightarrow> string \<Rightarrow> string \<Rightarrow> GithubRepoData \<Rightarrow> string \<Rightarrow> GithubApiTag
     \<Rightarrow> latest_tag list \<Rightarrow> state \<Rightarrow> latest_tag list \<times> state" where
  "push_tag e GITHUB_API_BASE' token repoData fullName tag tags s =
     (let (found, s1) =
            (case fetchCommitDetails e fullName (tag_sha tag) token GITHUB_API_BASE' s of
               (Inl msg, s1) \<Rightarrow> (None, s1)
             | (Inr commitDetail, s1) \<Rightarrow> (committer_date commitDetail, s1))
      in if truthy found then
           (tags @ [\<lparr>lt_name = repo_name repoData @ ''/'' @ tag_name tag, lt_date = the found\<rparr>], s1)
         else
           (let (t, s2) = new_Date e s1
            in (tags @ [\<lparr>lt_name = repo_name repoData @ ''/'' @ tag_name tag,
                         lt_date = toISOString e t\<rparr>], s2)))"

fun push_tags ::
  "env \<Rightarrow> string \<Rightarrow> string \<Rightarrow> GithubRepoData \<Rightarrow> string \<Rightarrow> GithubApiTag list
     \<Rightarrow> latest_tag list \<Rightarrow> state \<Rightarrow> latest_tag list \<times> state" where
  "push_tags e base token repoData fullName [] tags s = (tags, s)"
| "push_tags e base token repoData fullName (tag # rest) tags s =
     (let (tags1, s1) = push_tag e base token repoData fullName tag tags s
      in push_tags e base token repoData fullName rest tags1 s1)"

text \<open>The second \<^verbatim>\<open>try\<close> of the loop body.\<close>

definition collect_tags ::
  "env \<Rightarrow> string \<Rightarrow> string \<Rightarrow> GithubRepoData \<Rightarrow> string \<Rightarrow> latest_tag list \<Rightarrow> state
     \<Rightarrow> latest_tag list \<times> state" where
  "collect_tags e GITHUB_API_BASE' token repoData fullName tags s =
     (case do_fetch (fetch_tags e) (GITHUB_API_BASE' @ ''/repos/'' @ fullName @ ''/tags?per_page=5'') s of
        (Rejected msg, s1) \<Rightarrow> (tags, s1)
      | (Responded tagsResponse, s1) \<Rightarrow>
          if ok tagsResponse then
            (case body_json tagsResponse of
               Inr (Items page) \<Rightarrow> push_tags e GITHUB_API_BASE' token repoData fullName page tags s1
             | _ \<Rightarrow> (tags, s1))
          else (tags, s1))"

fun api_snapshot_loop ::
  "env \<Rightarrow> string \<Rightarrow> string \<Rightarrow> GithubRepoData list \<Rightarrow> api_totals \<Rightarrow> state
     \<Rightarrow> api_totals \<times> state" where
  "api_snapshot_loop e base token [] acc s = (acc, s)"
| "api_snapshot_loop e base token (repoData # rest) acc s =
     (if \<not> truthy (repo_fullName repoData) then api_snapshot_loop e base token rest acc s
      else
        (let fullName = the (repo_fullName repoData);
             acc1 = acc\<lparr>overallApiProcessedRepoFullNames :=
                      overallApiProcessedRepoFullNames acc @ [fullName]\<rparr>;
             (acc2, s1) = collect_languages e base fullName acc1 s;
             (tags, s2) = collect_tags e base token repoData fullName (overallLatestTags acc2) s1
         in api_snapshot_loop e base token rest (acc2\<lparr>overallLatestTags := tags\<rparr>) s2))"

text \<open>
  \<^verbatim>\<open>overallLatestTags.sort(...)\<close>, newest first; the sort of the platform is stable, as
  \<^const>\<open>sort_key\<close> is.
\<close>

definition sort_tags :: "env \<Rightarrow> latest_tag list \<Rightarrow> latest_tag list" where
  "sort_tags e tags = sort_key (\<lambda>t. - date_value e (lt_date t)) tags"

subsection \<open>The cloned line counter\<close>

definition CODE_EXTENSIONS_FOR_LOC_COUNT :: "string list" where
  "CODE_EXTENSIONS_FOR_LOC_COUNT = [''.py'', ''.java'', ''.js'', ''.ts'', ''.cpp'', ''.c'', ''.h'',
     ''.html'', ''.css'', ''.go'', ''.rb'', ''.php'', ''.tsx'', ''.jsx'', ''.vue'', ''.svelte'', ''.mjs'',
     ''.cjs'', ''.cs'', ''.swift'', ''.kt'', ''.kts'', ''.rs'', ''.scala'', ''.pl'', ''.pm'', ''.lua'',
     ''.dart'']"

definition IGNORED_DIRS_FOR_LOC_COUNT :: "string list" where
  "IGNORED_DIRS_FOR_LOC_COUNT = [''.git'', ''node_modules'', ''dist'', ''build'', ''target'', ''out'',
     ''vendor'', ''coverage'', ''.next'', ''.nuxt'', ''.svelte-kit'', ''venv'', ''.venv'', ''Pods'',
     ''Carthage'', ''obj'', ''bin'', ''.settings'', ''.vscode'', ''__pycache__'', ''.DS_Store'']"

text \<open>\<^verbatim>\<open>toLowerCase\<close>, \<^verbatim>\<open>trim\<close> and \<^verbatim>\<open>path.extname\<close> on ASCII names.\<close>

definition lower_char :: "char \<Rightarrow> char" where
  "lower_char c = (if 65 \<le> (of_char c :: nat) \<and> (of_char c :: nat) \<le> 90
                   then char_of ((of_char c :: nat) + 32) else c)"

definition toLowerCase :: "string \<Rightarrow> string" where
  "toLowerCase s = map lower_char s"

definition is_space :: "char \<Rightarrow> bool" where
  "is_space c = ((of_char c :: nat) \<in> {9, 10, 11, 12, 13, 32})"

definition blank_line :: "string \<Rightarrow> bool" where
  "blank_line line = list_all is_space line"

text \<open>
  \<^verbatim>\<open>path.extname(name)\<close> for an entry name that does not begin with a dot (the walk skips
  those before it asks): from the last dot on, or empty without a dot.
\<close>

definition extname :: "string \<Rightarrow> string" where
  "extname name =
     (if CHR ''.'' \<in> set name then CHR ''.'' # rev (takeWhile (\<lambda>c. c \<noteq> CHR ''.'') (rev name))
      else [])"

definition countLinesInFile :: "string option \<Rightarrow> int" where
  "countLinesInFile content =
     (case content of
        None \<Rightarrow> 0
      | Some text \<Rightarrow> int (length (filter (\<lambda>line. \<not> blank_line line) (split_on (CHR 0x0A) text))))"

definition skipped :: "string \<Rightarrow> bool" where
  "skipped name =
     (prefix ''.'' (toLowerCase name) \<or> toLowerCase name \<in> set IGNORED_DIRS_FOR_LOC_COUNT)"

text \<open>The totals of \<^verbatim>\<open>calculateLocInDirectory\<close>: \<^verbatim>\<open>totalLines\<close> and \<^verbatim>\<open>linesByLanguage\<close>.\<close>

type_synonym loc_data = "int \<times> (string \<times> int) list"

definition add_lines :: "string \<Rightarrow> int \<Rightarrow> loc_data \<Rightarrow> loc_data" where
  "add_lines ext lineCount acc =
     (fst acc + lineCount, AList.update ext (or0 (map_of (snd acc) ext) + lineCount) (snd acc))"

text \<open>
  \<^verbatim>\<open>walk\<close> over the entries of a directory. A directory that cannot be read (\<open>None\<close>) ends
  that \<^verbatim>\<open>walk\<close> in its own \<^verbatim>\<open>catch\<close>; a file that cannot be read counts zero lines.
\<close>

function walk :: "fs_entry list \<Rightarrow> loc_data \<Rightarrow> loc_data" where
  "walk [] acc = acc"
| "walk (Dir name None # entries) acc = walk entries acc"
| "walk (Dir name (Some sub) # entries) acc =
     (if skipped name then walk entries acc else walk entries (walk sub acc))"
| "walk (File name content # entries) acc =
     (if skipped name then walk entries acc
      else if toLowerCase (extname name) \<in> set CODE_EXTENSIONS_FOR_LOC_COUNT
      then walk entries (add_lines (toLowerCase (extname name)) (countLinesInFile content) acc)
      else walk entries acc)"
| "walk (Special name # entries) acc = walk entries acc"
  by pat_completeness auto
termination
  by (relation "measure (\<lambda>(entries, acc). size_list size entries)") auto

definition calculateLocInDirectory :: "fs_entry list option \<Rightarrow> loc_data" where
  "calculateLocInDirectory directory =
     (case directory of None \<Rightarrow> (0, []) | Some entries \<Rightarrow> walk entries (0, []))"

text \<open>The accumulators of the second loop.\<close>

record cloned_totals =
  overallClonedActualTotalLines :: int
  overallClonedActualLinesByLanguage :: "(string \<times> int) list"
  overallClonedProcessedRepoFullNames :: "string list"
  clonedLoCTimestamp :: "string option"

fun add_loc :: "(string \<times> int) list \<Rightarrow> (string \<times> int) list \<Rightarrow> (string \<times> int) list" where
  "add_loc [] byLanguage = byLanguage"
| "add_loc ((langExt, n) # linesByLanguage) byLanguage =
     add_loc linesByLanguage (AList.update langExt (or0 (map_of byLanguage langExt) + n) byLanguage)"

text \<open>
  The body of the \<^verbatim>\<open>try\<close> after the directory exists: clone, count, add. A clone that
  fails or times out throws to the \<^verbatim>\<open>catch\<close>, which only logs.
\<close>

definition clone_and_count ::
  "env \<Rightarrow> string \<Rightarrow> string \<Rightarrow> string \<Rightarrow> cloned_totals \<Rightarrow> state \<Rightarrow> cloned_totals \<times> state" where
  "clone_and_count e repoCloneUrl fullName tempRepoPath acc s =
     (case git_clone e (trace s) repoCloneUrl tempRepoPath of
        CloneFailed msg \<Rightarrow> (acc, emit (GitClone repoCloneUrl tempRepoPath) s)
      | CloneTimeout msg \<Rightarrow> (acc, emit (GitClone repoCloneUrl tempRepoPath) s)
      | Cloned directory \<Rightarrow>
          (let s1 = emit (GitClone repoCloneUrl tempRepoPath) s;
               locData = calculateLocInDirectory directory;
               acc1 = acc\<lparr>overallClonedActualTotalLines := overallClonedActualTotalLines acc + fst locData,
                          overallClonedActualLinesByLanguage :=
                            add_loc (snd locData) (overallClonedActualLinesByLanguage acc),
                          overallClonedProcessedRepoFullNames :=
                            overallClonedProcessedRepoFullNames acc @ [fullName]\<rparr>
           in if truthy (clonedLoCTimestamp acc1) then (acc1, s1)
              else (let (t, s2) = new_Date e s1
                    in (acc1\<lparr>clonedLoCTimestamp := Some (toISOString e t)\<rparr>, s2))))"

text \<open>
  The \<^verbatim>\<open>finally\<close>: \<^verbatim>\<open>tempDirObj.removeCallback()\<close>, whose own failure is caught and logged
  and leaves the directory.
\<close>

definition remove_temp :: "env \<Rightarrow> string \<Rightarrow> state \<Rightarrow> state" where
  "remove_temp e tempRepoPath s =
     (case removeCallback e (trace s) tempRepoPath of
        Some msg \<Rightarrow> emit (Remove tempRepoPath (Some msg)) s
      | None \<Rightarrow> emit (Remove tempRepoPath None) (s\<lparr>tmp_dirs := removeAll tempRepoPath (tmp_dirs s)\<rparr>))"

text \<open>
  One repository of the second loop: \<^verbatim>\<open>tmp.dirSync\<close>, then the \<^verbatim>\<open>try\<close> body, then the
  \<^verbatim>\<open>finally\<close>. When \<^verbatim>\<open>tmp.dirSync\<close> throws, \<^verbatim>\<open>tempDirObj\<close> is still \<^verbatim>\<open>null\<close> and nothing
  is removed.
\<close>

definition clone_repo ::
  "env \<Rightarrow> string \<Rightarrow> GithubRepoData \<Rightarrow> cloned_totals \<Rightarrow> state \<Rightarrow> cloned_totals \<times> state" where
  "clone_repo e token repo acc s =
     (let url = the (repo_url repo);
          repoCloneUrl = (if prefix ''https://'' url \<and> token \<noteq> []
                          then ''https://x-access-token:'' @ token @ ''@'' @ drop 8 url
                          else url)
      in case tmp_dirSync e (trace s) of
           Inl msg \<Rightarrow> (acc, emit (TmpDir (Inl msg)) s)
         | Inr tempRepoPath \<Rightarrow>
             (let s1 = emit (TmpDir (Inr tempRepoPath)) (s\<lparr>tmp_dirs := tmp_dirs s @ [tempRepoPath]\<rparr>);
                  (acc1, s2) = clone_and_count e repoCloneUrl (the (repo_fullName repo)) tempRepoPath acc s1
              in (acc1, remove_temp e tempRepoPath s2)))"

fun cloned_loc_loop ::
  "env \<Rightarrow> string \<Rightarrow> GithubRepoData list \<Rightarrow> cloned_totals \<Rightarrow> state \<Rightarrow> cloned_totals \<times> state" where
  "cloned_loc_loop e token [] acc s = (acc, s)"
| "cloned_loc_loop e token (repo # rest) acc s =
     (if \<not> truthy (repo_url repo) \<or> \<not> truthy (repo_fullName repo)
      then cloned_loc_loop e token rest acc s
      else (let (acc1, s1) = clone_repo e token repo acc s
            in cloned_loc_loop e token rest acc1 s1))"

subsection \<open>The snapshot record\<close>

definition overallSnapshotData ::
  "env \<Rightarrow> string \<Rightarrow> api_totals \<Rightarrow> cloned_totals \<Rightarrow> GithubMetricsPeriodData" where
  "overallSnapshotData e overallApiTimestamp api cloned =
     no_data\<lparr>
       apiTotalBytes_current := Some (overallApiTotalBytes api),
       apiBytesByLanguage_current := Some (overallApiBytesByLanguage api),
       apiEstimatedTotalLines_current :=
         Some (Math_round_div (overallApiTotalBytes api) ESTIMATED_BYTES_PER_LINE),
       apiEstimatedLinesByLanguage_current :=
         Some (map (\<lambda>(lang, n). (lang, Math_round_div n ESTIMATED_BYTES_PER_LINE))
                 (overallApiBytesByLanguage api)),
       apiProcessedRepoFullNames := Some (overallApiProcessedRepoFullNames api),
       apiLastRefreshed := Some overallApiTimestamp,
       clonedActualTotalLines := Some (overallClonedActualTotalLines cloned),
       clonedActualLinesByLanguage := Some (overallClonedActualLinesByLanguage cloned),
       clonedProcessedRepoFullNames := Some (overallClonedProcessedRepoFullNames cloned),
       clonedLoCLastRefreshed := clonedLoCTimestamp cloned,
       latestTags := Some (take 10 (sort_tags e (overallLatestTags api)))\<rparr>"

text \<open>
  Lines 872 to 989 of \<^verbatim>\<open>refreshGithubMetrics\<close>: the timestamp, the two loops, and the save
  of \<^verbatim>\<open>overall_snapshot\<close>, which may throw.
\<close>

definition snapshot_pass ::
  "env \<Rightarrow> string \<Rightarrow> string \<Rightarrow> GithubRepoData list \<Rightarrow> state \<Rightarrow> (string + unit) \<times> state" where
  "snapshot_pass e GITHUB_API_BASE' token reposToProcessForMetrics s =
     (let (t, s1) = new_Date e s;
          (api, s2) = api_snapshot_loop e GITHUB_API_BASE' token reposToProcessForMetrics
             \<lparr>overallApiTotalBytes = 0, overallApiBytesByLanguage = [], overallLatestTags = [],
              overallApiProcessedRepoFullNames = []\<rparr> s1;
          (cloned, s3) = cloned_loc_loop e token reposToProcessForMetrics
             \<lparr>overallClonedActualTotalLines = 0, overallClonedActualLinesByLanguage = [],
              overallClonedProcessedRepoFullNames = [], clonedLoCTimestamp = None\<rparr> s2
      in saveGithubTeamMetric e ''overall_snapshot''
           (overallSnapshotData e (toISOString e t) api cloned) s3)"

subsection \<open>Dates\<close>

text \<open>
  The \<^verbatim>\<open>Date\<close> of the platform on time values (milliseconds since the epoch), as
  ECMAScript defines \<^verbatim>\<open>getDate\<close> and \<^verbatim>\<open>setDate\<close>: both work on local time.
  \<open>DateFromTime\<close> is the day of the month in the proleptic Gregorian calendar.
\<close>

definition msPerDay :: int where
  "msPerDay = 86400000"

definition Day :: "int \<Rightarrow> int" where
  "Day t = t div msPerDay"

definition TimeWithinDay :: "int \<Rightarrow> int" where
  "TimeWithinDay t = t mod msPerDay"

definition DateFromTime :: "int \<Rightarrow> int" where
  "DateFromTime t =
     (let doe = (Day t + 719468) mod 146097;
          yoe = (doe - doe div 1460 + doe div 36524 - doe div 146096) div 365;
          doy = doe - (365 * yoe + yoe div 4 - yoe div 100);
          mp = (5 * doy + 2) div 153
      in doy - (153 * mp + 2) div 5 + 1)"

definition LocalTime :: "env \<Rightarrow> int \<Rightarrow> int" where
  "LocalTime e t = t + LocalTZA e t True"

definition UTC :: "env \<Rightarrow> int \<Rightarrow> int" where
  "UTC e t = t - LocalTZA e t False"

definition getDate :: "env \<Rightarrow> int \<Rightarrow> int" where
  "getDate e t = DateFromTime (LocalTime e t)"

text \<open>
  \<^verbatim>\<open>setDate(dt)\<close>: day \<open>dt\<close> of the month of the local time, counted from the first of that
  month (so a \<open>dt\<close> below one reaches into earlier months), at the same time of day.
\<close>

definition setDate :: "env \<Rightarrow> int \<Rightarrow> int \<Rightarrow> int" where
  "setDate e t dt =
     (let local = LocalTime e t
      in UTC e ((Day local - DateFromTime local + dt) * msPerDay + TimeWithinDay local))"

subsection \<open>The windowed commit aggregator\<close>

definition periods :: "(string \<times> int) list" where
  "periods = [(''7days'', 7), (''30days'', 30), (''60days'', 60), (''90days'', 90),
              (''180days'', 180), (''365days'', 365)]"

text \<open>A \<^verbatim>\<open>Set<string>\<close> keeps its members once, in the order they were first added.\<close>

definition Set_add :: "string \<Rightarrow> string list \<Rightarrow> string list" where
  "Set_add x members = (if x \<in> set members then members else members @ [x])"

record period_totals =
  linesAddedInPeriod :: int
  uniqueCommittersInPeriod :: "string list"

text \<open>\<^verbatim>\<open>commit.commit?.author?.name\<close> and \<^verbatim>\<open>commit.commit?.committer?.name\<close>.\<close>

definition raw_author_name :: "GithubApiCommit \<Rightarrow> string option" where
  "raw_author_name c =
     (case commit c of
        None \<Rightarrow> None
      | Some b \<Rightarrow> (case raw_author b of None \<Rightarrow> None | Some a \<Rightarrow> actor_name a))"

definition raw_committer_name :: "GithubApiCommit \<Rightarrow> string option" where
  "raw_committer_name c =
     (case commit c of
        None \<Rightarrow> None
      | Some b \<Rightarrow> (case raw_committer b of None \<Rightarrow> None | Some a \<Rightarrow> actor_name a))"

text \<open>
  \<^verbatim>\<open>commit.author?.login || commit.committer?.login || commit.commit?.author?.name ||
  commit.commit?.committer?.name || 'unknown_committer'\<close>.
\<close>

definition committerLogin :: "GithubApiCommit \<Rightarrow> string" where
  "committerLogin c =
     the (or_else (author c)
           (or_else (committer c)
             (or_else (raw_author_name c)
               (or_else (raw_committer_name c) (Some ''unknown_committer'')))))"

text \<open>
  \<^verbatim>\<open>commitStats\<close> of one commit: the statistics of the list entry, else those of one
  detail fetch when the commit has a \<^verbatim>\<open>sha\<close>; the fetch may throw (caught) or be refused.
\<close>

definition commit_stats_of ::
  "env \<Rightarrow> string \<Rightarrow> string \<Rightarrow> string \<Rightarrow> GithubApiCommit \<Rightarrow> state
     \<Rightarrow> commit_stats option \<times> state" where
  "commit_stats_of e GITHUB_API_BASE' token fullName c s =
     (if stats c = None \<and> sha c \<noteq> [] then
        (case fetchCommitDetails e fullName (sha c) token GITHUB_API_BASE' s of
           (Inl msg, s1) \<Rightarrow> (None, s1)
         | (Inr detailedCommit, s1) \<Rightarrow>
             ((case detailedCommit of None \<Rightarrow> None | Some d \<Rightarrow> stats d), s1))
      else (stats c, s))"

definition process_commit ::
  "env \<Rightarrow> string \<Rightarrow> string \<Rightarrow> string \<Rightarrow> GithubApiCommit \<Rightarrow> period_totals \<Rightarrow> state
     \<Rightarrow> period_totals \<times> state" where
  "process_commit e GITHUB_API_BASE' token fullName c acc s =
     (let acc1 = (if committerLogin c \<noteq> ''unknown_committer''
                  then acc\<lparr>uniqueCommittersInPeriod :=
                             Set_add (committerLogin c) (uniqueCommittersInPeriod acc)\<rparr>
                  else acc);
          (commitStats, s1) = commit_stats_of e GITHUB_API_BASE' token fullName c s
      in case commitStats of
           None \<Rightarrow> (acc1, s1)
         | Some st \<Rightarrow>
             if additions st \<noteq> 0
             then (acc1\<lparr>linesAddedInPeriod := linesAddedInPeriod acc1 + additions st\<rparr>, s1)
             else (acc1, s1))"

fun process_commits ::
  "env \<Rightarrow> string \<Rightarrow> string \<Rightarrow> string \<Rightarrow> GithubApiCommit list \<Rightarrow> period_totals \<Rightarrow> state
     \<Rightarrow> period_totals \<times> state" where
  "process_commits e base token fullName [] acc s = (acc, s)"
| "process_commits e base token fullName (c # pageCommits) acc s =
     (let (acc1, s1) = process_commit e base token fullName c acc s
      in process_commits e base token fullName pageCommits acc1 s1)"

text \<open>
  One turn of the \<^verbatim>\<open>do ... while (commitsUrl && pageCommits.length > 0)\<close> loop. Every way
  out of the loop (a \<^verbatim>\<open>break\<close>, an exception caught by the \<^verbatim>\<open>catch\<close> around the loop, the
  loop condition) goes on with the next repository and keeps what was added so far, so a
  turn gives the totals and the next \<^verbatim>\<open>commitsUrl\<close>, or \<open>None\<close> to leave the loop.
\<close>

definition commits_page ::
  "env \<Rightarrow> string \<Rightarrow> string \<Rightarrow> string \<Rightarrow> string \<Rightarrow> period_totals \<Rightarrow> state
     \<Rightarrow> (period_totals \<times> string option) \<times> state" where
  "commits_page e GITHUB_API_BASE' token fullName commitsUrl acc s =
     (case do_fetch (fetch_commits e) commitsUrl s of
        (Rejected msg, s1) \<Rightarrow> ((acc, None), s1)
      | (Responded commitsResponse, s1) \<Rightarrow>
          if \<not> ok commitsResponse then ((acc, None), s1)
          else
            (case body_json commitsResponse of
               Inr (Items pageCommits) \<Rightarrow>
                 (let (acc1, s2) = process_commits e GITHUB_API_BASE' token fullName pageCommits acc s1;
                      nextUrl = next_link (link_header commitsResponse)
                  in if truthy nextUrl \<and> pageCommits \<noteq> [] then ((acc1, nextUrl), s2)
                     else ((acc1, None), s2))
             | _ \<Rightarrow> ((acc, None), s1)))"

partial_function (option) commits_loop ::
  "env \<Rightarrow> string \<Rightarrow> string \<Rightarrow> string \<Rightarrow> string \<Rightarrow> period_totals \<Rightarrow> state
     \<Rightarrow> (period_totals \<times> state) option" where
  "commits_loop e base token fullName commitsUrl acc s =
     (case commits_page e base token fullName commitsUrl acc s of
        ((acc1, None), s1) \<Rightarrow> Some (acc1, s1)
      | ((acc1, Some nextUrl), s1) \<Rightarrow> commits_loop e base token fullName nextUrl acc1 s1)"

declare commits_loop.simps [code]

text \<open>The repositories of one window; \<open>None\<close> when a commit listing never ends.\<close>

fun period_repos ::
  "env \<Rightarrow> string \<Rightarrow> string \<Rightarrow> int \<Rightarrow> int \<Rightarrow> GithubRepoData list
     \<Rightarrow> period_totals \<times> string list \<Rightarrow> state
     \<Rightarrow> ((period_totals \<times> string list) \<times> state) option" where
  "period_repos e base token startDate endDate [] acc s = Some (acc, s)"
| "period_repos e base token startDate endDate (repo # rest) acc s =
     (if \<not> truthy (repo_fullName repo) then period_repos e base token startDate endDate rest acc s
      else
        (let fullName = the (repo_fullName repo);
             periodApiProcessedRepoFullNames = snd acc @ [fullName];
             commitsUrl = base @ ''/repos/'' @ fullName @ ''/commits?since='' @ toISOString e startDate
                          @ ''&until='' @ toISOString e endDate @ ''&per_page=100''
         in case commits_loop e base token fullName commitsUrl (fst acc) s of
              None \<Rightarrow> None
            | Some (totals, s1) \<Rightarrow>
                period_repos e base token startDate endDate rest
                  (totals, periodApiProcessedRepoFullNames) s1))"

definition periodData ::
  "env \<Rightarrow> int \<Rightarrow> int \<Rightarrow> string \<Rightarrow> period_totals \<times> string list \<Rightarrow> GithubMetricsPeriodData" where
  "periodData e startDate endDate periodicMetricsTimestamp acc =
     no_data\<lparr>
       linesAdded_period := Some (linesAddedInPeriod (fst acc)),
       uniqueCommitters_period := Some (int (length (uniqueCommittersInPeriod (fst acc)))),
       uniqueCommitterNames_period := Some (uniqueCommittersInPeriod (fst acc)),
       periodStartDate := Some (toISOString e startDate),
       periodEndDate := Some (toISOString e endDate),
       periodLastRefreshed := Some periodicMetricsTimestamp,
       apiProcessedRepoFullNames := Some (snd acc)\<rparr>"

text \<open>
  The two readings of the clock that open a window: \<^verbatim>\<open>endDate = new Date()\<close>,
  \<^verbatim>\<open>startDate = new Date()\<close>, then \<^verbatim>\<open>startDate.setDate(endDate.getDate() - period.days)\<close>.
\<close>

definition period_bounds :: "env \<Rightarrow> int \<Rightarrow> state \<Rightarrow> (int \<times> int) \<times> state" where
  "period_bounds e days s =
     (let (endDate, s1) = new_Date e s;
          (startDate, s2) = new_Date e s1
      in ((setDate e startDate (getDate e endDate - days), endDate), s2))"

text \<open>One window: its bounds, its repositories, its record, its save (which may throw).\<close>

definition run_period ::
  "env \<Rightarrow> string \<Rightarrow> string \<Rightarrow> GithubRepoData list \<Rightarrow> string \<Rightarrow> string \<times> int \<Rightarrow> state
     \<Rightarrow> ((string + unit) \<times> state) option" where
  "run_period e base token reposToProcessForMetrics periodicMetricsTimestamp period s =
     (let ((startDate, endDate), s1) = period_bounds e (snd period) s
      in case period_repos e base token startDate endDate reposToProcessForMetrics
                (\<lparr>linesAddedInPeriod = 0, uniqueCommittersInPeriod = []\<rparr>, []) s1 of
           None \<Rightarrow> None
         | Some (acc, s2) \<Rightarrow>
             Some (saveGithubTeamMetric e (fst period)
                     (periodData e startDate endDate periodicMetricsTimestamp acc) s2))"

fun run_periods ::
  "env \<Rightarrow> string \<Rightarrow> string \<Rightarrow> GithubRepoData list \<Rightarrow> string \<Rightarrow> (string \<times> int) list \<Rightarrow> state
     \<Rightarrow> ((string + unit) \<times> state) option" where
  "run_periods e base token repos stamp [] s = Some (Inr (), s)"
| "run_periods e base token repos stamp (period # rest) s =
     (case run_period e base token repos stamp period s of
        None \<Rightarrow> None
      | Some (Inl msg, s1) \<Rightarrow> Some (Inl msg, s1)
      | Some (Inr u, s1) \<Rightarrow> run_periods e base token repos stamp rest s1)"

subsection \<open>The refresh entry point\<close>

record refresh_result =
  success :: bool
  message :: string
  data :: "(string \<times> GithubMetricsPeriodData) list"

text \<open>\<^verbatim>\<open>metrics[key]\<close> spread into an object: \<^verbatim>\<open>{...undefined}\<close> is \<^verbatim>\<open>{}\<close>.\<close>

definition spread :: "(string \<times> GithubMetricsPeriodData) list \<Rightarrow> string \<Rightarrow> GithubMetricsPeriodData" where
  "spread metrics key = (case map_of metrics key of None \<Rightarrow> no_data | Some d \<Rightarrow> d)"

definition not_configured :: string where
  "not_configured = ''GitHub configuration (Root URL or Access Token) not fully configured for this team.''"

definition none_selected :: string where
  "none_selected = ''No repositories selected or configured for this team. GitHub metrics cleared.''"

definition none_to_process :: string where
  "none_to_process = ''No repositories to process after selection logic. GitHub metrics cleared.''"

text \<open>The branch taken when the configuration is incomplete (lines 833 to 838).\<close>

definition config_missing_branch ::
  "env \<Rightarrow> (string \<times> GithubMetricsPeriodData) list \<Rightarrow> state \<Rightarrow> (string + refresh_result) \<times> state" where
  "config_missing_branch e existingMetrics s =
     (let (t, s1) = new_Date e s
      in case saveGithubTeamMetric e ''overall_snapshot''
                ((spread existingMetrics ''overall_snapshot'')
                   \<lparr>info := Some not_configured, apiLastRefreshed := Some (toISOString e t)\<rparr>) s1 of
           (Inl msg, s2) \<Rightarrow> (Inl msg, s2)
         | (Inr u, s2) \<Rightarrow>
             (Inr \<lparr>success = False, message = not_configured,
                   data = AList.update ''overall_snapshot''
                            ((spread existingMetrics ''overall_snapshot'')\<lparr>info := Some not_configured\<rparr>)
                            existingMetrics\<rparr>, s2))"

text \<open>The two branches that clear the metrics (lines 853 to 867), with their message.\<close>

definition cleared_branch :: "env \<Rightarrow> string \<Rightarrow> state \<Rightarrow> (string + refresh_result) \<times> state" where
  "cleared_branch e msg s =
     (case clearGithubTeamMetrics e s of
        (Inl err, s1) \<Rightarrow> (Inl err, s1)
      | (Inr u, s1) \<Rightarrow>
          (let (t, s2) = new_Date e s1
           in case saveGithubTeamMetric e ''overall_snapshot''
                     (no_data\<lparr>info := Some msg, apiLastRefreshed := Some (toISOString e t)\<rparr>) s2 of
                (Inl err, s3) \<Rightarrow> (Inl err, s3)
              | (Inr u, s3) \<Rightarrow>
                  (Inr \<lparr>success = True, message = msg,
                        data = [(''overall_snapshot'', no_data\<lparr>info := Some msg\<rparr>)]\<rparr>, s3)))"

text \<open>Lines 872 to 1088: the three passes over the repositories and the read-back.\<close>

definition aggregate ::
  "env \<Rightarrow> string \<Rightarrow> string \<Rightarrow> GithubRepoData list \<Rightarrow> state
     \<Rightarrow> ((string + refresh_result) \<times> state) option" where
  "aggregate e GITHUB_API_BASE' token reposToProcessForMetrics s =
     (case snapshot_pass e GITHUB_API_BASE' token reposToProcessForMetrics s of
        (Inl err, s1) \<Rightarrow> Some (Inl err, s1)
      | (Inr u, s1) \<Rightarrow>
          (let (t, s2) = new_Date e s1
           in case run_periods e GITHUB_API_BASE' token reposToProcessForMetrics (toISOString e t)
                     periods s2 of
                None \<Rightarrow> None
              | Some (Inl err, s3) \<Rightarrow> Some (Inl err, s3)
              | Some (Inr u, s3) \<Rightarrow>
                  (case getGithubTeamMetricsFromDb e s3 of
                     (Inl err, s4) \<Rightarrow> Some (Inl err, s4)
                   | (Inr updatedMetrics, s4) \<Rightarrow>
                       Some (Inr \<lparr>success = True,
                          message = ''GitHub metrics (API & Cloned LoC) refreshed and saved.'',
                          data = updatedMetrics\<rparr>, s4))))"

text \<open>
  The body of the \<^verbatim>\<open>try\<close> after \<^verbatim>\<open>existingMetrics\<close> was read. The second argument is
  \<^verbatim>\<open>repoIdentifiersToRefreshArg\<close>, which the caller may leave out.
\<close>

definition refresh_try ::
  "env \<Rightarrow> GithubRepoData list option \<Rightarrow> (string \<times> GithubMetricsPeriodData) list \<Rightarrow> state
     \<Rightarrow> ((string + refresh_result) \<times> state) option" where
  "refresh_try e repoIdentifiersToRefreshArg existingMetrics s =
     (case getGithubConfigFromDb e s of
        (Inl err, s1) \<Rightarrow> Some (Inl err, s1)
      | (Inr githubConfig, s1) \<Rightarrow>
          if githubConfig = None \<or> accessToken (the githubConfig) = []
             \<or> \<not> truthy (rootUrl (the githubConfig))
          then Some (config_missing_branch e existingMetrics s1)
          else
            (let root_url = the (rootUrl (the githubConfig));
                 token = accessToken (the githubConfig);
                 savedSelectedReposConfig = selectedRepos (the githubConfig)
             in case GITHUB_API_BASE e root_url of
                  Inl err \<Rightarrow> Some (Inl err, s1)
                | Inr base \<Rightarrow>
                    (case (if repoIdentifiersToRefreshArg \<noteq> None \<and> the repoIdentifiersToRefreshArg \<noteq> []
                           then Some (the repoIdentifiersToRefreshArg)
                           else if savedSelectedReposConfig \<noteq> [] then Some savedSelectedReposConfig
                           else None) of
                       None \<Rightarrow> Some (cleared_branch e none_selected s1)
                     | Some reposToProcessForMetrics \<Rightarrow>
                         if reposToProcessForMetrics = [] then Some (cleared_branch e none_to_process s1)
                         else aggregate e base token reposToProcessForMetrics s1)))"

text \<open>The \<^verbatim>\<open>catch\<close> of \<^verbatim>\<open>refreshGithubMetrics\<close> (lines 1090 to 1114); it never throws.\<close>

definition refresh_catch ::
  "env \<Rightarrow> (string \<times> GithubMetricsPeriodData) list \<Rightarrow> string \<Rightarrow> state \<Rightarrow> refresh_result \<times> state" where
  "refresh_catch e existingMetrics err s =
     (let (currentMetricsReturn, s1) =
            (if existingMetrics = [] then
               (case getGithubTeamMetricsFromDb e s of
                  (Inl dbError, s1) \<Rightarrow>
                    ([(''overall_snapshot'', no_data\<lparr>info := Some
                         (''Refresh failed, and could not retrieve previous metrics: '' @ dbError)\<rparr>)], s1)
                | (Inr metrics, s1) \<Rightarrow> (metrics, s1))
             else (existingMetrics, s));
          errorMessage = (if err \<noteq> [] then err
                          else ''An unexpected error occurred while refreshing GitHub metrics.'');
          overall = spread currentMetricsReturn ''overall_snapshot'';
          (t, s2) = new_Date e s1;
          (saved, s3) = saveGithubTeamMetric e ''overall_snapshot''
             (overall\<lparr>info := Some (''Refresh failed: '' @ errorMessage),
                       apiLastRefreshed := Some (toISOString e t)\<rparr>) s2
      in (\<lparr>success = False, message = errorMessage,
           data = AList.update ''overall_snapshot''
                    (overall\<lparr>info := Some (''Refresh failed: '' @ errorMessage)\<rparr>)
                    currentMetricsReturn\<rparr>, s3))"

text \<open>
  \<^verbatim>\<open>refreshGithubMetrics\<close>. \<^verbatim>\<open>existingMetrics\<close> is \<^verbatim>\<open>{}\<close> in the \<^verbatim>\<open>catch\<close> when the first read
  threw, and what was read otherwise.
\<close>

definition refreshGithubMetrics ::
  "env \<Rightarrow> GithubRepoData list option \<Rightarrow> state \<Rightarrow> (refresh_result \<times> state) option" where
  "refreshGithubMetrics e repoIdentifiersToRefreshArg s =
     (case getGithubTeamMetricsFromDb e s of
        (Inl err, s1) \<Rightarrow> Some (refresh_catch e [] err s1)
      | (Inr existingMetrics, s1) \<Rightarrow>
          (case refresh_try e repoIdentifiersToRefreshArg existingMetrics s1 of
             None \<Rightarrow> None
           | Some (Inl err, s2) \<Rightarrow> Some (refresh_catch e existingMetrics err s2)
           | Some (Inr result, s2) \<Rightarrow> Some (result, s2)))"

subsection \<open>The read-back\<close>

definition or_NA :: "string option \<Rightarrow> string" where
  "or_NA v = (if truthy v then the v else ''N/A'')"

definition or_nil :: "'a list option \<Rightarrow> 'a list" where
  "or_nil v = (case v of None \<Rightarrow> [] | Some xs \<Rightarrow> xs)"

text \<open>The last loop of \<^verbatim>\<open>getGithubMetrics\<close>: every field but \<open>info\<close> gets its default.\<close>

definition with_defaults :: "GithubMetricsPeriodData \<Rightarrow> GithubMetricsPeriodData" where
  "with_defaults d =
     \<lparr>apiTotalBytes_current = Some (or0 (apiTotalBytes_current d)),
      apiBytesByLanguage_current = Some (or_nil (apiBytesByLanguage_current d)),
      apiEstimatedTotalLines_current = Some (or0 (apiEstimatedTotalLines_current d)),
      apiEstimatedLinesByLanguage_current = Some (or_nil (apiEstimatedLinesByLanguage_current d)),
      apiProcessedRepoFullNames = Some (or_nil (apiProcessedRepoFullNames d)),
      apiLastRefreshed = Some (or_NA (apiLastRefreshed d)),
      clonedActualTotalLines = Some (or0 (clonedActualTotalLines d)),
      clonedActualLinesByLanguage = Some (or_nil (clonedActualLinesByLanguage d)),
      clonedProcessedRepoFullNames = Some (or_nil (clonedProcessedRepoFullNames d)),
      clonedLoCLastRefreshed = Some (or_NA (clonedLoCLastRefreshed d)),
      latestTags = Some (or_nil (latestTags d)),
      linesAdded_period = Some (or0 (linesAdded_period d)),
      uniqueCommitters_period = Some (or0 (uniqueCommitters_period d)),
      uniqueCommitterNames_period = Some (or_nil (uniqueCommitterNames_period d)),
      periodStartDate = Some (or_NA (periodStartDate d)),
      periodEndDate = Some (or_NA (periodEndDate d)),
      periodLastRefreshed = Some (or_NA (periodLastRefreshed d)),
      info = info d\<rparr>"






subsection \<open>Notions used in the statements\<close>

text \<open>
  What the detail fetch of a commit contributes to the lines added: the \<^verbatim>\<open>additions\<close> of the
  statistics it returns, and zero when the fetch throws, is refused, does not parse, or
  carries no statistics.
\<close>

definition detail_additions :: "GithubApiCommit fetched \<Rightarrow> int" where
  "detail_additions f =
     (case f of
        Rejected msg \<Rightarrow> 0
      | Responded r \<Rightarrow>
          if ok r then
            (case body_json r of
               Inl msg \<Rightarrow> 0
             | Inr d \<Rightarrow> (case stats d of None \<Rightarrow> 0 | Some st \<Rightarrow> additions st))
          else 0)"

text \<open>
  The invariant of the first loop: the histogram has one entry per language, and its byte
  counts add up to the running total.
\<close>

definition balanced :: "api_totals \<Rightarrow> bool" where
  "balanced acc = (distinct (map fst (overallApiBytesByLanguage acc))
      \<and> sum_list (map snd (overallApiBytesByLanguage acc)) = overallApiTotalBytes acc)"

text \<open>
  An effect that leaves the process: a request to the hosting API, a clone, or work on a
  temporary directory. The clock and the database are not.
\<close>

definition upstream :: "event \<Rightarrow> bool" where
  "upstream ev = (case ev of NewDate t \<Rightarrow> False | Sql q r \<Rightarrow> False | _ \<Rightarrow> True)"

text \<open>
  A step that stays local: it adds only clock and database events, and leaves the
  configuration, the temporary directories and every row but \<^verbatim>\<open>overall_snapshot\<close> alone.
\<close>

definition local_step :: "state \<Rightarrow> state \<Rightarrow> bool" where
  "local_step s s' =
     ((\<exists>evs. trace s' = trace s @ evs \<and> list_all (\<lambda>ev. \<not> upstream ev) evs)
      \<and> github_config s' = github_config s \<and> tmp_dirs s' = tmp_dirs s
      \<and> (\<forall>k. k \<noteq> ''overall_snapshot'' \<longrightarrow> map_of (metric_rows s') k = map_of (metric_rows s) k))"

text \<open>The configuration row is missing, or lacks the token or the root reference.\<close>

definition incomplete :: "config_row option \<Rightarrow> bool" where
  "incomplete c = (case c of None \<Rightarrow> True
     | Some row \<Rightarrow> \<not> truthy (row_accessToken row) \<or> \<not> truthy (row_rootUrl row))"

text \<open>
  The message of a caught failure, as the \<^verbatim>\<open>catch\<close> block of \<^verbatim>\<open>refreshGithubMetrics\<close>
  reports it: \<^verbatim>\<open>error.message || "An unexpected error occurred ..."\<close>.
\<close>

definition failure_message :: "string \<Rightarrow> string" where
  "failure_message err = (if err \<noteq> [] then err
     else ''An unexpected error occurred while refreshing GitHub metrics.'')"

text \<open>
  The discipline of the temporary directories on a stretch of the trace, with \<open>held\<close> the
  directory that exists and is not yet removed: \<^verbatim>\<open>tmp.dirSync\<close> is only called when none is
  held, and \<^verbatim>\<open>removeCallback\<close> is called on the held directory before the stretch ends and
  before the next call of \<^verbatim>\<open>tmp.dirSync\<close>.
\<close>

fun released :: "string option \<Rightarrow> event list \<Rightarrow> bool" where
  "released held [] = (held = None)"
| "released held (TmpDir r # evs) =
     (held = None \<and> released (case r of Inl msg \<Rightarrow> None | Inr d \<Rightarrow> Some d) evs)"
| "released held (Remove d outcome # evs) = (held = Some d \<and> released None evs)"
| "released held (ev # evs) = released held evs"

text \<open>The directories whose \<^verbatim>\<open>removeCallback\<close> threw on a stretch of the trace.\<close>

fun failed_removals :: "event list \<Rightarrow> string list" where
  "failed_removals [] = []"
| "failed_removals (Remove d (Some msg) # evs) = d # failed_removals evs"
| "failed_removals (ev # evs) = failed_removals evs"

text \<open>
  An answer to a repository-listing request that ends the loop of
  \<^verbatim>\<open>fetchGithubReposFromApi\<close>: the request is rejected, the status is not 2xx, the body does
  not parse or is not an array (the call throws), or it is an array with no
  \<^verbatim>\<open>rel="next"\<close> link (the call returns).
\<close>

definition ends_listing :: "'a listing fetched \<Rightarrow> bool" where
  "ends_listing answer =
     (case answer of
        Rejected msg \<Rightarrow> True
      | Responded r \<Rightarrow>
          \<not> ok r \<or> (case body_json r of
                       Inl msg \<Rightarrow> True
                     | Inr (Items page) \<Rightarrow> next_link (link_header r) = None
                     | Inr other \<Rightarrow> True))"



subsection \<open>Concrete environments\<close>

text \<open>
  The environments and states at which the theorems below are evaluated. In \<open>quiet_env\<close>
  the network is down, the database accepts every statement, the clock stands at
  2023-11-14T22:13:20.000Z, the host runs on UTC, and time values are printed as decimal
  milliseconds.
\<close>

definition quiet_env :: env where
  "quiet_env = \<lparr>now = (\<lambda>tr. 1700000000000), toISOString = (\<lambda>t. String_nat (nat t)), LocalTZA = (\<lambda>t u. 0),
     date_value = (\<lambda>s. 0), url_parts = (\<lambda>u. None), db_error = (\<lambda>tr q. None),
     fetch_repos = (\<lambda>tr u. Rejected ''offline''), fetch_languages = (\<lambda>tr u. Rejected ''offline''),
     fetch_tags = (\<lambda>tr u. Rejected ''offline''), fetch_commits = (\<lambda>tr u. Rejected ''offline''),
     fetch_commit = (\<lambda>tr u. Rejected ''offline''), tmp_dirSync = (\<lambda>tr. Inl ''ENOSPC''),
     git_clone = (\<lambda>tr u d. CloneFailed ''offline''), removeCallback = (\<lambda>tr d. None)\<rparr>"

definition empty_state :: state where
  "empty_state = \<lparr>trace = [], metric_rows = [], github_config = None, tmp_dirs = []\<rparr>"

definition page_of :: "'b \<Rightarrow> string option \<Rightarrow> 'b fetched" where
  "page_of j lnk = Responded \<lparr>status = 200, link_header = lnk, body_text = [], body_json = Inr j\<rparr>"

definition refused :: "nat \<Rightarrow> 'b fetched" where
  "refused st = Responded \<lparr>status = st, link_header = None, body_text = ''boom'',
     body_json = Inl ''Unexpected token''\<rparr>"

text \<open>A team whose root reference is \<^verbatim>\<open>https://github.com/acme\<close>, with a token.\<close>

definition acme_repo :: GithubApiRepo where
  "acme_repo = \<lparr>api_id = ''1'', api_name = ''a'', html_url = Some ''https://github.com/acme/a'',
     full_name = Some ''acme/a''\<rparr>"

definition acme_state :: state where
  "acme_state = empty_state\<lparr>github_config :=
     Some \<lparr>row_rootUrl = Some ''https://github.com/acme'', row_accessToken = Some ''t'',
           row_selectedRepos = SelEmpty\<rparr>\<rparr>"

text \<open>
  A server whose organization endpoint answers with the given status, and whose other
  repository listings hold one repository on one page.
\<close>

definition probe_env :: "nat \<Rightarrow> env" where
  "probe_env st = quiet_env\<lparr>url_parts := (\<lambda>u. Some (''https://github.com'', ''/acme'')),
     fetch_repos := (\<lambda>tr u.
        if u = ''https://api.github.com/orgs/acme/repos?type=all&per_page=100'' then refused st
        else page_of (Items [acme_repo]) None)\<rparr>"

text \<open>
  A server that answers every repository listing with one repository and a \<^verbatim>\<open>Link\<close>
  header whose \<^verbatim>\<open>rel="next"\<close> entry is always the same URL.
\<close>

definition echo_link :: string where
  "echo_link = ''<https://api.github.com/user/repos?page=2>; '' @ rel_next"

definition echo_env :: env where
  "echo_env = quiet_env\<lparr>fetch_repos := (\<lambda>tr u. page_of (Items [acme_repo]) (Some echo_link))\<rparr>"

text \<open>
  One repository \<^verbatim>\<open>acme/a\<close> whose commit listing holds three commits by two logins on one
  page: the first carries statistics with 10 additions, the other two carry none, and
  their detail fetches give 5 and 0 additions.
\<close>

definition commit_by :: "string \<Rightarrow> string \<Rightarrow> int option \<Rightarrow> GithubApiCommit" where
  "commit_by login s added =
     \<lparr>sha = s, commit = Some \<lparr>raw_author = None, raw_committer = None\<rparr>, author = Some login,
      committer = None,
      stats = map_option (\<lambda>n. \<lparr>additions = n, deletions = 0, total = n\<rparr>) added\<rparr>"

definition three_commits :: "GithubApiCommit list" where
  "three_commits = [commit_by ''alice'' ''s1'' (Some 10), commit_by ''bob'' ''s2'' None,
                    commit_by ''alice'' ''s3'' None]"

definition window_env :: env where
  "window_env = quiet_env\<lparr>
     fetch_commits := (\<lambda>tr u. page_of (Items three_commits) None),
     fetch_commit := (\<lambda>tr u.
        if u = ''https://api.github.com/repos/acme/a/commits/s2''
        then page_of (commit_by ''bob'' ''s2'' (Some 5)) None
        else page_of (commit_by ''alice'' ''s3'' (Some 0)) None)\<rparr>"

definition acme_a :: GithubRepoData where
  "acme_a = \<lparr>repo_id = ''1'', repo_name = ''a'', repo_url = None, repo_fullName = Some ''acme/a''\<rparr>"

text \<open>
  Two repositories whose language histograms are \<^verbatim>\<open>{Go: 1000, TS: 500}\<close> and
  \<^verbatim>\<open>{Go: 500}\<close>; neither has a \<^verbatim>\<open>url\<close>, so neither is cloned.
\<close>

definition acme_b :: GithubRepoData where
  "acme_b = \<lparr>repo_id = ''2'', repo_name = ''b'', repo_url = None, repo_fullName = Some ''acme/b''\<rparr>"

definition langs_env :: env where
  "langs_env = quiet_env\<lparr>fetch_languages := (\<lambda>tr u.
     if u = ''https://api.github.com/repos/acme/a/languages''
     then page_of [(''Go'', 1000), (''TS'', 500)] None
     else page_of [(''Go'', 500)] None)\<rparr>"

text \<open>
  A commit whose only identity is the raw author name \<^verbatim>\<open>unknown_committer\<close>, with
  statistics in the list entry.
\<close>

definition sentinel_commit :: GithubApiCommit where
  "sentinel_commit =
     \<lparr>sha = ''s0'',
      commit = Some \<lparr>raw_author = Some \<lparr>actor_name = Some ''unknown_committer'', actor_date = None\<rparr>,
                     raw_committer = None\<rparr>,
      author = None, committer = None,
      stats = Some \<lparr>additions = 1, deletions = 0, total = 1\<rparr>\<rparr>"

text \<open>
  A server that answers every listing with a message object instead of an array, and a
  server whose commit listing holds one commit on its first page, with a next-page link,
  and no commit on the pages after it.
\<close>

definition message_env :: env where
  "message_env = quiet_env\<lparr>fetch_repos := (\<lambda>tr u. page_of (MessageObj ''Not Found'') None),
     fetch_commits := (\<lambda>tr u. page_of (MessageObj ''Git Repository is empty.'') None)\<rparr>"

definition two_page_env :: env where
  "two_page_env = quiet_env\<lparr>fetch_commits := (\<lambda>tr u.
     if u = ''u'' then page_of (Items [commit_by ''alice'' ''s1'' (Some 10)]) (Some echo_link)
     else page_of (Items []) (Some echo_link))\<rparr>"

text \<open>
  A host whose clock advances by one millisecond with every effect.
\<close>

definition tick_env :: env where
  "tick_env = quiet_env\<lparr>now := (\<lambda>tr. 1700000000000 + int (length tr))\<rparr>"

text \<open>
  A host in London whose clock stands still at 2023-11-14T22:13:20Z: local time is one hour
  ahead of UTC from 2023-03-26T01:00Z to 2023-10-29T01:00Z, and UTC otherwise. The second
  argument of \<open>LocalTZA\<close> says whether the time value is UTC or local.
\<close>

definition london_env :: env where
  "london_env = quiet_env\<lparr>LocalTZA := (\<lambda>t isUTC.
     if isUTC then (if 1679792400000 \<le> t \<and> t < 1698541200000 then 3600000 else 0)
     else (if 1679796000000 \<le> t \<and> t < 1698544800000 then 3600000 else 0))\<rparr>"

text \<open>A team with no configuration and one stored window record.\<close>

definition windowed_state :: state where
  "windowed_state = empty_state\<lparr>metric_rows :=
     [(''7days'', Row (no_data\<lparr>linesAdded_period := Some 3\<rparr>) ''2023-11-01T00:00:00.000Z'')]\<rparr>"

text \<open>
  A configured team with no repository selected and a stored snapshot, on a host whose
  disk is full: the database runs every statement but \<^verbatim>\<open>INSERT OR REPLACE\<close>.
\<close>

definition stale_state :: state where
  "stale_state = acme_state\<lparr>metric_rows :=
     [(''overall_snapshot'',
       Row (no_data\<lparr>apiTotalBytes_current := Some 2000\<rparr>) ''2023-11-01T00:00:00.000Z'')]\<rparr>"

definition full_disk_env :: env where
  "full_disk_env = quiet_env\<lparr>db_error := (\<lambda>tr q.
     case q of InsertOrReplace k d t \<Rightarrow> Some ''SQLITE_FULL: database or disk is full''
             | _ \<Rightarrow> None)\<rparr>"

text \<open>
  A team whose root reference is not a URL, with a stored snapshot: \<^verbatim>\<open>new URL(rootUrl)\<close>
  throws before any repository is looked at.
\<close>

definition bad_url_state :: state where
  "bad_url_state = stale_state\<lparr>github_config :=
     Some \<lparr>row_rootUrl = Some ''github.example.org/acme'', row_accessToken = Some ''t'',
           row_selectedRepos = SelEmpty\<rparr>\<rparr>"

text \<open>
  Two repositories to clone, on a host where the clone of the first one times out and the
  clone of the second one holds one Go file of one line; no removal fails.
\<close>

definition slow_repo :: GithubRepoData where
  "slow_repo = \<lparr>repo_id = ''3'', repo_name = ''slow'', repo_url = Some ''https://github.com/acme/slow'',
     repo_fullName = Some ''acme/slow''\<rparr>"

definition small_repo :: GithubRepoData where
  "small_repo = \<lparr>repo_id = ''4'', repo_name = ''small'', repo_url = Some ''https://github.com/acme/small'',
     repo_fullName = Some ''acme/small''\<rparr>"

definition clone_env :: env where
  "clone_env = quiet_env\<lparr>
     tmp_dirSync := (\<lambda>tr. Inr (if tr = [] then ''/tmp/gh-loc-1'' else ''/tmp/gh-loc-2'')),
     git_clone := (\<lambda>tr u d. if u = ''https://x-access-token:t@github.com/acme/slow''
                     then CloneTimeout ''ETIMEDOUT''
                     else Cloned (Some [File ''main.go'' (Some ''package main'')]))\<rparr>"

definition no_clones :: cloned_totals where
  "no_clones = \<lparr>overallClonedActualTotalLines = 0, overallClonedActualLinesByLanguage = [],
     overallClonedProcessedRepoFullNames = [], clonedLoCTimestamp = None\<rparr>"

text \<open>The same host, where every removal of a temporary directory fails.\<close>

definition stuck_env :: env where
  "stuck_env = clone_env\<lparr>removeCallback := (\<lambda>tr d. Some ''EBUSY'')\<rparr>"

section \<open>Theorems\<close>

subsection \<open>Helper facts\<close>

lemmas db_simps = sql_def emit_def run_stmt_def new_Date_def saveGithubTeamMetric_def
  getGithubTeamMetricsFromDb_def clearGithubTeamMetrics_def getGithubConfigFromDb_def

lemma save_stores:
  "saveGithubTeamMetric e k d s = (Inr u, s') \<Longrightarrow>
   map_of (metric_rows s') k = Some (Row d (toISOString e (now e (trace s))))"
  by (auto simp: saveGithubTeamMetric_def new_Date_def sql_def emit_def run_stmt_def update_conv'
      split: option.splits)

lemma quiet_facts:
  "db_error quiet_env = (\<lambda>tr q. None)" "now quiet_env = (\<lambda>tr. 1700000000000)"
  "toISOString quiet_env 1700000000000 = ''1700000000000''" "LocalTZA quiet_env = (\<lambda>t u. 0)"
  by (simp_all add: quiet_env_def digit_def)

subsection \<open>C2: the probe of the organization endpoint\<close>

text \<open>
  C2 (the code at a probe status of 500). The claim says that a probe status other than
  2xx, 404 and 403 is a hard failure of discovery. In the code the \<^verbatim>\<open>throw\<close> for such a
  status stands inside the \<^verbatim>\<open>try\<close> whose \<^verbatim>\<open>catch\<close> takes the user endpoint: for the team
  \<^verbatim>\<open>https://github.com/acme\<close> and a probe answered with 500, discovery asks the
  organization endpoint, then the user endpoint, and succeeds with the repository found
  there.
\<close>

theorem scan_probe_500_falls_back:
  "map_option (\<lambda>(r, s). (scan_success r, scan_message r, trace s))
     (scanGithubRepos (probe_env 500) acme_state)
   = Some (True, ''Found 1 repositories.'',
       [Sql SelectConfig None,
        Fetch ''https://api.github.com/orgs/acme/repos?type=all&per_page=100'',
        Fetch ''https://api.github.com/users/acme/repos?type=all&per_page=100''])"
  by (simp add: scanGithubRepos_def scan_try_def db_simps
      probe_env_def quiet_env_def acme_state_def empty_state_def truthy_def GITHUB_API_BASE_def
      listing_endpoint_def org_probe_def org_probe_try_def do_fetch_def ok_def perPageQuery_def
      fetchGithubReposFromApi_def repos_loop.simps repos_page_def next_link_def acme_repo_def
      digit_def page_of_def refused_def)

theorem scan_probe_500_returns:
  "scanGithubRepos (probe_env 500) acme_state \<noteq> None"
  using scan_probe_500_falls_back by auto

subsection \<open>C1: termination of the pagination loops\<close>

lemma repos_loop_last:
  assumes "u \<noteq> []" "fetch_repos e (trace s) u = Responded r" "ok r"
    "body_json r = Inr (Items page)" "next_link (link_header r) = None"
  shows "repos_loop e (Some u) allRepos s = Some (Inr (allRepos @ page), emit (Fetch u) s)"
proof -
  have "repos_page e u allRepos s = (Inr (allRepos @ page, None), emit (Fetch u) s)"
    using assms by (simp add: repos_page_def do_fetch_def)
  then show ?thesis
    using assms(1)
    by (subst repos_loop.simps, simp add: truthy_def, subst repos_loop.simps, simp add: truthy_def)
qed

lemma repos_loop_next:
  assumes "u \<noteq> []" "fetch_repos e (trace s) u = Responded r" "ok r"
    "body_json r = Inr (Items page)" "next_link (link_header r) = Some u'"
  shows "repos_loop e (Some u) allRepos s = repos_loop e (Some u') (allRepos @ page) (emit (Fetch u) s)"
proof -
  have "repos_page e u allRepos s = (Inr (allRepos @ page, Some u'), emit (Fetch u) s)"
    using assms by (simp add: repos_page_def do_fetch_def)
  then show ?thesis
    using assms(1) by (subst repos_loop.simps, simp add: truthy_def)
qed

lemma commits_loop_last:
  assumes "fetch_commits e (trace s) u = Responded r" "ok r"
    "body_json r = Inr (Items pageCommits)" "next_link (link_header r) = None \<or> pageCommits = []"
  shows "commits_loop e base token fullName u acc s
     = Some (process_commits e base token fullName pageCommits acc (emit (Fetch u) s))"
proof -
  have "commits_page e base token fullName u acc s
     = (case process_commits e base token fullName pageCommits acc (emit (Fetch u) s) of
          (acc1, s2) \<Rightarrow> ((acc1, None), s2))"
    using assms by (auto simp: commits_page_def do_fetch_def truthy_def split: prod.splits)
  then show ?thesis
    by (subst commits_loop.simps) (simp split: prod.splits)
qed

lemma echo_next: "next_link (Some echo_link) = Some ''https://api.github.com/user/repos?page=2''"
  by (simp add: next_link_def echo_link_def rel_next_def truthy_def)

lemma echo_page:
  "u \<noteq> [] \<Longrightarrow> repos_page echo_env u acc s
     = (Inr (acc @ [acme_repo], Some ''https://api.github.com/user/repos?page=2''), emit (Fetch u) s)"
  by (simp add: repos_page_def do_fetch_def echo_env_def quiet_env_def page_of_def ok_def echo_next)

lemma echo_never:
  "repos_loop e u acc s = Some r \<Longrightarrow> \<not> (e = echo_env \<and> truthy u)"
proof (erule repos_loop.raw_induct [rotated 1, where P = "\<lambda>e u acc s r. \<not> (e = echo_env \<and> truthy u)"])
  fix loop' e u acc s r
  assume IH: "\<And>e u acc s r. loop' e u acc s = Some r \<Longrightarrow> \<not> (e = echo_env \<and> truthy u)"
    and step: "(if \<not> truthy u then Some (Inr acc, s)
         else case repos_page e (the u) acc s of
              (Inl msg, s1) \<Rightarrow> Some (Inl msg, s1)
            | (Inr (allRepos1, nextPageUrl1), s1) \<Rightarrow> loop' e nextPageUrl1 allRepos1 s1) = Some r"
  show "\<not> (e = echo_env \<and> truthy u)"
  proof
    assume a: "e = echo_env \<and> truthy u"
    then have "the u \<noteq> []" by (auto simp: truthy_def split: option.splits)
    with a step have "loop' echo_env (Some ''https://api.github.com/user/repos?page=2'')
        (acc @ [acme_repo]) (emit (Fetch (the u)) s) = Some r"
      by (simp add: echo_page)
    from IH [OF this] show False by (simp add: truthy_def)
  qed
qed

text \<open>
  C1 (the claim as stated fails). Against the server that repeats the same
  \<^verbatim>\<open>rel="next"\<close> link on every page, \<^verbatim>\<open>fetchGithubReposFromApi\<close> does not return: the
  loop has no cap on its iterations and does not notice a repeated link.
\<close>

theorem echo_server_never_returns:
  "fetchGithubReposFromApi echo_env ''https://api.github.com/user/repos?page=2'' ''t'' empty_state = None"
proof (cases "fetchGithubReposFromApi echo_env ''https://api.github.com/user/repos?page=2'' ''t'' empty_state")
  case None
  then show ?thesis .
next
  case (Some r)
  then have "repos_loop echo_env (Some ''https://api.github.com/user/repos?page=2'') [] empty_state = Some r"
    by (simp add: fetchGithubReposFromApi_def)
  from echo_never [OF this] show ?thesis by (simp add: truthy_def)
qed

lemma match_angle_nonempty: "match_angle xs \<noteq> Some []"
  by (induction xs) (auto simp: Let_def)

lemma next_link_nonempty: "next_link h \<noteq> Some []"
  by (simp add: next_link_def match_angle_nonempty split: option.splits)

lemma repos_page_state: "snd (repos_page e u allRepos s) = emit (Fetch u) s"
  by (simp add: repos_page_def do_fetch_def split: fetched.splits sum.splits listing.splits)

lemma repos_loop_throws:
  assumes "u \<noteq> []" "repos_page e u allRepos s = (Inl msg, s1)"
  shows "repos_loop e (Some u) allRepos s = Some (Inl msg, emit (Fetch u) s)"
proof -
  from assms(2) repos_page_state [of e u allRepos s] have "s1 = emit (Fetch u) s" by simp
  with assms show ?thesis by (subst repos_loop.simps) (simp add: truthy_def)
qed

lemma repos_loop_rejected:
  assumes "u \<noteq> []" "fetch_repos e (trace s) u = Rejected msg"
  shows "repos_loop e (Some u) allRepos s = Some (Inl msg, emit (Fetch u) s)"
  by (rule repos_loop_throws [OF assms(1)]) (simp add: repos_page_def do_fetch_def assms(2))

lemma repos_loop_not_ok:
  assumes "u \<noteq> []" "fetch_repos e (trace s) u = Responded r" "\<not> ok r"
  shows "repos_loop e (Some u) allRepos s
     = Some (Inl (''Failed to fetch repositories from '' @ u @ ''. Status: ''
                  @ String_nat (status r) @ ''. Message: '' @ body_text r), emit (Fetch u) s)"
  by (rule repos_loop_throws [OF assms(1)]) (simp add: repos_page_def do_fetch_def assms(2,3))

lemma repos_loop_unparsable:
  assumes "u \<noteq> []" "fetch_repos e (trace s) u = Responded r" "ok r" "body_json r = Inl msg"
  shows "repos_loop e (Some u) allRepos s = Some (Inl msg, emit (Fetch u) s)"
  by (rule repos_loop_throws [OF assms(1)]) (simp add: repos_page_def do_fetch_def assms(2-4))

lemma repos_loop_not_array:
  assumes "u \<noteq> []" "fetch_repos e (trace s) u = Responded r" "ok r" "body_json r = Inr j"
    "\<forall>page. j \<noteq> Items page"
  shows "repos_loop e (Some u) allRepos s
     = Some (Inl (''Unexpected response format from GitHub API for URL '' @ u
                  @ ''. Expected an array of repositories.''), emit (Fetch u) s)"
  by (rule repos_loop_throws [OF assms(1)])
     (use assms(5) in \<open>cases j; simp add: repos_page_def do_fetch_def assms(2-4)\<close>)

lemma repos_page_Inl:
  "repos_page e u allRepos s = (Inl msg, s1) \<Longrightarrow> ends_listing (fetch_repos e (trace s) u)"
  by (auto simp: repos_page_def do_fetch_def ends_listing_def
      split: fetched.splits sum.splits listing.splits if_splits)

lemma repos_page_Inr:
  "repos_page e u allRepos s = (Inr (allRepos1, None), s1) \<Longrightarrow> ends_listing (fetch_repos e (trace s) u)"
  by (auto simp: repos_page_def do_fetch_def ends_listing_def
      split: fetched.splits sum.splits listing.splits if_splits)

lemma repos_page_next:
  "repos_page e u allRepos s = (Inr (allRepos1, n1), s1) \<Longrightarrow> \<not> truthy n1 \<Longrightarrow> n1 = None"
  using next_link_nonempty
  by (auto simp: repos_page_def do_fetch_def truthy_def
      split: fetched.splits sum.splits listing.splits if_splits option.splits)

lemma repos_loop_ends:
  "repos_loop e uo allRepos s = Some rs \<Longrightarrow>
     (if truthy uo
      then (\<exists>u1. trace (snd rs) \<noteq> [] \<and> last (trace (snd rs)) = Fetch u1
                 \<and> ends_listing (fetch_repos e (butlast (trace (snd rs))) u1))
      else rs = (Inr allRepos, s))"
proof (erule repos_loop.raw_induct [rotated 1, where P = "\<lambda>e uo allRepos s rs.
     (if truthy uo
      then (\<exists>u1. trace (snd rs) \<noteq> [] \<and> last (trace (snd rs)) = Fetch u1
                 \<and> ends_listing (fetch_repos e (butlast (trace (snd rs))) u1))
      else rs = (Inr allRepos, s))"])
  fix loop' e uo allRepos s rs
  assume IH: "\<And>e uo allRepos s rs. loop' e uo allRepos s = Some rs \<Longrightarrow>
     (if truthy uo
      then (\<exists>u1. trace (snd rs) \<noteq> [] \<and> last (trace (snd rs)) = Fetch u1
                 \<and> ends_listing (fetch_repos e (butlast (trace (snd rs))) u1))
      else rs = (Inr allRepos, s))"
    and step: "(if \<not> truthy uo then Some (Inr allRepos, s)
         else case repos_page e (the uo) allRepos s of
              (Inl msg, s1) \<Rightarrow> Some (Inl msg, s1)
            | (Inr (allRepos1, nextPageUrl1), s1) \<Rightarrow> loop' e nextPageUrl1 allRepos1 s1) = Some rs"
  show "if truthy uo
      then (\<exists>u1. trace (snd rs) \<noteq> [] \<and> last (trace (snd rs)) = Fetch u1
                 \<and> ends_listing (fetch_repos e (butlast (trace (snd rs))) u1))
      else rs = (Inr allRepos, s)"
  proof (cases "truthy uo")
    case False
    with step show ?thesis by simp
  next
    case True
    obtain res s1 where p: "repos_page e (the uo) allRepos s = (res, s1)"
      by (cases "repos_page e (the uo) allRepos s")
    with repos_page_state [of e "the uo" allRepos s] have s1: "s1 = emit (Fetch (the uo)) s" by simp
    have here: "ends_listing (fetch_repos e (trace s) (the uo)) \<Longrightarrow> snd rs = s1 \<Longrightarrow>
        \<exists>u1. trace (snd rs) \<noteq> [] \<and> last (trace (snd rs)) = Fetch u1
                 \<and> ends_listing (fetch_repos e (butlast (trace (snd rs))) u1)"
      by (intro exI [of _ "the uo"]) (simp add: s1 emit_def)
    show ?thesis
    proof (cases res)
      case (Inl msg)
      with step True p have "rs = (Inl msg, s1)" by simp
      moreover from p Inl have "ends_listing (fetch_repos e (trace s) (the uo))"
        using repos_page_Inl by blast
      ultimately show ?thesis using True here by simp
    next
      case (Inr pr)
      obtain allRepos1 n1 where pr: "pr = (allRepos1, n1)" by (cases pr)
      with step True p Inr have l: "loop' e n1 allRepos1 s1 = Some rs" by simp
      show ?thesis
      proof (cases "truthy n1")
        case t: True
        with IH [OF l] True show ?thesis by simp
      next
        case f: False
        with IH [OF l] have rs: "rs = (Inr allRepos1, s1)" by simp
        from p Inr pr f have "n1 = None" using repos_page_next by blast
        with p Inr pr have "ends_listing (fetch_repos e (trace s) (the uo))"
          using repos_page_Inr by blast
        with rs True here show ?thesis by simp
      qed
    qed
  qed
qed

lemma commits_loop_next:
  assumes "fetch_commits e (trace s) u = Responded r" "ok r"
    "body_json r = Inr (Items pageCommits)" "next_link (link_header r) = Some u'" "pageCommits \<noteq> []"
  shows "commits_loop e base token fullName u acc s
     = commits_loop e base token fullName u'
         (fst (process_commits e base token fullName pageCommits acc (emit (Fetch u) s)))
         (snd (process_commits e base token fullName pageCommits acc (emit (Fetch u) s)))"
proof -
  have "u' \<noteq> []" using assms(4) next_link_nonempty [of "link_header r"] by auto
  then have "commits_page e base token fullName u acc s
     = (case process_commits e base token fullName pageCommits acc (emit (Fetch u) s) of
          (acc1, s2) \<Rightarrow> ((acc1, Some u'), s2))"
    using assms by (auto simp: commits_page_def do_fetch_def truthy_def split: prod.splits)
  then show ?thesis
    by (subst commits_loop.simps) (simp split: prod.splits)
qed

lemma commits_loop_leaves:
  assumes "fetch_commits e (trace s) u = Rejected msg
     \<or> (\<exists>r. fetch_commits e (trace s) u = Responded r
            \<and> (\<not> ok r \<or> (\<forall>pageCommits. body_json r \<noteq> Inr (Items pageCommits))))"
  shows "commits_loop e base token fullName u acc s = Some (acc, emit (Fetch u) s)"
proof -
  have "commits_page e base token fullName u acc s = ((acc, None), emit (Fetch u) s)"
    using assms
    by (auto simp: commits_page_def do_fetch_def split: sum.splits listing.splits)
  then show ?thesis
    by (subst commits_loop.simps) simp
qed

text \<open>
  C1 (amended). The repository-listing loop has no cap on its turns. On each turn it
  requests the current URL: an array page with no \<^verbatim>\<open>rel="next"\<close> link makes the call return
  every repository gathered so far; an array page that carries one is followed by the
  request for that link, whatever was requested before; a rejected request, a status that
  is not 2xx, a body that does not parse and a body that is not an array make the call
  throw at that page. The call returns or throws only when the server serves a page of
  one of these ending kinds: the last request of a call that came back was answered by
  one. The commit loop of a repository leaves at the first page that carries no next-page
  link or holds zero commits, after that page's commits are processed; a page with
  commits and a next-page link is followed by the request for that link; a request that
  is rejected, not 2xx or not an array leaves the loop with the totals so far.
\<close>

theorem pagination_exits:
  "(u \<noteq> [] \<and> fetch_repos e (trace s) u = Responded r \<and> ok r \<and> body_json r = Inr (Items page)
      \<and> next_link (link_header r) = None
     \<longrightarrow> repos_loop e (Some u) allRepos s = Some (Inr (allRepos @ page), emit (Fetch u) s))
   \<and> (u \<noteq> [] \<and> fetch_repos e (trace s) u = Responded r \<and> ok r \<and> body_json r = Inr (Items page)
      \<and> next_link (link_header r) = Some u'
     \<longrightarrow> repos_loop e (Some u) allRepos s
         = repos_loop e (Some u') (allRepos @ page) (emit (Fetch u) s))
   \<and> (u \<noteq> [] \<and> fetch_repos e (trace s) u = Rejected msg
     \<longrightarrow> repos_loop e (Some u) allRepos s = Some (Inl msg, emit (Fetch u) s))
   \<and> (u \<noteq> [] \<and> fetch_repos e (trace s) u = Responded r \<and> \<not> ok r
     \<longrightarrow> repos_loop e (Some u) allRepos s
         = Some (Inl (''Failed to fetch repositories from '' @ u @ ''. Status: ''
                      @ String_nat (status r) @ ''. Message: '' @ body_text r), emit (Fetch u) s))
   \<and> (u \<noteq> [] \<and> fetch_repos e (trace s) u = Responded r \<and> ok r \<and> body_json r = Inl msg
     \<longrightarrow> repos_loop e (Some u) allRepos s = Some (Inl msg, emit (Fetch u) s))
   \<and> (u \<noteq> [] \<and> fetch_repos e (trace s) u = Responded r \<and> ok r \<and> body_json r = Inr j
      \<and> (\<forall>page. j \<noteq> Items page)
     \<longrightarrow> repos_loop e (Some u) allRepos s
         = Some (Inl (''Unexpected response format from GitHub API for URL '' @ u
                      @ ''. Expected an array of repositories.''), emit (Fetch u) s))
   \<and> (u \<noteq> [] \<and> repos_loop e (Some u) allRepos s = Some (res, s')
     \<longrightarrow> (\<exists>u1. trace s' \<noteq> [] \<and> last (trace s') = Fetch u1
               \<and> ends_listing (fetch_repos e (butlast (trace s')) u1)))
   \<and> (fetch_commits e (trace s) u = Responded r2 \<and> ok r2 \<and> body_json r2 = Inr (Items pageCommits)
      \<and> (next_link (link_header r2) = None \<or> pageCommits = [])
     \<longrightarrow> commits_loop e base token fullName u acc s
         = Some (process_commits e base token fullName pageCommits acc (emit (Fetch u) s)))
   \<and> (fetch_commits e (trace s) u = Responded r2 \<and> ok r2 \<and> body_json r2 = Inr (Items pageCommits)
      \<and> next_link (link_header r2) = Some u' \<and> pageCommits \<noteq> []
     \<longrightarrow> commits_loop e base token fullName u acc s
         = commits_loop e base token fullName u'
             (fst (process_commits e base token fullName pageCommits acc (emit (Fetch u) s)))
             (snd (process_commits e base token fullName pageCommits acc (emit (Fetch u) s))))
   \<and> (fetch_commits e (trace s) u = Rejected msg
        \<or> (\<exists>r. fetch_commits e (trace s) u = Responded r
               \<and> (\<not> ok r \<or> (\<forall>pageCommits. body_json r \<noteq> Inr (Items pageCommits))))
     \<longrightarrow> commits_loop e base token fullName u acc s = Some (acc, emit (Fetch u) s))"
proof -
  have c1: "(u \<noteq> [] \<and> fetch_repos e (trace s) u = Responded r \<and> ok r \<and> body_json r = Inr (Items page)
      \<and> next_link (link_header r) = None
     \<longrightarrow> repos_loop e (Some u) allRepos s = Some (Inr (allRepos @ page), emit (Fetch u) s))"
    using repos_loop_last [of u e s r page allRepos] by blast
  have c2: "(u \<noteq> [] \<and> fetch_repos e (trace s) u = Responded r \<and> ok r \<and> body_json r = Inr (Items page)
      \<and> next_link (link_header r) = Some u'
     \<longrightarrow> repos_loop e (Some u) allRepos s
         = repos_loop e (Some u') (allRepos @ page) (emit (Fetch u) s))"
    using repos_loop_next [of u e s r page u' allRepos] by blast
  have c3: "(u \<noteq> [] \<and> fetch_repos e (trace s) u = Rejected msg
     \<longrightarrow> repos_loop e (Some u) allRepos s = Some (Inl msg, emit (Fetch u) s))"
    using repos_loop_rejected [of u e s msg allRepos] by blast
  have c4: "(u \<noteq> [] \<and> fetch_repos e (trace s) u = Responded r \<and> \<not> ok r
     \<longrightarrow> repos_loop e (Some u) allRepos s
         = Some (Inl (''Failed to fetch repositories from '' @ u @ ''. Status: ''
                      @ String_nat (status r) @ ''. Message: '' @ body_text r), emit (Fetch u) s))"
    using repos_loop_not_ok [of u e s r allRepos] by blast
  have c5: "(u \<noteq> [] \<and> fetch_repos e (trace s) u = Responded r \<and> ok r \<and> body_json r = Inl msg
     \<longrightarrow> repos_loop e (Some u) allRepos s = Some (Inl msg, emit (Fetch u) s))"
    using repos_loop_unparsable [of u e s r msg allRepos] by blast
  have c6: "(u \<noteq> [] \<and> fetch_repos e (trace s) u = Responded r \<and> ok r \<and> body_json r = Inr j
      \<and> (\<forall>page. j \<noteq> Items page)
     \<longrightarrow> repos_loop e (Some u) allRepos s
         = Some (Inl (''Unexpected response format from GitHub API for URL '' @ u
                      @ ''. Expected an array of repositories.''), emit (Fetch u) s))"
    using repos_loop_not_array [of u e s r j allRepos] by blast
  have c7: "(u \<noteq> [] \<and> repos_loop e (Some u) allRepos s = Some (res, s')
     \<longrightarrow> (\<exists>u1. trace s' \<noteq> [] \<and> last (trace s') = Fetch u1
               \<and> ends_listing (fetch_repos e (butlast (trace s')) u1)))"
  proof
    assume a: "u \<noteq> [] \<and> repos_loop e (Some u) allRepos s = Some (res, s')"
    then have "repos_loop e (Some u) allRepos s = Some (res, s')" by simp
    from repos_loop_ends [OF this] a
    show "\<exists>u1. trace s' \<noteq> [] \<and> last (trace s') = Fetch u1
               \<and> ends_listing (fetch_repos e (butlast (trace s')) u1)"
      by (simp add: truthy_def)
  qed
  have c8: "(fetch_commits e (trace s) u = Responded r2 \<and> ok r2 \<and> body_json r2 = Inr (Items pageCommits)
      \<and> (next_link (link_header r2) = None \<or> pageCommits = [])
     \<longrightarrow> commits_loop e base token fullName u acc s
         = Some (process_commits e base token fullName pageCommits acc (emit (Fetch u) s)))"
    using commits_loop_last [of e s u r2 pageCommits base token fullName acc] by blast
  have c9: "(fetch_commits e (trace s) u = Responded r2 \<and> ok r2 \<and> body_json r2 = Inr (Items pageCommits)
      \<and> next_link (link_header r2) = Some u' \<and> pageCommits \<noteq> []
     \<longrightarrow> commits_loop e base token fullName u acc s
         = commits_loop e base token fullName u'
             (fst (process_commits e base token fullName pageCommits acc (emit (Fetch u) s)))
             (snd (process_commits e base token fullName pageCommits acc (emit (Fetch u) s))))"
    using commits_loop_next [of e s u r2 pageCommits u' base token fullName acc] by blast
  have c10: "(fetch_commits e (trace s) u = Rejected msg
        \<or> (\<exists>r. fetch_commits e (trace s) u = Responded r
               \<and> (\<not> ok r \<or> (\<forall>pageCommits. body_json r \<noteq> Inr (Items pageCommits))))
     \<longrightarrow> commits_loop e base token fullName u acc s = Some (acc, emit (Fetch u) s))"
    using commits_loop_leaves [of e s u msg base token fullName acc] by blast
  show ?thesis
    by (intro conjI) (rule c1, rule c2, rule c3, rule c4, rule c5, rule c6, rule c7, rule c8, rule c9, rule c10)
qed

lemma two_page_first:
  "process_commits two_page_env b t f [commit_by ''alice'' ''s1'' (Some 10)]
     \<lparr>linesAddedInPeriod = 0, uniqueCommittersInPeriod = []\<rparr> s
   = (\<lparr>linesAddedInPeriod = 10, uniqueCommittersInPeriod = [''alice'']\<rparr>, s)"
  by (simp add: process_commit_def commit_stats_of_def committerLogin_def commit_by_def or_else_def
      truthy_def Set_add_def)

text \<open>
  C1 at concrete servers: a last page, a page with a next link, a rejected request, the
  statuses 500 and 200 with a body that does not parse, a message object, and the three
  cases of the commit loop.
\<close>

theorem pagination_exits_witness:
  "repos_loop (probe_env 200) (Some ''u'') [] empty_state = Some (Inr [acme_repo], emit (Fetch ''u'') empty_state)
   \<and> ends_listing (fetch_repos (probe_env 200) [] ''u'')
   \<and> repos_loop echo_env (Some ''u'') [] empty_state
       = repos_loop echo_env (Some ''https://api.github.com/user/repos?page=2'') [acme_repo] (emit (Fetch ''u'') empty_state)
   \<and> repos_loop quiet_env (Some ''u'') [] empty_state = Some (Inl ''offline'', emit (Fetch ''u'') empty_state)
   \<and> repos_loop (probe_env 500) (Some ''https://api.github.com/orgs/acme/repos?type=all&per_page=100'') [] empty_state
       = Some (Inl ''Failed to fetch repositories from https://api.github.com/orgs/acme/repos?type=all&per_page=100. Status: 500. Message: boom'',
               emit (Fetch ''https://api.github.com/orgs/acme/repos?type=all&per_page=100'') empty_state)
   \<and> repos_loop (probe_env 200) (Some ''https://api.github.com/orgs/acme/repos?type=all&per_page=100'') [] empty_state
       = Some (Inl ''Unexpected token'',
               emit (Fetch ''https://api.github.com/orgs/acme/repos?type=all&per_page=100'') empty_state)
   \<and> repos_loop message_env (Some ''u'') [] empty_state
       = Some (Inl ''Unexpected response format from GitHub API for URL u. Expected an array of repositories.'',
               emit (Fetch ''u'') empty_state)
   \<and> commits_loop window_env ''b'' ''t'' ''acme/a'' ''u'' \<lparr>linesAddedInPeriod = 0, uniqueCommittersInPeriod = []\<rparr> empty_state
       = Some (process_commits window_env ''b'' ''t'' ''acme/a'' three_commits
                 \<lparr>linesAddedInPeriod = 0, uniqueCommittersInPeriod = []\<rparr> (emit (Fetch ''u'') empty_state))
   \<and> commits_loop two_page_env ''b'' ''t'' ''acme/a'' ''u'' \<lparr>linesAddedInPeriod = 0, uniqueCommittersInPeriod = []\<rparr> empty_state
       = Some (\<lparr>linesAddedInPeriod = 10, uniqueCommittersInPeriod = [''alice'']\<rparr>,
               emit (Fetch ''https://api.github.com/user/repos?page=2'') (emit (Fetch ''u'') empty_state))
   \<and> commits_loop quiet_env ''b'' ''t'' ''acme/a'' ''u'' \<lparr>linesAddedInPeriod = 0, uniqueCommittersInPeriod = []\<rparr> empty_state
       = Some (\<lparr>linesAddedInPeriod = 0, uniqueCommittersInPeriod = []\<rparr>, emit (Fetch ''u'') empty_state)"
proof -
  let ?org = "''https://api.github.com/orgs/acme/repos?type=all&per_page=100''"
  let ?p2 = "''https://api.github.com/user/repos?page=2''"
  let ?acc = "\<lparr>linesAddedInPeriod = 0, uniqueCommittersInPeriod = []\<rparr>"
  let ?r = "\<lparr>status = 200, link_header = None, body_text = [], body_json = Inr (Items [acme_repo])\<rparr>"
  let ?r1 = "\<lparr>status = 200, link_header = Some echo_link, body_text = [], body_json = Inr (Items [acme_repo])\<rparr>"
  let ?r2 = "\<lparr>status = 200, link_header = None, body_text = [], body_json = Inr (Items three_commits)\<rparr>"
  let ?bad = "\<lambda>st. \<lparr>status = st, link_header = None, body_text = ''boom'',
     body_json = (Inl ''Unexpected token'' :: string + GithubApiRepo listing)\<rparr>"
  let ?m = "\<lparr>status = 200, link_header = None, body_text = [],
     body_json = (Inr (MessageObj ''Not Found'') :: string + GithubApiRepo listing)\<rparr>"
  let ?c1 = "\<lparr>status = 200, link_header = Some echo_link, body_text = [],
     body_json = Inr (Items [commit_by ''alice'' ''s1'' (Some 10)])\<rparr>"
  let ?c2 = "\<lparr>status = 200, link_header = Some echo_link, body_text = [],
     body_json = (Inr (Items []) :: string + GithubApiCommit listing)\<rparr>"
  have none: "next_link None = None" by (simp add: next_link_def truthy_def)
  have h1: "''u'' \<noteq> [] \<and> fetch_repos (probe_env 200) (trace empty_state) ''u'' = Responded ?r \<and> ok ?r
      \<and> body_json ?r = Inr (Items [acme_repo]) \<and> next_link (link_header ?r) = None"
    by (simp add: probe_env_def quiet_env_def page_of_def ok_def none)
  note T1 = pagination_exits [where e = "probe_env 200" and u = "''u''" and s = empty_state and r = ?r
      and page = "[acme_repo]" and allRepos = "[]" and res = "Inr [acme_repo]"
      and s' = "emit (Fetch ''u'') empty_state"]
  from T1 [THEN conjunct1, rule_format, OF h1] have a1: "repos_loop (probe_env 200) (Some ''u'') [] empty_state
      = Some (Inr [acme_repo], emit (Fetch ''u'') empty_state)"
    by simp
  from T1 [THEN conjunct2, THEN conjunct2, THEN conjunct2, THEN conjunct2, THEN conjunct2,
      THEN conjunct2, THEN conjunct1, rule_format, OF conjI [OF _ a1]]
  have "\<exists>u1. trace (emit (Fetch ''u'') empty_state) \<noteq> []
      \<and> last (trace (emit (Fetch ''u'') empty_state)) = Fetch u1
      \<and> ends_listing (fetch_repos (probe_env 200) (butlast (trace (emit (Fetch ''u'') empty_state))) u1)"
    by simp
  then have a7: "ends_listing (fetch_repos (probe_env 200) [] ''u'')"
    by (simp add: emit_def empty_state_def)
  have h2: "''u'' \<noteq> [] \<and> fetch_repos echo_env (trace empty_state) ''u'' = Responded ?r1 \<and> ok ?r1
      \<and> body_json ?r1 = Inr (Items [acme_repo]) \<and> next_link (link_header ?r1) = Some ?p2"
    by (simp add: echo_env_def quiet_env_def page_of_def ok_def echo_next)
  from pagination_exits [where e = echo_env and u = "''u''" and s = empty_state and r = ?r1
      and page = "[acme_repo]" and allRepos = "[]" and u' = ?p2, THEN conjunct2, THEN conjunct1, rule_format, OF h2]
  have a2: "repos_loop echo_env (Some ''u'') [] empty_state
      = repos_loop echo_env (Some ?p2) [acme_repo] (emit (Fetch ''u'') empty_state)"
    by simp
  have h3: "''u'' \<noteq> [] \<and> fetch_repos quiet_env (trace empty_state) ''u'' = Rejected ''offline''"
    by (simp add: quiet_env_def)
  from pagination_exits [where e = quiet_env and u = "''u''" and s = empty_state and msg = "''offline''"
      and allRepos = "[]", THEN conjunct2, THEN conjunct2, THEN conjunct1, rule_format, OF h3]
  have a3: "repos_loop quiet_env (Some ''u'') [] empty_state = Some (Inl ''offline'', emit (Fetch ''u'') empty_state)"
    by simp
  have h4: "?org \<noteq> [] \<and> fetch_repos (probe_env 500) (trace empty_state) ?org = Responded (?bad 500)
      \<and> \<not> ok (?bad 500)"
    by (simp add: probe_env_def quiet_env_def refused_def ok_def)
  have n500: "String_nat 500 = ''500''" by (simp add: digit_def)
  from pagination_exits [where e = "probe_env 500" and u = ?org and s = empty_state and r = "?bad 500"
      and allRepos = "[]", THEN conjunct2, THEN conjunct2, THEN conjunct2, THEN conjunct1, rule_format, OF h4]
  have a4: "repos_loop (probe_env 500) (Some ?org) [] empty_state
       = Some (Inl ''Failed to fetch repositories from https://api.github.com/orgs/acme/repos?type=all&per_page=100. Status: 500. Message: boom'',
               emit (Fetch ?org) empty_state)"
    by (simp add: n500 digit_def)
  have h5: "?org \<noteq> [] \<and> fetch_repos (probe_env 200) (trace empty_state) ?org = Responded (?bad 200)
      \<and> ok (?bad 200) \<and> body_json (?bad 200) = Inl ''Unexpected token''"
    by (simp add: probe_env_def quiet_env_def refused_def ok_def)
  from pagination_exits [where e = "probe_env 200" and u = ?org and s = empty_state and r = "?bad 200"
      and msg = "''Unexpected token''" and allRepos = "[]", THEN conjunct2, THEN conjunct2, THEN conjunct2, THEN conjunct2, THEN conjunct1, rule_format, OF h5]
  have a5: "repos_loop (probe_env 200) (Some ?org) [] empty_state
       = Some (Inl ''Unexpected token'', emit (Fetch ?org) empty_state)"
    by simp
  have h6: "''u'' \<noteq> [] \<and> fetch_repos message_env (trace empty_state) ''u'' = Responded ?m
      \<and> ok ?m \<and> body_json ?m = Inr (MessageObj ''Not Found'')
      \<and> (\<forall>page. MessageObj ''Not Found'' \<noteq> (Items page :: GithubApiRepo listing))"
    by (simp add: message_env_def quiet_env_def page_of_def ok_def)
  from pagination_exits [where e = message_env and u = "''u''" and s = empty_state and r = ?m
      and j = "MessageObj ''Not Found''" and allRepos = "[]", THEN conjunct2, THEN conjunct2, THEN conjunct2, THEN conjunct2, THEN conjunct2, THEN conjunct1, rule_format, OF h6]
  have a6: "repos_loop message_env (Some ''u'') [] empty_state
       = Some (Inl ''Unexpected response format from GitHub API for URL u. Expected an array of repositories.'',
               emit (Fetch ''u'') empty_state)"
    by simp
  have h8: "fetch_commits window_env (trace empty_state) ''u'' = Responded ?r2 \<and> ok ?r2
      \<and> body_json ?r2 = Inr (Items three_commits)
      \<and> (next_link (link_header ?r2) = None \<or> three_commits = [])"
    by (simp add: window_env_def quiet_env_def page_of_def ok_def none)
  from pagination_exits [where e = window_env and u = "''u''" and s = empty_state and ?r2.0 = ?r2
      and pageCommits = three_commits and base = "''b''" and token = "''t''" and fullName = "''acme/a''"
      and acc = ?acc, THEN conjunct2, THEN conjunct2, THEN conjunct2, THEN conjunct2, THEN conjunct2, THEN conjunct2, THEN conjunct2, THEN conjunct1, rule_format, OF h8]
  have a8: "commits_loop window_env ''b'' ''t'' ''acme/a'' ''u'' ?acc empty_state
       = Some (process_commits window_env ''b'' ''t'' ''acme/a'' three_commits ?acc (emit (Fetch ''u'') empty_state))"
    by simp
  have h9: "fetch_commits two_page_env (trace empty_state) ''u'' = Responded ?c1 \<and> ok ?c1
      \<and> body_json ?c1 = Inr (Items [commit_by ''alice'' ''s1'' (Some 10)])
      \<and> next_link (link_header ?c1) = Some ?p2 \<and> [commit_by ''alice'' ''s1'' (Some 10)] \<noteq> []"
    by (simp add: two_page_env_def quiet_env_def page_of_def ok_def echo_next)
  from pagination_exits [where e = two_page_env and u = "''u''" and s = empty_state and ?r2.0 = ?c1
      and pageCommits = "[commit_by ''alice'' ''s1'' (Some 10)]" and u' = ?p2
      and base = "''b''" and token = "''t''" and fullName = "''acme/a''" and acc = ?acc, THEN conjunct2, THEN conjunct2, THEN conjunct2, THEN conjunct2, THEN conjunct2, THEN conjunct2, THEN conjunct2, THEN conjunct2, THEN conjunct1, rule_format, OF h9]
  have a9: "commits_loop two_page_env ''b'' ''t'' ''acme/a'' ''u'' ?acc empty_state
       = commits_loop two_page_env ''b'' ''t'' ''acme/a'' ?p2
           \<lparr>linesAddedInPeriod = 10, uniqueCommittersInPeriod = [''alice'']\<rparr> (emit (Fetch ''u'') empty_state)"
    by (simp only: two_page_first fst_conv snd_conv)
  have h9': "fetch_commits two_page_env (trace (emit (Fetch ''u'') empty_state)) ?p2 = Responded ?c2 \<and> ok ?c2
      \<and> body_json ?c2 = Inr (Items [])
      \<and> (next_link (link_header ?c2) = None \<or> ([] :: GithubApiCommit list) = [])"
    by (simp add: two_page_env_def quiet_env_def page_of_def ok_def)
  from pagination_exits [where e = two_page_env and u = ?p2 and s = "emit (Fetch ''u'') empty_state"
      and ?r2.0 = ?c2 and pageCommits = "[]" and base = "''b''" and token = "''t''"
      and fullName = "''acme/a''" and acc = "\<lparr>linesAddedInPeriod = 10, uniqueCommittersInPeriod = [''alice'']\<rparr>", THEN conjunct2, THEN conjunct2, THEN conjunct2, THEN conjunct2, THEN conjunct2, THEN conjunct2, THEN conjunct2, THEN conjunct1, rule_format, OF h9']
  have a9': "commits_loop two_page_env ''b'' ''t'' ''acme/a'' ?p2
           \<lparr>linesAddedInPeriod = 10, uniqueCommittersInPeriod = [''alice'']\<rparr> (emit (Fetch ''u'') empty_state)
       = Some (\<lparr>linesAddedInPeriod = 10, uniqueCommittersInPeriod = [''alice'']\<rparr>,
               emit (Fetch ?p2) (emit (Fetch ''u'') empty_state))"
    by simp
  have h10: "fetch_commits quiet_env (trace empty_state) ''u'' = Rejected ''offline''"
    by (simp add: quiet_env_def)
  from pagination_exits [where e = quiet_env and u = "''u''" and s = empty_state and msg = "''offline''"
      and base = "''b''" and token = "''t''" and fullName = "''acme/a''" and acc = ?acc, THEN conjunct2, THEN conjunct2, THEN conjunct2, THEN conjunct2, THEN conjunct2, THEN conjunct2, THEN conjunct2, THEN conjunct2, THEN conjunct2, rule_format, OF disjI1, OF h10]
  have a10: "commits_loop quiet_env ''b'' ''t'' ''acme/a'' ''u'' ?acc empty_state
       = Some (?acc, emit (Fetch ''u'') empty_state)"
    by simp
  from a1 a7 a2 a3 a4 a5 a6 a8 a9 [unfolded a9'] a10 show ?thesis
    by (intro conjI)
qed

subsection \<open>C5: the language totals of the snapshot\<close>

lemma Math_round_div_floor:
  "Math_round_div n 50 = \<lfloor>real_of_int n / 50 + 1 / 2\<rfloor>"
proof -
  have "real_of_int n / 50 + 1 / 2 = real_of_int (2 * n + 50) / real_of_int 100"
    by (simp add: field_simps)
  then show ?thesis
    by (simp only: Math_round_div_def floor_divide_of_int_eq) simp
qed

lemma sum_update_add:
  "distinct (map fst al) \<Longrightarrow>
   sum_list (map snd (AList.update k (or0 (map_of al k) + n) al)) = sum_list (map snd al) + n"
proof (induction al)
  case Nil
  then show ?case by (simp add: or0_def)
next
  case (Cons p al)
  obtain k' v where p: "p = (k', v)" by (cases p)
  show ?case
  proof (cases "k' = k")
    case True
    then show ?thesis using p by (simp add: or0_def)
  next
    case False
    with Cons p show ?thesis by simp
  qed
qed

lemma balanced_add_languages: "balanced acc \<Longrightarrow> balanced (add_languages languages acc)"
proof (induction languages arbitrary: acc)
  case Nil
  then show ?case by simp
next
  case (Cons p languages)
  obtain lang n where p: "p = (lang, n)" by (cases p)
  have "balanced (acc\<lparr>overallApiBytesByLanguage :=
              AList.update lang (or0 (map_of (overallApiBytesByLanguage acc) lang) + n)
                (overallApiBytesByLanguage acc),
            overallApiTotalBytes := overallApiTotalBytes acc + n\<rparr>)"
    using Cons.prems by (simp add: balanced_def sum_update_add distinct_update)
  from Cons.IH [OF this] show ?case by (simp add: p)
qed

lemma balanced_collect_languages:
  "balanced acc \<Longrightarrow> balanced (fst (collect_languages e base fullName acc s))"
  by (auto simp: collect_languages_def do_fetch_def balanced_add_languages
      split: fetched.splits sum.splits)

lemma balanced_tags [simp]: "balanced (acc\<lparr>overallLatestTags := tags\<rparr>) = balanced acc"
  by (simp add: balanced_def)

lemma balanced_processed [simp]:
  "balanced (acc\<lparr>overallApiProcessedRepoFullNames := names\<rparr>) = balanced acc"
  by (simp add: balanced_def)

lemma balanced_api_snapshot_loop:
  "balanced acc \<Longrightarrow> balanced (fst (api_snapshot_loop e base token repos acc s))"
proof (induction repos arbitrary: acc s)
  case Nil
  then show ?case by simp
next
  case (Cons repoData rest)
  show ?case
  proof (cases "truthy (repo_fullName repoData)")
    case False
    with Cons show ?thesis by simp
  next
    case True
    let ?acc1 = "acc\<lparr>overallApiProcessedRepoFullNames :=
                      overallApiProcessedRepoFullNames acc @ [the (repo_fullName repoData)]\<rparr>"
    obtain acc2 s1 where l: "collect_languages e base (the (repo_fullName repoData)) ?acc1 s = (acc2, s1)"
      by (cases "collect_languages e base (the (repo_fullName repoData)) ?acc1 s")
    obtain tags s2 where t: "collect_tags e base token repoData (the (repo_fullName repoData))
        (overallLatestTags acc2) s1 = (tags, s2)"
      by (cases "collect_tags e base token repoData (the (repo_fullName repoData)) (overallLatestTags acc2) s1")
    have "balanced acc2"
      using balanced_collect_languages [of ?acc1 e base "the (repo_fullName repoData)" s] Cons.prems l
      by simp
    then have "balanced (acc2\<lparr>overallLatestTags := tags\<rparr>)" by simp
    from Cons.IH [OF this] show ?thesis using True l t by simp
  qed
qed

lemma snapshot_pass_stores:
  assumes "snapshot_pass e base token repos s = (Inr u, s')"
  shows "\<exists>api cloned t. balanced api
     \<and> map_of (metric_rows s') ''overall_snapshot''
         = Some (Row (overallSnapshotData e (toISOString e (now e (trace s))) api cloned) t)"
proof -
  let ?s1 = "emit (NewDate (now e (trace s))) s"
  let ?a0 = "\<lparr>overallApiTotalBytes = 0, overallApiBytesByLanguage = [], overallLatestTags = [],
              overallApiProcessedRepoFullNames = []\<rparr>"
  obtain api s2 where a: "api_snapshot_loop e base token repos ?a0 ?s1 = (api, s2)"
    by (cases "api_snapshot_loop e base token repos ?a0 ?s1")
  obtain cloned s3 where c: "cloned_loc_loop e token repos
      \<lparr>overallClonedActualTotalLines = 0, overallClonedActualLinesByLanguage = [],
       overallClonedProcessedRepoFullNames = [], clonedLoCTimestamp = None\<rparr> s2 = (cloned, s3)"
    by (cases "cloned_loc_loop e token repos
      \<lparr>overallClonedActualTotalLines = 0, overallClonedActualLinesByLanguage = [],
       overallClonedProcessedRepoFullNames = [], clonedLoCTimestamp = None\<rparr> s2")
  have "balanced ?a0" by (simp add: balanced_def)
  from balanced_api_snapshot_loop [OF this, of e base token repos ?s1] a have b: "balanced api" by simp
  from assms a c have "saveGithubTeamMetric e ''overall_snapshot''
      (overallSnapshotData e (toISOString e (now e (trace s))) api cloned) s3 = (Inr u, s')"
    by (simp add: snapshot_pass_def new_Date_def)
  from save_stores [OF this] b show ?thesis by blast
qed

lemma langs_facts:
  "fetch_languages langs_env tr ''https://api.github.com/repos/acme/a/languages''
     = page_of [(''Go'', 1000), (''TS'', 500)] None"
  "fetch_languages langs_env tr ''https://api.github.com/repos/acme/b/languages''
     = page_of [(''Go'', 500)] None"
  "fetch_tags langs_env = (\<lambda>tr u. Rejected ''offline'')"
  "db_error langs_env = (\<lambda>tr q. None)" "now langs_env = (\<lambda>tr. 1700000000000)"
  "toISOString langs_env 1700000000000 = ''1700000000000''"
  by (simp_all add: langs_env_def quiet_env_def digit_def)

lemma snapshot_scenario:
  "\<exists>s'. snapshot_pass langs_env ''https://api.github.com'' ''t'' [acme_a, acme_b] empty_state = (Inr (), s')
     \<and> map_of (metric_rows s') ''overall_snapshot''
       = Some (Row (no_data\<lparr>apiTotalBytes_current := Some 2000,
            apiBytesByLanguage_current := Some [(''Go'', 1500), (''TS'', 500)],
            apiEstimatedTotalLines_current := Some 40,
            apiEstimatedLinesByLanguage_current := Some [(''Go'', 30), (''TS'', 10)],
            apiProcessedRepoFullNames := Some [''acme/a'', ''acme/b''],
            apiLastRefreshed := Some ''1700000000000'',
            clonedActualTotalLines := Some 0, clonedActualLinesByLanguage := Some [],
            clonedProcessedRepoFullNames := Some [], latestTags := Some []\<rparr>) ''1700000000000'')"
  by (simp add: snapshot_pass_def db_simps langs_facts empty_state_def acme_a_def
      acme_b_def truthy_def collect_languages_def collect_tags_def do_fetch_def page_of_def ok_def
      overallSnapshotData_def sort_tags_def Math_round_div_def ESTIMATED_BYTES_PER_LINE_def
      or0_def no_data_def)

text \<open>
  C5. Whatever the language fetches returned, the snapshot record that the refresh stores
  under \<^verbatim>\<open>overall_snapshot\<close> holds a histogram with one entry per language whose byte
  counts add up to the total bytes, and an estimated line count of round(total / 50),
  halves rounding up. For the two repositories with \<^verbatim>\<open>{Go: 1000, TS: 500}\<close> and
  \<^verbatim>\<open>{Go: 500}\<close> the stored total is 2000, the histogram \<^verbatim>\<open>{Go: 1500, TS: 500}\<close> and the
  estimate 40.
\<close>

theorem snapshot_totals:
  "(snapshot_pass e base token repos s = (Inr u, s') \<longrightarrow>
      (\<exists>d t hist bytes. map_of (metric_rows s') ''overall_snapshot'' = Some (Row d t)
          \<and> apiBytesByLanguage_current d = Some hist \<and> apiTotalBytes_current d = Some bytes
          \<and> distinct (map fst hist) \<and> sum_list (map snd hist) = bytes
          \<and> apiEstimatedTotalLines_current d = Some \<lfloor>real_of_int bytes / 50 + 1 / 2\<rfloor>))
   \<and> (\<exists>s1 d t. snapshot_pass langs_env ''https://api.github.com'' ''t'' [acme_a, acme_b] empty_state
                   = (Inr (), s1)
          \<and> map_of (metric_rows s1) ''overall_snapshot'' = Some (Row d t)
          \<and> apiTotalBytes_current d = Some 2000
          \<and> apiBytesByLanguage_current d = Some [(''Go'', 1500), (''TS'', 500)]
          \<and> apiEstimatedTotalLines_current d = Some 40)"
proof (intro conjI impI)
  assume "snapshot_pass e base token repos s = (Inr u, s')"
  from snapshot_pass_stores [OF this] obtain api cloned t where
    b: "balanced api" and
    row: "map_of (metric_rows s') ''overall_snapshot''
         = Some (Row (overallSnapshotData e (toISOString e (now e (trace s))) api cloned) t)"
    by blast
  let ?d = "overallSnapshotData e (toISOString e (now e (trace s))) api cloned"
  have "apiBytesByLanguage_current ?d = Some (overallApiBytesByLanguage api)"
    "apiTotalBytes_current ?d = Some (overallApiTotalBytes api)"
    "apiEstimatedTotalLines_current ?d = Some \<lfloor>real_of_int (overallApiTotalBytes api) / 50 + 1 / 2\<rfloor>"
    by (simp_all add: overallSnapshotData_def ESTIMATED_BYTES_PER_LINE_def Math_round_div_floor)
  with b row show "\<exists>d t hist bytes. map_of (metric_rows s') ''overall_snapshot'' = Some (Row d t)
          \<and> apiBytesByLanguage_current d = Some hist \<and> apiTotalBytes_current d = Some bytes
          \<and> distinct (map fst hist) \<and> sum_list (map snd hist) = bytes
          \<and> apiEstimatedTotalLines_current d = Some \<lfloor>real_of_int bytes / 50 + 1 / 2\<rfloor>"
    unfolding balanced_def by blast
next
  from snapshot_scenario obtain s1 where
    "snapshot_pass langs_env ''https://api.github.com'' ''t'' [acme_a, acme_b] empty_state = (Inr (), s1)"
    "map_of (metric_rows s1) ''overall_snapshot''
       = Some (Row (no_data\<lparr>apiTotalBytes_current := Some 2000,
            apiBytesByLanguage_current := Some [(''Go'', 1500), (''TS'', 500)],
            apiEstimatedTotalLines_current := Some 40,
            apiEstimatedLinesByLanguage_current := Some [(''Go'', 30), (''TS'', 10)],
            apiProcessedRepoFullNames := Some [''acme/a'', ''acme/b''],
            apiLastRefreshed := Some ''1700000000000'',
            clonedActualTotalLines := Some 0, clonedActualLinesByLanguage := Some [],
            clonedProcessedRepoFullNames := Some [], latestTags := Some []\<rparr>) ''1700000000000'')"
    by blast
  then show "\<exists>s1 d t. snapshot_pass langs_env ''https://api.github.com'' ''t'' [acme_a, acme_b] empty_state
                   = (Inr (), s1)
          \<and> map_of (metric_rows s1) ''overall_snapshot'' = Some (Row d t)
          \<and> apiTotalBytes_current d = Some 2000
          \<and> apiBytesByLanguage_current d = Some [(''Go'', 1500), (''TS'', 500)]
          \<and> apiEstimatedTotalLines_current d = Some 40"
    by (intro exI [of _ s1]) (simp add: no_data_def)
qed

text \<open>C5 at the two repositories: the stored histogram adds up to the stored total.\<close>

theorem snapshot_totals_witness:
  "\<exists>s1 d t hist bytes.
      snapshot_pass langs_env ''https://api.github.com'' ''t'' [acme_a, acme_b] empty_state = (Inr (), s1)
      \<and> map_of (metric_rows s1) ''overall_snapshot'' = Some (Row d t)
      \<and> apiBytesByLanguage_current d = Some hist \<and> apiTotalBytes_current d = Some bytes
      \<and> distinct (map fst hist) \<and> sum_list (map snd hist) = bytes
      \<and> apiEstimatedTotalLines_current d = Some \<lfloor>real_of_int bytes / 50 + 1 / 2\<rfloor>"
proof -
  from snapshot_scenario obtain s1 where
    run: "snapshot_pass langs_env ''https://api.github.com'' ''t'' [acme_a, acme_b] empty_state = (Inr (), s1)"
    by blast
  from snapshot_totals [of langs_env "''https://api.github.com''" "''t''" "[acme_a, acme_b]"
      empty_state "()" s1] run
  show ?thesis by blast
qed

subsection \<open>C6: what one commit contributes\<close>

lemma committerLogin_order:
  "committerLogin c =
     (if truthy (author c) then the (author c)
      else if truthy (committer c) then the (committer c)
      else if truthy (raw_author_name c) then the (raw_author_name c)
      else if truthy (raw_committer_name c) then the (raw_committer_name c)
      else ''unknown_committer'')"
  by (simp add: committerLogin_def or_else_def)

lemma process_commit_committers:
  "uniqueCommittersInPeriod (fst (process_commit e base token fullName c acc s)) =
     (if committerLogin c = ''unknown_committer'' then uniqueCommittersInPeriod acc
      else Set_add (committerLogin c) (uniqueCommittersInPeriod acc))"
  by (simp add: process_commit_def split: prod.splits option.splits)

lemma commit_stats_of_cases:
  "commit_stats_of e base token fullName c s =
     (if stats c = None \<and> sha c \<noteq> [] then
        (case fetch_commit e (trace s) (base @ ''/repos/'' @ fullName @ ''/commits/'' @ sha c) of
           Rejected msg \<Rightarrow> None
         | Responded r \<Rightarrow>
             if ok r then (case body_json r of Inl msg \<Rightarrow> None | Inr d \<Rightarrow> stats d) else None,
         emit (Fetch (base @ ''/repos/'' @ fullName @ ''/commits/'' @ sha c)) s)
      else (stats c, s))"
  by (simp add: commit_stats_of_def fetchCommitDetails_def do_fetch_def
      split: fetched.splits sum.splits)

lemma process_commit_lines:
  "linesAddedInPeriod (fst (process_commit e base token fullName c acc s)) =
     linesAddedInPeriod acc +
       (case stats c of
          Some st \<Rightarrow> additions st
        | None \<Rightarrow>
            if sha c = [] then 0
            else detail_additions
                   (fetch_commit e (trace s) (base @ ''/repos/'' @ fullName @ ''/commits/'' @ sha c)))"
  by (auto simp: process_commit_def commit_stats_of_cases detail_additions_def
      split: prod.splits option.splits fetched.splits sum.splits)

lemma process_commit_trace:
  "trace (snd (process_commit e base token fullName c acc s)) =
     trace s @ (if stats c = None \<and> sha c \<noteq> []
                then [Fetch (base @ ''/repos/'' @ fullName @ ''/commits/'' @ sha c)] else [])"
  by (auto simp: process_commit_def commit_stats_of_cases emit_def
      split: prod.splits option.splits)

lemma login_alice: "committerLogin (commit_by ''alice'' x y) = ''alice''"
  by (simp add: commit_by_def committerLogin_def or_else_def truthy_def)

lemma login_bob: "committerLogin (commit_by ''bob'' x y) = ''bob''"
  by (simp add: commit_by_def committerLogin_def or_else_def truthy_def)

lemma stats1: "commit_stats_of window_env b t f (commit_by l x (Some n)) s
   = (Some \<lparr>additions = n, deletions = 0, total = n\<rparr>, s)"
  by (simp add: commit_stats_of_def commit_by_def)

lemma stats2: "commit_stats_of window_env ''https://api.github.com'' t ''acme/a'' (commit_by l ''s2'' None) s
   = (Some \<lparr>additions = 5, deletions = 0, total = 5\<rparr>, emit (Fetch ''https://api.github.com/repos/acme/a/commits/s2'') s)"
  by (simp add: commit_stats_of_def commit_by_def fetchCommitDetails_def do_fetch_def window_env_def
      quiet_env_def page_of_def ok_def)

lemma stats3: "commit_stats_of window_env ''https://api.github.com'' t ''acme/a'' (commit_by l ''s3'' None) s
   = (Some \<lparr>additions = 0, deletions = 0, total = 0\<rparr>, emit (Fetch ''https://api.github.com/repos/acme/a/commits/s3'') s)"
  by (simp add: commit_stats_of_def commit_by_def fetchCommitDetails_def do_fetch_def window_env_def
      quiet_env_def page_of_def ok_def)

lemma pc1: "process_commit window_env ''https://api.github.com'' t ''acme/a'' (commit_by ''alice'' ''s1'' (Some 10))
     \<lparr>linesAddedInPeriod = 0, uniqueCommittersInPeriod = []\<rparr> s
   = (\<lparr>linesAddedInPeriod = 10, uniqueCommittersInPeriod = [''alice'']\<rparr>, s)"
  by (simp add: process_commit_def login_alice stats1 Set_add_def)

lemma pc2: "process_commit window_env ''https://api.github.com'' t ''acme/a'' (commit_by ''bob'' ''s2'' None)
     \<lparr>linesAddedInPeriod = 10, uniqueCommittersInPeriod = [''alice'']\<rparr> s
   = (\<lparr>linesAddedInPeriod = 15, uniqueCommittersInPeriod = [''alice'', ''bob'']\<rparr>,
      emit (Fetch ''https://api.github.com/repos/acme/a/commits/s2'') s)"
  by (simp add: process_commit_def login_bob stats2 Set_add_def)

lemma pc3: "process_commit window_env ''https://api.github.com'' t ''acme/a'' (commit_by ''alice'' ''s3'' None)
     \<lparr>linesAddedInPeriod = 15, uniqueCommittersInPeriod = [''alice'', ''bob'']\<rparr> s
   = (\<lparr>linesAddedInPeriod = 15, uniqueCommittersInPeriod = [''alice'', ''bob'']\<rparr>,
      emit (Fetch ''https://api.github.com/repos/acme/a/commits/s3'') s)"
  by (simp add: process_commit_def login_alice stats3 Set_add_def)

lemma window_commits:
  "process_commits window_env ''https://api.github.com'' ''t'' ''acme/a'' three_commits
     \<lparr>linesAddedInPeriod = 0, uniqueCommittersInPeriod = []\<rparr> s
   = (\<lparr>linesAddedInPeriod = 15, uniqueCommittersInPeriod = [''alice'', ''bob'']\<rparr>,
      emit (Fetch ''https://api.github.com/repos/acme/a/commits/s3'')
        (emit (Fetch ''https://api.github.com/repos/acme/a/commits/s2'') s))"
  by (simp add: three_commits_def pc1 pc2 pc3)

lemma window_loop:
  "commits_loop window_env ''https://api.github.com'' ''t'' ''acme/a'' u
     \<lparr>linesAddedInPeriod = 0, uniqueCommittersInPeriod = []\<rparr> s
   = Some (\<lparr>linesAddedInPeriod = 15, uniqueCommittersInPeriod = [''alice'', ''bob'']\<rparr>,
      emit (Fetch ''https://api.github.com/repos/acme/a/commits/s3'')
        (emit (Fetch ''https://api.github.com/repos/acme/a/commits/s2'') (emit (Fetch u) s)))"
proof -
  let ?r = "\<lparr>status = 200, link_header = None, body_text = [], body_json = Inr (Items three_commits)\<rparr>"
  have "fetch_commits window_env (trace s) u = Responded ?r" "ok ?r"
    "body_json ?r = Inr (Items three_commits)" "next_link (link_header ?r) = None \<or> three_commits = []"
    by (simp_all add: window_env_def quiet_env_def page_of_def ok_def next_link_def truthy_def)
  from commits_loop_last [OF this] show ?thesis
    by (simp add: window_commits)
qed

lemma window_repos:
  "period_repos window_env ''https://api.github.com'' ''t'' startDate endDate [acme_a]
     (\<lparr>linesAddedInPeriod = 0, uniqueCommittersInPeriod = []\<rparr>, []) s
   = Some ((\<lparr>linesAddedInPeriod = 15, uniqueCommittersInPeriod = [''alice'', ''bob'']\<rparr>, [''acme/a'']),
      emit (Fetch ''https://api.github.com/repos/acme/a/commits/s3'')
        (emit (Fetch ''https://api.github.com/repos/acme/a/commits/s2'')
          (emit (Fetch (''https://api.github.com/repos/acme/a/commits?since='' @ toISOString window_env startDate
                          @ ''&until='' @ toISOString window_env endDate @ ''&per_page=100'')) s)))"
  by (simp add: acme_a_def truthy_def window_loop)

lemma window_scenario:
  "\<exists>s'. run_period window_env ''https://api.github.com'' ''t'' [acme_a] ''stamp'' (''30days'', 30) empty_state
          = Some (Inr (), s')
     \<and> map_of (metric_rows s') ''30days''
        = Some (Row (periodData window_env
            (fst (fst (period_bounds window_env 30 empty_state)))
            (snd (fst (period_bounds window_env 30 empty_state))) ''stamp''
            (\<lparr>linesAddedInPeriod = 15, uniqueCommittersInPeriod = [''alice'', ''bob'']\<rparr>, [''acme/a'']))
          ''1700000000000'')"
proof -
  obtain startDate endDate s1 where b: "period_bounds window_env 30 empty_state = ((startDate, endDate), s1)"
    by (cases "period_bounds window_env 30 empty_state") auto
  have db: "db_error window_env = (\<lambda>tr q. None)" "now window_env = (\<lambda>tr. 1700000000000)"
     "toISOString window_env 1700000000000 = ''1700000000000''"
    by (simp_all add: window_env_def quiet_env_def digit_def)
  show ?thesis
    by (simp add: run_period_def b window_repos saveGithubTeamMetric_def new_Date_def sql_def db
        emit_def run_stmt_def update_conv' del: period_repos.simps)
qed

text \<open>
  C6 (the claim as stated fails). A commit whose raw author name is the string
  \<^verbatim>\<open>unknown_committer\<close> resolves to an identity, yet it adds nothing to the set of unique
  committers: the code uses that string as its marker for no identity.
\<close>

theorem sentinel_name_is_skipped:
  "truthy (raw_author_name sentinel_commit)
   \<and> uniqueCommittersInPeriod
       (fst (process_commit quiet_env ''https://api.github.com'' ''t'' ''acme/a'' sentinel_commit
              \<lparr>linesAddedInPeriod = 0, uniqueCommittersInPeriod = []\<rparr> empty_state)) = []"
  by (simp add: process_commit_committers committerLogin_order)
     (simp add: sentinel_commit_def raw_author_name_def raw_committer_name_def truthy_def)

text \<open>
  C6 (amended). For every commit, the committer identity is the first non-empty one of
  API author login, API committer login, raw author name, raw committer name, and the
  string \<^verbatim>\<open>unknown_committer\<close> when there is none; the commit adds its identity to the set
  of unique committers unless the identity is that string. Its line additions are those
  of the list entry's statistics when it has them; otherwise, when the commit has a
  \<^verbatim>\<open>sha\<close>, those of exactly one detail fetch, a failed or empty fetch giving zero; otherwise
  zero with no fetch. A 30-day window with three commits by two logins, one with 10
  additions in its statistics and two whose detail fetches give 5 and 0, is stored with 15
  lines added and 2 unique committers.
\<close>

theorem commit_contribution:
  "(case process_commit e base token fullName c acc s of
      (acc', s') \<Rightarrow>
        committerLogin c =
          (if truthy (author c) then the (author c)
           else if truthy (committer c) then the (committer c)
           else if truthy (raw_author_name c) then the (raw_author_name c)
           else if truthy (raw_committer_name c) then the (raw_committer_name c)
           else ''unknown_committer'')
        \<and> uniqueCommittersInPeriod acc' =
            (if committerLogin c = ''unknown_committer'' then uniqueCommittersInPeriod acc
             else Set_add (committerLogin c) (uniqueCommittersInPeriod acc))
        \<and> linesAddedInPeriod acc' = linesAddedInPeriod acc +
            (case stats c of
               Some st \<Rightarrow> additions st
             | None \<Rightarrow>
                 if sha c = [] then 0
                 else detail_additions
                        (fetch_commit e (trace s) (base @ ''/repos/'' @ fullName @ ''/commits/'' @ sha c)))
        \<and> trace s' = trace s @
            (if stats c = None \<and> sha c \<noteq> []
             then [Fetch (base @ ''/repos/'' @ fullName @ ''/commits/'' @ sha c)] else []))
   \<and> (\<exists>s1 d t. run_period window_env ''https://api.github.com'' ''t'' [acme_a] ''stamp''
                  (''30days'', 30) empty_state = Some (Inr (), s1)
          \<and> map_of (metric_rows s1) ''30days'' = Some (Row d t)
          \<and> linesAdded_period d = Some 15 \<and> uniqueCommitters_period d = Some 2)"
proof (intro conjI)
  obtain acc' s' where p: "process_commit e base token fullName c acc s = (acc', s')"
    by (cases "process_commit e base token fullName c acc s")
  with process_commit_committers [of e base token fullName c acc s]
    process_commit_lines [of e base token fullName c acc s]
    process_commit_trace [of e base token fullName c acc s]
    committerLogin_order [of c]
  show "case process_commit e base token fullName c acc s of
      (acc', s') \<Rightarrow>
        committerLogin c =
          (if truthy (author c) then the (author c)
           else if truthy (committer c) then the (committer c)
           else if truthy (raw_author_name c) then the (raw_author_name c)
           else if truthy (raw_committer_name c) then the (raw_committer_name c)
           else ''unknown_committer'')
        \<and> uniqueCommittersInPeriod acc' =
            (if committerLogin c = ''unknown_committer'' then uniqueCommittersInPeriod acc
             else Set_add (committerLogin c) (uniqueCommittersInPeriod acc))
        \<and> linesAddedInPeriod acc' = linesAddedInPeriod acc +
            (case stats c of
               Some st \<Rightarrow> additions st
             | None \<Rightarrow>
                 if sha c = [] then 0
                 else detail_additions
                        (fetch_commit e (trace s) (base @ ''/repos/'' @ fullName @ ''/commits/'' @ sha c)))
        \<and> trace s' = trace s @
            (if stats c = None \<and> sha c \<noteq> []
             then [Fetch (base @ ''/repos/'' @ fullName @ ''/commits/'' @ sha c)] else [])"
    by (simp only: p prod.case fst_conv snd_conv)
next
  from window_scenario obtain s1 where
    "run_period window_env ''https://api.github.com'' ''t'' [acme_a] ''stamp'' (''30days'', 30) empty_state
          = Some (Inr (), s1)"
    "map_of (metric_rows s1) ''30days''
        = Some (Row (periodData window_env
            (fst (fst (period_bounds window_env 30 empty_state)))
            (snd (fst (period_bounds window_env 30 empty_state))) ''stamp''
            (\<lparr>linesAddedInPeriod = 15, uniqueCommittersInPeriod = [''alice'', ''bob'']\<rparr>, [''acme/a'']))
          ''1700000000000'')"
    by blast
  then show "\<exists>s1 d t. run_period window_env ''https://api.github.com'' ''t'' [acme_a] ''stamp''
                  (''30days'', 30) empty_state = Some (Inr (), s1)
          \<and> map_of (metric_rows s1) ''30days'' = Some (Row d t)
          \<and> linesAdded_period d = Some 15 \<and> uniqueCommitters_period d = Some 2"
    by (intro exI [of _ s1]) (simp add: periodData_def)
qed

text \<open>C6 at the second commit of the window: bob is added, and his detail fetch gives 5.\<close>

theorem commit_contribution_witness:
  "uniqueCommittersInPeriod
     (fst (process_commit window_env ''https://api.github.com'' ''t'' ''acme/a'' (commit_by ''bob'' ''s2'' None)
            \<lparr>linesAddedInPeriod = 10, uniqueCommittersInPeriod = [''alice'']\<rparr> empty_state))
     = [''alice'', ''bob'']
   \<and> linesAddedInPeriod
     (fst (process_commit window_env ''https://api.github.com'' ''t'' ''acme/a'' (commit_by ''bob'' ''s2'' None)
            \<lparr>linesAddedInPeriod = 10, uniqueCommittersInPeriod = [''alice'']\<rparr> empty_state))
     = 15"
proof -
  have f: "fetch_commit window_env (trace empty_state) ''https://api.github.com/repos/acme/a/commits/s2''
      = page_of (commit_by ''bob'' ''s2'' (Some 5)) None"
    by (simp add: window_env_def quiet_env_def)
  have l: "truthy (author (commit_by ''bob'' ''s2'' None))" "the (author (commit_by ''bob'' ''s2'' None)) = ''bob''"
    "stats (commit_by ''bob'' ''s2'' None) = None" "sha (commit_by ''bob'' ''s2'' None) = ''s2''"
    by (simp_all add: commit_by_def truthy_def)
  have d: "detail_additions (page_of (commit_by ''bob'' ''s2'' (Some 5)) None) = 5"
    by (simp add: detail_additions_def page_of_def ok_def commit_by_def)
  from commit_contribution [where e = window_env and base = "''https://api.github.com''"
      and token = "''t''" and fullName = "''acme/a''" and c = "commit_by ''bob'' ''s2'' None"
      and acc = "\<lparr>linesAddedInPeriod = 10, uniqueCommittersInPeriod = [''alice'']\<rparr>"
      and s = empty_state]
  show ?thesis
    by (simp add: f l d Set_add_def split: prod.splits)
qed

subsection \<open>C7: the bounds of a window\<close>

lemma setDate_getDate:
  "setDate e t (getDate e t - n) = UTC e (LocalTime e t - n * msPerDay)"
proof -
  have "(Day (LocalTime e t) - DateFromTime (LocalTime e t) + (DateFromTime (LocalTime e t) - n)) * msPerDay
          + TimeWithinDay (LocalTime e t)
        = (Day (LocalTime e t) * msPerDay + TimeWithinDay (LocalTime e t)) - n * msPerDay"
    by (simp add: algebra_simps)
  also have "Day (LocalTime e t) * msPerDay + TimeWithinDay (LocalTime e t) = LocalTime e t"
    by (simp add: Day_def TimeWithinDay_def)
  finally show ?thesis by (simp add: setDate_def getDate_def Let_def)
qed

lemma period_bounds_eq:
  "fst (period_bounds e days s) =
     (setDate e (now e (trace s @ [NewDate (now e (trace s))])) (getDate e (now e (trace s)) - days),
      now e (trace s))"
  by (simp add: period_bounds_def new_Date_def emit_def)

lemma run_period_record:
  assumes "run_period e base token repos stamp period s = Some (Inr u, s')"
  shows "\<exists>acc t. map_of (metric_rows s') (fst period)
          = Some (Row (periodData e (fst (fst (period_bounds e (snd period) s)))
                        (snd (fst (period_bounds e (snd period) s))) stamp acc) t)"
proof -
  obtain startDate endDate s1 where b: "period_bounds e (snd period) s = ((startDate, endDate), s1)"
    by (cases "period_bounds e (snd period) s") auto
  from assms b obtain acc s2 where
    sv: "saveGithubTeamMetric e (fst period) (periodData e startDate endDate stamp acc) s2 = (Inr u, s')"
    by (auto simp: run_period_def split: option.splits)
  with save_stores [OF sv] b show ?thesis by (intro exI [of _ acc]) auto
qed

lemma d14: "DateFromTime 1700000000000 = 14"
  by (simp add: DateFromTime_def Day_def msPerDay_def Let_def)

lemma d14': "DateFromTime 1700000000001 = 14"
  by (simp add: DateFromTime_def Day_def msPerDay_def Let_def)

lemma tick_now: "now tick_env [] = 1700000000000" "now tick_env [ev] = 1700000000001"
  "LocalTZA tick_env = (\<lambda>t u. 0)"
  by (simp_all add: tick_env_def quiet_env_def)

lemma tick_set: "setDate tick_env 1700000000001 (getDate tick_env 1700000000000 - 7) = 1699395200001"
  by (simp add: setDate_def getDate_def LocalTime_def UTC_def tick_now d14 d14' Let_def)
     (simp add: Day_def TimeWithinDay_def msPerDay_def)

lemma tick_bounds: "fst (period_bounds tick_env 7 empty_state) = (1699395200001, 1700000000000)"
  by (simp add: period_bounds_eq empty_state_def tick_now tick_set)

lemma london_bounds: "fst (period_bounds london_env 30 empty_state) = (1697404400000, 1700000000000)"
proof -
  have n: "now london_env tr = 1700000000000" for tr
    by (simp add: london_env_def quiet_env_def)
  have "setDate london_env 1700000000000 (getDate london_env 1700000000000 - 30)
      = UTC london_env (LocalTime london_env 1700000000000 - 30 * msPerDay)"
    by (rule setDate_getDate)
  also have "LocalTime london_env 1700000000000 = 1700000000000"
    by (simp add: LocalTime_def london_env_def)
  also have "UTC london_env (1700000000000 - 30 * msPerDay) = 1697404400000"
    by (simp add: UTC_def london_env_def msPerDay_def)
  finally show ?thesis by (simp add: period_bounds_eq n)
qed

text \<open>
  C7 (the claim as stated fails). The two bounds come from two readings of the clock, and
  the start is moved back by days of the local calendar. On a UTC host whose clock
  advances by one millisecond between the readings, the 7-day window starts at
  1699395200001 and ends at 1700000000000: one millisecond short of seven days. On a host
  in London whose clock stands still at 2023-11-14T22:13:20Z, the 30-day window starts at
  2023-10-15T21:13:20Z, in summer time: one hour more than thirty days.
\<close>

theorem window_is_not_exact:
  "fst (period_bounds tick_env 7 empty_state) = (1699395200001, 1700000000000)
   \<and> (1700000000000 :: int) - 1699395200001 = 7 * msPerDay - 1
   \<and> fst (period_bounds london_env 30 empty_state) = (1697404400000, 1700000000000)
   \<and> (1700000000000 :: int) - 1697404400000 = 30 * msPerDay + 3600000"
  by (simp add: tick_bounds london_bounds msPerDay_def)

text \<open>
  C7 (amended). The record stored for a window of N days holds as \<^verbatim>\<open>periodEndDate\<close> the
  first reading of the clock and as \<^verbatim>\<open>periodStartDate\<close> the second reading moved back N
  days of the local calendar (\<^verbatim>\<open>setDate\<close> on \<^verbatim>\<open>getDate\<close> of the end). When both readings
  give the same instant and the offset of the local zone is the same at both bounds, as on
  a UTC host, the end minus the start is exactly N days.
\<close>

theorem window_bounds:
  "run_period e base token repos stamp (key, days) s = Some (Inr u, s') \<Longrightarrow>
   \<exists>d t startDate endDate. map_of (metric_rows s') key = Some (Row d t)
     \<and> fst (period_bounds e days s) = (startDate, endDate)
     \<and> periodStartDate d = Some (toISOString e startDate)
     \<and> periodEndDate d = Some (toISOString e endDate)
     \<and> (now e (trace s @ [NewDate (now e (trace s))]) = now e (trace s)
          \<and> LocalTZA e endDate True = LocalTZA e (LocalTime e endDate - days * msPerDay) False
         \<longrightarrow> endDate - startDate = days * msPerDay)"
proof -
  assume run: "run_period e base token repos stamp (key, days) s = Some (Inr u, s')"
  from run_period_record [OF run] obtain acc t where
    row: "map_of (metric_rows s') key
          = Some (Row (periodData e (fst (fst (period_bounds e days s)))
                        (snd (fst (period_bounds e days s))) stamp acc) t)"
    by auto
  let ?d = "periodData e (fst (fst (period_bounds e days s))) (snd (fst (period_bounds e days s))) stamp acc"
  let ?start = "fst (fst (period_bounds e days s))"
  let ?end = "snd (fst (period_bounds e days s))"
  have e: "?end = now e (trace s)" by (simp add: period_bounds_eq)
  have exact: "?end - ?start = days * msPerDay"
    if "now e (trace s @ [NewDate (now e (trace s))]) = now e (trace s)"
      and "LocalTZA e ?end True = LocalTZA e (LocalTime e ?end - days * msPerDay) False"
  proof -
    from that(1) have "?start = UTC e (LocalTime e ?end - days * msPerDay)"
      by (simp add: period_bounds_eq setDate_getDate)
    with that(2) show ?thesis by (simp add: UTC_def LocalTime_def)
  qed
  have "periodStartDate ?d = Some (toISOString e ?start)" "periodEndDate ?d = Some (toISOString e ?end)"
    by (simp_all add: periodData_def)
  with row exact show ?thesis
    by (intro exI [of _ ?d] exI [of _ t] exI [of _ ?start] exI [of _ ?end]) simp
qed

lemma quiet_period:
  "\<exists>s'. run_period quiet_env ''https://api.github.com'' ''t'' [] ''stamp'' (''7days'', 7) empty_state
          = Some (Inr (), s')"
  by (simp add: run_period_def period_bounds_def saveGithubTeamMetric_def new_Date_def sql_def
      quiet_facts split: prod.splits)

text \<open>C7 on a UTC host whose clock stands still: the stored 7-day window is exactly 7 days.\<close>

theorem window_bounds_witness:
  "\<exists>s' d t startDate endDate.
     run_period quiet_env ''https://api.github.com'' ''t'' [] ''stamp'' (''7days'', 7) empty_state
       = Some (Inr (), s')
     \<and> map_of (metric_rows s') ''7days'' = Some (Row d t)
     \<and> periodStartDate d = Some (toISOString quiet_env startDate)
     \<and> periodEndDate d = Some (toISOString quiet_env endDate)
     \<and> endDate - startDate = 7 * msPerDay"
proof -
  from quiet_period obtain s' where
    run: "run_period quiet_env ''https://api.github.com'' ''t'' [] ''stamp'' (''7days'', 7) empty_state
          = Some (Inr (), s')"
    by blast
  from window_bounds [OF run] obtain d t startDate endDate where
    w: "map_of (metric_rows s') ''7days'' = Some (Row d t)"
      "periodStartDate d = Some (toISOString quiet_env startDate)"
      "periodEndDate d = Some (toISOString quiet_env endDate)"
      "now quiet_env (trace empty_state @ [NewDate (now quiet_env (trace empty_state))])
          = now quiet_env (trace empty_state)
        \<and> LocalTZA quiet_env endDate True
          = LocalTZA quiet_env (LocalTime quiet_env endDate - 7 * msPerDay) False
       \<longrightarrow> endDate - startDate = 7 * msPerDay"
    by blast
  from w(4) have "endDate - startDate = 7 * msPerDay" by (simp add: quiet_facts)
  with run w(1-3) show ?thesis by blast
qed

subsection \<open>C10: the count of unique committers and their names\<close>

lemma distinct_Set_add: "distinct members \<Longrightarrow> distinct (Set_add x members)"
  by (simp add: Set_add_def)

lemma distinct_process_commit:
  "distinct (uniqueCommittersInPeriod acc) \<Longrightarrow>
   distinct (uniqueCommittersInPeriod (fst (process_commit e base token fullName c acc s)))"
  by (auto simp: process_commit_def distinct_Set_add split: prod.splits option.splits)

lemma distinct_process_commits:
  "distinct (uniqueCommittersInPeriod acc) \<Longrightarrow>
   distinct (uniqueCommittersInPeriod (fst (process_commits e base token fullName cs acc s)))"
proof (induction cs arbitrary: acc s)
  case Nil
  then show ?case by simp
next
  case (Cons c cs)
  obtain acc1 s1 where p: "process_commit e base token fullName c acc s = (acc1, s1)"
    by (cases "process_commit e base token fullName c acc s")
  with distinct_process_commit [OF Cons.prems, of e base token fullName c s]
  have "distinct (uniqueCommittersInPeriod acc1)" by simp
  from Cons.IH [OF this] p show ?case by simp
qed


lemma distinct_commits_page:
  "distinct (uniqueCommittersInPeriod acc) \<Longrightarrow>
   distinct (uniqueCommittersInPeriod (fst (fst (commits_page e base token fullName u acc s))))"
proof -
  assume d: "distinct (uniqueCommittersInPeriod acc)"
  obtain f s1 where f: "do_fetch (fetch_commits e) u s = (f, s1)"
    by (cases "do_fetch (fetch_commits e) u s")
  show ?thesis
  proof (cases f)
    case (Rejected msg)
    with f d show ?thesis by (simp add: commits_page_def)
  next
    case (Responded r)
    show ?thesis
    proof (cases "ok r")
      case False
      with f d Responded show ?thesis by (simp add: commits_page_def)
    next
      case True
      show ?thesis
      proof (cases "body_json r")
        case (Inl msg)
        with f d Responded True show ?thesis by (simp add: commits_page_def)
      next
        case (Inr j)
        show ?thesis
        proof (cases j)
          case (Items pageCommits)
          obtain acc1 s2 where p: "process_commits e base token fullName pageCommits acc s1 = (acc1, s2)"
            by (cases "process_commits e base token fullName pageCommits acc s1")
          with distinct_process_commits [OF d, of e base token fullName pageCommits s1]
          have "distinct (uniqueCommittersInPeriod acc1)" by simp
          with f Responded True Inr Items p show ?thesis by (simp add: commits_page_def Let_def)
        next
          case (MessageObj m)
          with f d Responded True Inr show ?thesis by (simp add: commits_page_def)
        next
          case OtherJson
          with f d Responded True Inr show ?thesis by (simp add: commits_page_def)
        qed
      qed
    qed
  qed
qed

lemma distinct_commits_loop:
  "commits_loop e base token fullName u acc s = Some r \<Longrightarrow>
   distinct (uniqueCommittersInPeriod acc) \<longrightarrow> distinct (uniqueCommittersInPeriod (fst r))"
proof (erule commits_loop.raw_induct [rotated 1, where P = "\<lambda>e base token fullName u acc s r.
     distinct (uniqueCommittersInPeriod acc) \<longrightarrow> distinct (uniqueCommittersInPeriod (fst r))"])
  fix loop' e base token fullName u acc s r
  assume IH: "\<And>e base token fullName u acc s r. loop' e base token fullName u acc s = Some r \<Longrightarrow>
      distinct (uniqueCommittersInPeriod acc) \<longrightarrow> distinct (uniqueCommittersInPeriod (fst r))"
    and step: "(case commits_page e base token fullName u acc s of
        ((acc1, None), s1) \<Rightarrow> Some (acc1, s1)
      | ((acc1, Some nextUrl), s1) \<Rightarrow> loop' e base token fullName nextUrl acc1 s1) = Some r"
  show "distinct (uniqueCommittersInPeriod acc) \<longrightarrow> distinct (uniqueCommittersInPeriod (fst r))"
  proof
    assume d: "distinct (uniqueCommittersInPeriod acc)"
    obtain acc1 nxt s1 where p: "commits_page e base token fullName u acc s = ((acc1, nxt), s1)"
      by (cases "commits_page e base token fullName u acc s") auto
    from distinct_commits_page [OF d, of e base token fullName u s] p
    have d1: "distinct (uniqueCommittersInPeriod acc1)" by simp
    show "distinct (uniqueCommittersInPeriod (fst r))"
    proof (cases nxt)
      case None
      with step p d1 show ?thesis by auto
    next
      case (Some nextUrl)
      with step p have "loop' e base token fullName nextUrl acc1 s1 = Some r" by simp
      from IH [OF this] d1 show ?thesis by simp
    qed
  qed
qed

lemma distinct_period_repos:
  "period_repos e base token startDate endDate repos acc s = Some (acc', s') \<Longrightarrow>
   distinct (uniqueCommittersInPeriod (fst acc)) \<Longrightarrow> distinct (uniqueCommittersInPeriod (fst acc'))"
proof (induction repos arbitrary: acc s)
  case Nil
  then show ?case by simp
next
  case (Cons repo rest)
  show ?case
  proof (cases "truthy (repo_fullName repo)")
    case False
    with Cons show ?thesis by simp
  next
    case True
    let ?u = "base @ ''/repos/'' @ the (repo_fullName repo) @ ''/commits?since='' @ toISOString e startDate
                          @ ''&until='' @ toISOString e endDate @ ''&per_page=100''"
    from Cons.prems(1) True obtain totals s1 where
      l: "commits_loop e base token (the (repo_fullName repo)) ?u (fst acc) s = Some (totals, s1)"
      and r: "period_repos e base token startDate endDate rest
                (totals, snd acc @ [the (repo_fullName repo)]) s1 = Some (acc', s')"
      by (auto simp: Let_def split: option.splits)
    from distinct_commits_loop [OF l] Cons.prems(2) have "distinct (uniqueCommittersInPeriod totals)"
      by simp
    with Cons.IH [OF r] show ?thesis by simp
  qed
qed

lemma run_period_stores:
  assumes "run_period e base token repos stamp period s = Some (Inr u, s')"
  shows "\<exists>acc t. distinct (uniqueCommittersInPeriod (fst acc))
      \<and> map_of (metric_rows s') (fst period)
          = Some (Row (periodData e (fst (fst (period_bounds e (snd period) s)))
                        (snd (fst (period_bounds e (snd period) s))) stamp acc) t)"
proof -
  obtain startDate endDate s1 where b: "period_bounds e (snd period) s = ((startDate, endDate), s1)"
    by (cases "period_bounds e (snd period) s") auto
  from assms b obtain acc s2 where
    r: "period_repos e base token startDate endDate repos
          (\<lparr>linesAddedInPeriod = 0, uniqueCommittersInPeriod = []\<rparr>, []) s1 = Some (acc, s2)"
    and sv: "saveGithubTeamMetric e (fst period) (periodData e startDate endDate stamp acc) s2 = (Inr u, s')"
    by (auto simp: run_period_def split: option.splits)
  from distinct_period_repos [OF r] have "distinct (uniqueCommittersInPeriod (fst acc))" by simp
  with save_stores [OF sv] b show ?thesis by (intro exI [of _ acc]) auto
qed

text \<open>
  C10. The record stored for a window holds in \<^verbatim>\<open>uniqueCommitters_period\<close> the number of
  entries of \<^verbatim>\<open>uniqueCommitterNames_period\<close>, and these entries are pairwise distinct.
\<close>

theorem committers_count_matches_names:
  "run_period e base token repos stamp period s = Some (Inr u, s') \<Longrightarrow>
   \<exists>d t names. map_of (metric_rows s') (fst period) = Some (Row d t)
     \<and> uniqueCommitterNames_period d = Some names
     \<and> uniqueCommitters_period d = Some (int (length names))
     \<and> distinct names"
  using run_period_stores [of e base token repos stamp period s u s']
  by (auto simp: periodData_def no_data_def)

text \<open>C10 at the 30-day window with three commits by two logins.\<close>

theorem committers_count_matches_names_witness:
  "\<exists>s' d t names.
     run_period window_env ''https://api.github.com'' ''t'' [acme_a] ''stamp'' (''30days'', 30) empty_state
       = Some (Inr (), s')
     \<and> map_of (metric_rows s') ''30days'' = Some (Row d t)
     \<and> uniqueCommitterNames_period d = Some names
     \<and> uniqueCommitters_period d = Some (int (length names))
     \<and> distinct names"
proof -
  from window_scenario obtain s' where
    run: "run_period window_env ''https://api.github.com'' ''t'' [acme_a] ''stamp'' (''30days'', 30) empty_state
          = Some (Inr (), s')"
    by blast
  from committers_count_matches_names [OF run] run show ?thesis
    by (simp only: fst_conv) blast
qed

subsection \<open>C4: a missing configuration\<close>

lemma local_refl: "local_step s s"
  by (simp add: local_step_def)

lemma local_trans: "local_step s s1 \<Longrightarrow> local_step s1 s2 \<Longrightarrow> local_step s s2"
  unfolding local_step_def
proof (elim conjE exE, intro conjI)
  fix evs evs'
  assume "trace s1 = trace s @ evs" "list_all (\<lambda>ev. \<not> upstream ev) evs"
    "trace s2 = trace s1 @ evs'" "list_all (\<lambda>ev. \<not> upstream ev) evs'"
  then have "trace s2 = trace s @ (evs @ evs') \<and> list_all (\<lambda>ev. \<not> upstream ev) (evs @ evs')"
    by simp
  then show "\<exists>evs. trace s2 = trace s @ evs \<and> list_all (\<lambda>ev. \<not> upstream ev) evs" by blast
qed auto

lemma local_emit: "\<not> upstream ev \<Longrightarrow> local_step s (emit ev s)"
  by (simp add: local_step_def emit_def)

lemma local_new_Date: "local_step s (snd (new_Date e s))"
  by (simp add: new_Date_def local_emit upstream_def)

lemma local_sql:
  "q = SelectMetrics \<or> q = SelectConfig \<or> (\<exists>d t. q = InsertOrReplace ''overall_snapshot'' d t) \<Longrightarrow>
   local_step s (snd (sql e q s))"
  by (auto simp: sql_def local_step_def emit_def upstream_def run_stmt_def update_conv'
      split: option.splits)

lemma local_save: "local_step s (snd (saveGithubTeamMetric e ''overall_snapshot'' d s))"
proof -
  have "local_step (snd (new_Date e s))
      (snd (sql e (InsertOrReplace ''overall_snapshot'' d (toISOString e (fst (new_Date e s)))) (snd (new_Date e s))))"
    by (rule local_sql) blast
  from local_trans [OF local_new_Date this] show ?thesis
    by (cases "new_Date e s") (simp add: saveGithubTeamMetric_def)
qed

lemma local_read: "local_step s (snd (getGithubTeamMetricsFromDb e s))"
  using local_sql [of SelectMetrics s e]
  by (auto simp: getGithubTeamMetricsFromDb_def split: prod.splits sum.splits)

lemma local_config: "local_step s (snd (getGithubConfigFromDb e s))"
  using local_sql [of SelectConfig s e]
  by (auto simp: getGithubConfigFromDb_def split: prod.splits sum.splits option.splits sel_column.splits)

lemma catch_fails: "\<not> success (fst (refresh_catch e existingMetrics err s))"
  by (simp add: refresh_catch_def Let_def split: prod.splits)

lemma local_catch: "local_step s (snd (refresh_catch e existingMetrics err s))"
proof -
  obtain cur s1 where c: "(if existingMetrics = [] then
               (case getGithubTeamMetricsFromDb e s of
                  (Inl dbError, s1) \<Rightarrow>
                    ([(''overall_snapshot'', no_data\<lparr>info := Some
                         (''Refresh failed, and could not retrieve previous metrics: '' @ dbError)\<rparr>)], s1)
                | (Inr metrics, s1) \<Rightarrow> (metrics, s1))
             else (existingMetrics, s)) = (cur, s1)"
    by (cases "(if existingMetrics = [] then
               (case getGithubTeamMetricsFromDb e s of
                  (Inl dbError, s1) \<Rightarrow>
                    ([(''overall_snapshot'', no_data\<lparr>info := Some
                         (''Refresh failed, and could not retrieve previous metrics: '' @ dbError)\<rparr>)], s1)
                | (Inr metrics, s1) \<Rightarrow> (metrics, s1))
             else (existingMetrics, s))")
  have l1: "local_step s s1"
    using c local_read [of s e] local_refl [of s]
    by (auto split: if_splits prod.splits sum.splits)
  obtain t s2 where n: "new_Date e s1 = (t, s2)" by (cases "new_Date e s1")
  have l2: "local_step s1 s2" using local_new_Date [of s1 e] n by simp
  have "snd (refresh_catch e existingMetrics err s) =
      snd (saveGithubTeamMetric e ''overall_snapshot''
             ((spread cur ''overall_snapshot'')\<lparr>info := Some (''Refresh failed: '' @
                 (if err \<noteq> [] then err else ''An unexpected error occurred while refreshing GitHub metrics.'')),
               apiLastRefreshed := Some (toISOString e t)\<rparr>) s2)"
    using c n by (simp add: refresh_catch_def Let_def split: prod.splits)
  with local_save [of s2 e] have "local_step s2 (snd (refresh_catch e existingMetrics err s))" by simp
  from local_trans [OF local_trans [OF l1 l2] this] show ?thesis .
qed

lemma local_missing: "local_step s (snd (config_missing_branch e existingMetrics s))"
proof -
  obtain t s1 where n: "new_Date e s = (t, s1)" by (cases "new_Date e s")
  have l1: "local_step s s1" using local_new_Date [of s e] n by simp
  have "snd (config_missing_branch e existingMetrics s) =
      snd (saveGithubTeamMetric e ''overall_snapshot''
                ((spread existingMetrics ''overall_snapshot'')
                   \<lparr>info := Some not_configured, apiLastRefreshed := Some (toISOString e t)\<rparr>) s1)"
    using n by (simp add: config_missing_branch_def split: prod.splits sum.splits)
  with local_save [of s1 e] have "local_step s1 (snd (config_missing_branch e existingMetrics s))" by simp
  from local_trans [OF l1 this] show ?thesis .
qed

lemma missing_fails:
  "config_missing_branch e existingMetrics s = (Inr r, s') \<Longrightarrow> \<not> success r \<and> message r = not_configured"
  by (auto simp: config_missing_branch_def split: prod.splits sum.splits)

lemma config_read_incomplete:
  assumes "incomplete (github_config s)" "getGithubConfigFromDb e s = (Inr githubConfig, s1)"
  shows "githubConfig = None \<or> accessToken (the githubConfig) = [] \<or> \<not> truthy (rootUrl (the githubConfig))"
  using assms
  by (auto simp: incomplete_def getGithubConfigFromDb_def sql_def emit_def truthy_def
      split: option.splits prod.splits sum.splits sel_column.splits if_splits)

lemma refresh_try_incomplete:
  assumes "incomplete (github_config s)"
  shows "\<exists>x s'. refresh_try e arg existingMetrics s = Some (x, s') \<and> local_step s s'
     \<and> (\<forall>r. x = Inr r \<longrightarrow> \<not> success r)"
proof -
  obtain c s1 where g: "getGithubConfigFromDb e s = (c, s1)" by (cases "getGithubConfigFromDb e s")
  have l1: "local_step s s1" using local_config [of s e] g by simp
  show ?thesis
  proof (cases c)
    case (Inl err)
    with g l1 show ?thesis by (simp add: refresh_try_def)
  next
    case (Inr githubConfig)
    with config_read_incomplete [OF assms] g
    have m: "githubConfig = None \<or> accessToken (the githubConfig) = [] \<or> \<not> truthy (rootUrl (the githubConfig))"
      by simp
    obtain x s2 where b: "config_missing_branch e existingMetrics s1 = (x, s2)"
      by (cases "config_missing_branch e existingMetrics s1")
    have l2: "local_step s1 s2" using local_missing [of s1 e existingMetrics] b by simp
    have "refresh_try e arg existingMetrics s = Some (x, s2)"
      using g Inr m b by (auto simp: refresh_try_def)
    moreover have "\<forall>r. x = Inr r \<longrightarrow> \<not> success r" using missing_fails b by blast
    ultimately show ?thesis using local_trans [OF l1 l2] by blast
  qed
qed

lemma refresh_incomplete:
  assumes "incomplete (github_config s)"
  shows "\<exists>r s'. refreshGithubMetrics e arg s = Some (r, s') \<and> \<not> success r \<and> local_step s s'"
proof -
  obtain m s1 where g: "getGithubTeamMetricsFromDb e s = (m, s1)" by (cases "getGithubTeamMetricsFromDb e s")
  have l1: "local_step s s1" using local_read [of s e] g by simp
  show ?thesis
  proof (cases m)
    case (Inl err)
    have "refreshGithubMetrics e arg s = Some (fst (refresh_catch e [] err s1), snd (refresh_catch e [] err s1))"
      using g Inl by (simp add: refreshGithubMetrics_def)
    with catch_fails [of e "[]" err s1] local_trans [OF l1 local_catch [of s1 e "[]" err]]
    show ?thesis by blast
  next
    case (Inr existingMetrics)
    from l1 assms have "incomplete (github_config s1)" by (simp add: local_step_def)
    from refresh_try_incomplete [OF this, of e arg existingMetrics] obtain x s2 where
      t: "refresh_try e arg existingMetrics s1 = Some (x, s2)" and l2: "local_step s1 s2"
      and f: "\<forall>r. x = Inr r \<longrightarrow> \<not> success r"
      by blast
    show ?thesis
    proof (cases x)
      case (Inl err)
      have "refreshGithubMetrics e arg s
          = Some (fst (refresh_catch e existingMetrics err s2), snd (refresh_catch e existingMetrics err s2))"
        using g Inr t Inl by (simp add: refreshGithubMetrics_def)
      with catch_fails [of e existingMetrics err s2]
        local_trans [OF local_trans [OF l1 l2] local_catch [of s2 e existingMetrics err]]
      show ?thesis by blast
    next
      case (Inr r)
      with g \<open>m = Inr existingMetrics\<close> t have "refreshGithubMetrics e arg s = Some (r, s2)"
        by (simp add: refreshGithubMetrics_def)
      with f Inr local_trans [OF l1 l2] show ?thesis by blast
    qed
  qed
qed

lemma read_healthy:
  "db_error e = (\<lambda>tr q. None) \<Longrightarrow>
   getGithubTeamMetricsFromDb e s = (Inr (metrics_of_rows (metric_rows s)), emit (Sql SelectMetrics None) s)"
  by (simp add: getGithubTeamMetricsFromDb_def sql_def run_stmt_def emit_def)

lemma missing_healthy:
  assumes "db_error e = (\<lambda>tr q. None)"
  shows "\<exists>s' t t'. config_missing_branch e existingMetrics s =
      (Inr \<lparr>success = False, message = not_configured,
            data = AList.update ''overall_snapshot''
                     ((spread existingMetrics ''overall_snapshot'')\<lparr>info := Some not_configured\<rparr>)
                     existingMetrics\<rparr>, s')
    \<and> map_of (metric_rows s') ''overall_snapshot''
        = Some (Row ((spread existingMetrics ''overall_snapshot'')
                       \<lparr>info := Some not_configured, apiLastRefreshed := Some t\<rparr>) t')"
  using assms
  by (simp add: config_missing_branch_def saveGithubTeamMetric_def new_Date_def sql_def run_stmt_def
      emit_def update_conv') blast

lemma refresh_try_incomplete_healthy:
  assumes "incomplete (github_config s)" "db_error e = (\<lambda>tr q. None)"
    "\<forall>row m. github_config s = Some row \<longrightarrow> row_selectedRepos row \<noteq> SelUnparsable m"
  shows "refresh_try e arg existingMetrics s
     = Some (config_missing_branch e existingMetrics (emit (Sql SelectConfig None) s))"
proof -
  have "\<exists>c. getGithubConfigFromDb e s = (Inr c, emit (Sql SelectConfig None) s)"
  proof (cases "github_config s")
    case None
    with assms(2) show ?thesis
      by (simp add: getGithubConfigFromDb_def sql_def run_stmt_def emit_def)
  next
    case (Some row)
    with assms(3) have "\<forall>m. row_selectedRepos row \<noteq> SelUnparsable m" by simp
    with Some assms(2) show ?thesis
      by (cases "row_selectedRepos row")
         (simp_all add: getGithubConfigFromDb_def sql_def run_stmt_def emit_def)
  qed
  then obtain c where g: "getGithubConfigFromDb e s = (Inr c, emit (Sql SelectConfig None) s)"
    by blast
  from config_read_incomplete [OF assms(1) g] g show ?thesis
    by (auto simp: refresh_try_def)
qed

text \<open>
  C4. When the configuration row is missing, or lacks the access token or the root
  reference, \<^verbatim>\<open>refreshGithubMetrics\<close> returns a failure; the call adds only clock and
  database events to the trace (no request to the hosting API, no clone); every row but
  \<^verbatim>\<open>overall_snapshot\<close> is as it was; and, the database accepting its statements and the
  stored selection being readable, the \<^verbatim>\<open>overall_snapshot\<close> row is the previous record with
  the message of the missing configuration as \<open>info\<close> and a new \<^verbatim>\<open>apiLastRefreshed\<close>.
\<close>

theorem missing_configuration_short_circuits:
  assumes "github_config s = None
       \<or> (\<exists>row. github_config s = Some row
              \<and> (\<not> truthy (row_accessToken row) \<or> \<not> truthy (row_rootUrl row)))"
  shows "\<exists>r s' evs. refreshGithubMetrics e arg s = Some (r, s') \<and> \<not> success r
     \<and> trace s' = trace s @ evs \<and> list_all (\<lambda>ev. \<not> upstream ev) evs
     \<and> (\<forall>k. k \<noteq> ''overall_snapshot'' \<longrightarrow> map_of (metric_rows s') k = map_of (metric_rows s) k)
     \<and> (db_error e = (\<lambda>tr q. None)
          \<and> (\<forall>row m. github_config s = Some row \<longrightarrow> row_selectedRepos row \<noteq> SelUnparsable m)
         \<longrightarrow> message r = not_configured
           \<and> (\<exists>t t'. map_of (metric_rows s') ''overall_snapshot''
                 = Some (Row ((spread (metrics_of_rows (metric_rows s)) ''overall_snapshot'')
                                \<lparr>info := Some not_configured, apiLastRefreshed := Some t\<rparr>) t')))"
proof -
  from assms have inc: "incomplete (github_config s)" by (auto simp: incomplete_def)
  from refresh_incomplete [OF inc, of e arg] obtain r s' where
    run: "refreshGithubMetrics e arg s = Some (r, s')" and f: "\<not> success r" and l: "local_step s s'"
    by blast
  from l obtain evs where ev: "trace s' = trace s @ evs" "list_all (\<lambda>ev. \<not> upstream ev) evs"
    and rows: "\<forall>k. k \<noteq> ''overall_snapshot'' \<longrightarrow> map_of (metric_rows s') k = map_of (metric_rows s) k"
    unfolding local_step_def by blast
  have healthy: "message r = not_configured
           \<and> (\<exists>t t'. map_of (metric_rows s') ''overall_snapshot''
                 = Some (Row ((spread (metrics_of_rows (metric_rows s)) ''overall_snapshot'')
                                \<lparr>info := Some not_configured, apiLastRefreshed := Some t\<rparr>) t'))"
    if h: "db_error e = (\<lambda>tr q. None)"
      and p: "\<forall>row m. github_config s = Some row \<longrightarrow> row_selectedRepos row \<noteq> SelUnparsable m"
  proof -
    let ?s1 = "emit (Sql SelectMetrics None) s"
    let ?m = "metrics_of_rows (metric_rows s)"
    have c: "github_config ?s1 = github_config s" by (simp add: emit_def)
    from inc c have inc1: "incomplete (github_config ?s1)" by simp
    from p c have p1: "\<forall>row m. github_config ?s1 = Some row \<longrightarrow> row_selectedRepos row \<noteq> SelUnparsable m"
      by simp
    from missing_healthy [OF h, of ?m "emit (Sql SelectConfig None) ?s1"] obtain s2 t t' where
      b: "config_missing_branch e ?m (emit (Sql SelectConfig None) ?s1) =
        (Inr \<lparr>success = False, message = not_configured,
            data = AList.update ''overall_snapshot''
                     ((spread ?m ''overall_snapshot'')\<lparr>info := Some not_configured\<rparr>) ?m\<rparr>, s2)"
      and st: "map_of (metric_rows s2) ''overall_snapshot''
        = Some (Row ((spread ?m ''overall_snapshot'')
                       \<lparr>info := Some not_configured, apiLastRefreshed := Some t\<rparr>) t')"
      by blast
    have "refreshGithubMetrics e arg s = Some (\<lparr>success = False, message = not_configured,
            data = AList.update ''overall_snapshot''
                     ((spread ?m ''overall_snapshot'')\<lparr>info := Some not_configured\<rparr>) ?m\<rparr>, s2)"
      by (simp add: refreshGithubMetrics_def read_healthy [OF h]
          refresh_try_incomplete_healthy [OF inc1 h p1] b)
    with run st show ?thesis by auto
  qed
  from run f ev rows healthy show ?thesis by blast
qed

text \<open>C4 at a team without a configuration row: the stored 7-day record stays.\<close>

theorem missing_configuration_witness:
  "\<exists>r s' t t'. refreshGithubMetrics quiet_env None windowed_state = Some (r, s') \<and> \<not> success r
     \<and> message r = not_configured
     \<and> list_all (\<lambda>ev. \<not> upstream ev) (trace s')
     \<and> map_of (metric_rows s') ''7days'' = map_of (metric_rows windowed_state) ''7days''
     \<and> map_of (metric_rows s') ''overall_snapshot''
         = Some (Row (no_data\<lparr>info := Some not_configured, apiLastRefreshed := Some t\<rparr>) t')"
proof -
  have c1: "github_config windowed_state = None"
    by (simp add: windowed_state_def empty_state_def)
  have c2: "trace windowed_state = []"
    by (simp add: windowed_state_def empty_state_def)
  have c3: "spread (metrics_of_rows (metric_rows windowed_state)) ''overall_snapshot'' = no_data"
    by (simp add: windowed_state_def empty_state_def metrics_of_rows_def spread_def)
  have inc: "github_config windowed_state = None
       \<or> (\<exists>row. github_config windowed_state = Some row
              \<and> (\<not> truthy (row_accessToken row) \<or> \<not> truthy (row_rootUrl row)))"
    using c1 by simp
  have ok: "db_error quiet_env = (\<lambda>tr q. None)
          \<and> (\<forall>row m. github_config windowed_state = Some row \<longrightarrow> row_selectedRepos row \<noteq> SelUnparsable m)"
    using c1 quiet_facts(1) by simp
  from missing_configuration_short_circuits [OF inc, of quiet_env None]
  obtain r s' evs where X: "refreshGithubMetrics quiet_env None windowed_state = Some (r, s') \<and> \<not> success r
     \<and> trace s' = trace windowed_state @ evs \<and> list_all (\<lambda>ev. \<not> upstream ev) evs
     \<and> (\<forall>k. k \<noteq> ''overall_snapshot'' \<longrightarrow> map_of (metric_rows s') k = map_of (metric_rows windowed_state) k)
     \<and> (db_error quiet_env = (\<lambda>tr q. None)
          \<and> (\<forall>row m. github_config windowed_state = Some row \<longrightarrow> row_selectedRepos row \<noteq> SelUnparsable m)
         \<longrightarrow> message r = not_configured
           \<and> (\<exists>t t'. map_of (metric_rows s') ''overall_snapshot''
                 = Some (Row ((spread (metrics_of_rows (metric_rows windowed_state)) ''overall_snapshot'')
                                \<lparr>info := Some not_configured, apiLastRefreshed := Some t\<rparr>) t')))"
    by (elim exE) (rule that)
  from X have run: "refreshGithubMetrics quiet_env None windowed_state = Some (r, s')" "\<not> success r"
    by (rule conjunct1, rule conjunct2 [THEN conjunct1])
  from X have tr: "trace s' = trace windowed_state @ evs" "list_all (\<lambda>ev. \<not> upstream ev) evs"
    by (rule conjunct2 [THEN conjunct2, THEN conjunct1],
        rule conjunct2 [THEN conjunct2, THEN conjunct2, THEN conjunct1])
  from X have rows: "\<forall>k. k \<noteq> ''overall_snapshot'' \<longrightarrow> map_of (metric_rows s') k = map_of (metric_rows windowed_state) k"
    by (rule conjunct2 [THEN conjunct2, THEN conjunct2, THEN conjunct2, THEN conjunct1])
  from X have "db_error quiet_env = (\<lambda>tr q. None)
          \<and> (\<forall>row m. github_config windowed_state = Some row \<longrightarrow> row_selectedRepos row \<noteq> SelUnparsable m)
         \<longrightarrow> message r = not_configured
           \<and> (\<exists>t t'. map_of (metric_rows s') ''overall_snapshot''
                 = Some (Row ((spread (metrics_of_rows (metric_rows windowed_state)) ''overall_snapshot'')
                                \<lparr>info := Some not_configured, apiLastRefreshed := Some t\<rparr>) t'))"
    by (rule conjunct2 [THEN conjunct2, THEN conjunct2, THEN conjunct2, THEN conjunct2])
  from this [rule_format, OF ok] obtain t t' where
    st: "message r = not_configured"
      "map_of (metric_rows s') ''overall_snapshot''
         = Some (Row (no_data\<lparr>info := Some not_configured, apiLastRefreshed := Some t\<rparr>) t')"
    unfolding c3 by (elim conjE exE) (rule that)
  from rows have w: "map_of (metric_rows s') ''7days'' = map_of (metric_rows windowed_state) ''7days''"
    by simp
  from tr have l: "list_all (\<lambda>ev. \<not> upstream ev) (trace s')" by (simp add: c2)
  show ?thesis
    using run st l w by (intro exI [of _ r] exI [of _ s'] exI [of _ t] exI [of _ t'] conjI)
qed

subsection \<open>C3: a failure of the refresh\<close>

lemma save_effect:
  "\<exists>t outcome. last (trace (snd (saveGithubTeamMetric e k d s))) = Sql (InsertOrReplace k d t) outcome
     \<and> outcome = db_error e (butlast (trace (snd (saveGithubTeamMetric e k d s)))) (InsertOrReplace k d t)
     \<and> (outcome = None \<longrightarrow> metric_rows (snd (saveGithubTeamMetric e k d s))
            = AList.update k (Row d t) (metric_rows s))
     \<and> (outcome \<noteq> None \<longrightarrow> metric_rows (snd (saveGithubTeamMetric e k d s)) = metric_rows s)"
proof (cases "db_error e (trace s @ [NewDate (now e (trace s))])
      (InsertOrReplace k d (toISOString e (now e (trace s))))")
  case None
  then show ?thesis
    by (intro exI [of _ "toISOString e (now e (trace s))"] exI [of _ None])
       (simp add: saveGithubTeamMetric_def new_Date_def sql_def emit_def run_stmt_def butlast_append)
next
  case (Some msg)
  then show ?thesis
    by (intro exI [of _ "toISOString e (now e (trace s))"] exI [of _ "Some msg"])
       (simp add: saveGithubTeamMetric_def new_Date_def sql_def emit_def run_stmt_def butlast_append)
qed

lemma read_rows: "metric_rows (snd (getGithubTeamMetricsFromDb e s)) = metric_rows s"
  by (simp add: getGithubTeamMetricsFromDb_def sql_def emit_def run_stmt_def
      split: option.splits)

lemma read_value:
  "getGithubTeamMetricsFromDb e s = (Inr m, s') \<Longrightarrow> m = metrics_of_rows (metric_rows s)"
  by (auto simp: getGithubTeamMetricsFromDb_def sql_def emit_def run_stmt_def
      split: option.splits)

lemma new_Date_rows: "metric_rows (snd (new_Date e s)) = metric_rows s"
  by (simp add: new_Date_def emit_def)

lemma failure_message_nonempty: "failure_message err \<noteq> []"
  by (simp add: failure_message_def)

lemma catch_shape:
  assumes "(if existingMetrics = [] then
               (case getGithubTeamMetricsFromDb e s of
                  (Inl dbError, s1) \<Rightarrow>
                    ([(''overall_snapshot'', no_data\<lparr>info := Some
                         (''Refresh failed, and could not retrieve previous metrics: '' @ dbError)\<rparr>)], s1)
                | (Inr metrics, s1) \<Rightarrow> (metrics, s1))
             else (existingMetrics, s)) = (cur, s1)"
  shows "refresh_catch e existingMetrics err s =
     (\<lparr>success = False, message = failure_message err,
       data = AList.update ''overall_snapshot''
                ((spread cur ''overall_snapshot'')\<lparr>info := Some (''Refresh failed: '' @ failure_message err)\<rparr>)
                cur\<rparr>,
      snd (saveGithubTeamMetric e ''overall_snapshot''
             ((spread cur ''overall_snapshot'')\<lparr>info := Some (''Refresh failed: '' @ failure_message err),
                apiLastRefreshed := Some (toISOString e (fst (new_Date e s1)))\<rparr>)
             (snd (new_Date e s1))))"
  unfolding refresh_catch_def failure_message_def assms Let_def
  by (simp split: prod.splits)

lemma catch_current:
  "\<exists>cur s1. (if existingMetrics = [] then
               (case getGithubTeamMetricsFromDb e s of
                  (Inl dbError, s1) \<Rightarrow>
                    ([(''overall_snapshot'', no_data\<lparr>info := Some
                         (''Refresh failed, and could not retrieve previous metrics: '' @ dbError)\<rparr>)], s1)
                | (Inr metrics, s1) \<Rightarrow> (metrics, s1))
             else (existingMetrics, s)) = (cur, s1)
     \<and> metric_rows s1 = metric_rows s
     \<and> (existingMetrics \<noteq> [] \<longrightarrow> cur = existingMetrics)
     \<and> (existingMetrics = [] \<and> db_error e (trace s) SelectMetrics = None
          \<longrightarrow> cur = metrics_of_rows (metric_rows s))"
proof (cases "existingMetrics = []")
  case False
  then show ?thesis by simp
next
  case True
  obtain x s1 where g: "getGithubTeamMetricsFromDb e s = (x, s1)"
    by (cases "getGithubTeamMetricsFromDb e s")
  from read_rows [of e s] g have r: "metric_rows s1 = metric_rows s" by simp
  show ?thesis
  proof (cases x)
    case (Inl dbError)
    with g have "db_error e (trace s) SelectMetrics \<noteq> None"
      by (auto simp: getGithubTeamMetricsFromDb_def sql_def split: option.splits)
    with True g Inl r show ?thesis by auto
  next
    case (Inr metrics)
    with read_value g have "metrics = metrics_of_rows (metric_rows s)" by blast
    with True g Inr r show ?thesis by simp
  qed
qed

lemma lookup_update_same: "map_of (AList.update k v al) k = Some v"
  by (simp add: update_conv')

lemma lookup_update_other: "k' \<noteq> k \<Longrightarrow> map_of (AList.update k v al) k' = map_of al k'"
  by (simp add: update_conv')

lemma catch_report:
  "\<exists>prev stamp t outcome.
      \<not> success (fst (refresh_catch e existingMetrics err s))
      \<and> message (fst (refresh_catch e existingMetrics err s)) = failure_message err
      \<and> map_of (data (fst (refresh_catch e existingMetrics err s))) ''overall_snapshot''
          = Some (prev\<lparr>info := Some (''Refresh failed: '' @ failure_message err)\<rparr>)
      \<and> (existingMetrics \<noteq> [] \<longrightarrow> prev = spread existingMetrics ''overall_snapshot''
            \<and> (\<forall>k. k \<noteq> ''overall_snapshot'' \<longrightarrow>
                  map_of (data (fst (refresh_catch e existingMetrics err s))) k = map_of existingMetrics k))
      \<and> (existingMetrics = [] \<and> db_error e (trace s) SelectMetrics = None
            \<longrightarrow> prev = spread (metrics_of_rows (metric_rows s)) ''overall_snapshot'')
      \<and> last (trace (snd (refresh_catch e existingMetrics err s)))
          = Sql (InsertOrReplace ''overall_snapshot''
                  (prev\<lparr>info := Some (''Refresh failed: '' @ failure_message err),
                         apiLastRefreshed := Some stamp\<rparr>) t) outcome
      \<and> outcome = db_error e (butlast (trace (snd (refresh_catch e existingMetrics err s))))
          (InsertOrReplace ''overall_snapshot''
                  (prev\<lparr>info := Some (''Refresh failed: '' @ failure_message err),
                         apiLastRefreshed := Some stamp\<rparr>) t)
      \<and> (outcome = None \<longrightarrow> metric_rows (snd (refresh_catch e existingMetrics err s))
            = AList.update ''overall_snapshot''
                (Row (prev\<lparr>info := Some (''Refresh failed: '' @ failure_message err),
                            apiLastRefreshed := Some stamp\<rparr>) t) (metric_rows s))
      \<and> (outcome \<noteq> None \<longrightarrow> metric_rows (snd (refresh_catch e existingMetrics err s)) = metric_rows s)"
proof -
  from catch_current [of existingMetrics e s] obtain cur s1 where
    c: "(if existingMetrics = [] then
               (case getGithubTeamMetricsFromDb e s of
                  (Inl dbError, s1) \<Rightarrow>
                    ([(''overall_snapshot'', no_data\<lparr>info := Some
                         (''Refresh failed, and could not retrieve previous metrics: '' @ dbError)\<rparr>)], s1)
                | (Inr metrics, s1) \<Rightarrow> (metrics, s1))
             else (existingMetrics, s)) = (cur, s1)"
    and rows: "metric_rows s1 = metric_rows s"
    and keep: "existingMetrics \<noteq> [] \<longrightarrow> cur = existingMetrics"
    and reread: "existingMetrics = [] \<and> db_error e (trace s) SelectMetrics = None
          \<longrightarrow> cur = metrics_of_rows (metric_rows s)"
    by (elim exE conjE) (rule that)
  let ?prev = "spread cur ''overall_snapshot''"
  let ?stamp = "toISOString e (fst (new_Date e s1))"
  let ?d = "?prev\<lparr>info := Some (''Refresh failed: '' @ failure_message err), apiLastRefreshed := Some ?stamp\<rparr>"
  let ?s2 = "snd (new_Date e s1)"
  note shape = catch_shape [OF c, of err]
  from save_effect [of e "''overall_snapshot''" ?d ?s2] obtain t outcome where
    sv: "last (trace (snd (saveGithubTeamMetric e ''overall_snapshot'' ?d ?s2)))
          = Sql (InsertOrReplace ''overall_snapshot'' ?d t) outcome"
      "outcome = db_error e (butlast (trace (snd (saveGithubTeamMetric e ''overall_snapshot'' ?d ?s2))))
          (InsertOrReplace ''overall_snapshot'' ?d t)"
      "outcome = None \<longrightarrow> metric_rows (snd (saveGithubTeamMetric e ''overall_snapshot'' ?d ?s2))
            = AList.update ''overall_snapshot'' (Row ?d t) (metric_rows ?s2)"
      "outcome \<noteq> None \<longrightarrow> metric_rows (snd (saveGithubTeamMetric e ''overall_snapshot'' ?d ?s2))
            = metric_rows ?s2"
    by (elim exE conjE) (rule that)
  have r2: "metric_rows ?s2 = metric_rows s" by (simp add: new_Date_rows rows)
  have a: "\<not> success (fst (refresh_catch e existingMetrics err s))"
    "message (fst (refresh_catch e existingMetrics err s)) = failure_message err"
    "map_of (data (fst (refresh_catch e existingMetrics err s))) ''overall_snapshot''
          = Some (?prev\<lparr>info := Some (''Refresh failed: '' @ failure_message err)\<rparr>)"
    by (simp_all add: shape lookup_update_same)
  have b: "existingMetrics \<noteq> [] \<longrightarrow> ?prev = spread existingMetrics ''overall_snapshot''
            \<and> (\<forall>k. k \<noteq> ''overall_snapshot'' \<longrightarrow>
                  map_of (data (fst (refresh_catch e existingMetrics err s))) k = map_of existingMetrics k)"
    using keep by (simp add: shape lookup_update_other)
  have b2: "existingMetrics = [] \<and> db_error e (trace s) SelectMetrics = None
            \<longrightarrow> ?prev = spread (metrics_of_rows (metric_rows s)) ''overall_snapshot''"
    using reread by simp
  have d: "last (trace (snd (refresh_catch e existingMetrics err s)))
          = Sql (InsertOrReplace ''overall_snapshot'' ?d t) outcome"
    "outcome = db_error e (butlast (trace (snd (refresh_catch e existingMetrics err s))))
          (InsertOrReplace ''overall_snapshot'' ?d t)"
    "outcome = None \<longrightarrow> metric_rows (snd (refresh_catch e existingMetrics err s))
            = AList.update ''overall_snapshot'' (Row ?d t) (metric_rows s)"
    "outcome \<noteq> None \<longrightarrow> metric_rows (snd (refresh_catch e existingMetrics err s)) = metric_rows s"
    using sv r2 by (simp_all add: shape)
  show ?thesis
    by (rule exI [of _ ?prev], rule exI [of _ ?stamp], rule exI [of _ t], rule exI [of _ outcome])
       (intro conjI a b b2 d)
qed

lemma full_disk_facts:
  "db_error full_disk_env tr SelectMetrics = None" "db_error full_disk_env tr SelectConfig = None"
  "db_error full_disk_env tr DeleteMetrics = None"
  "db_error full_disk_env tr (InsertOrReplace k d t) = Some ''SQLITE_FULL: database or disk is full''"
  by (simp_all add: full_disk_env_def quiet_env_def)

lemma stale_rows:
  "metrics_of_rows (metric_rows stale_state)
     = [(''overall_snapshot'', no_data\<lparr>apiTotalBytes_current := Some 2000\<rparr>)]"
  "metrics_of_rows (metric_rows bad_url_state)
     = [(''overall_snapshot'', no_data\<lparr>apiTotalBytes_current := Some 2000\<rparr>)]"
  by (simp_all add: stale_state_def bad_url_state_def metrics_of_rows_def parse_row_def)

lemma full_disk_read:
  "getGithubTeamMetricsFromDb full_disk_env stale_state
     = (Inr [(''overall_snapshot'', no_data\<lparr>apiTotalBytes_current := Some 2000\<rparr>)],
        emit (Sql SelectMetrics None) stale_state)"
  by (simp add: getGithubTeamMetricsFromDb_def sql_def full_disk_facts run_stmt_def emit_def stale_rows)

lemma full_disk_config:
  "getGithubConfigFromDb full_disk_env (emit (Sql SelectMetrics None) stale_state)
     = (Inr (Some \<lparr>rootUrl = Some ''https://github.com/acme'', accessToken = ''t'', selectedRepos = []\<rparr>),
        emit (Sql SelectConfig None) (emit (Sql SelectMetrics None) stale_state))"
  by (simp add: getGithubConfigFromDb_def sql_def full_disk_facts run_stmt_def emit_def
      stale_state_def acme_state_def empty_state_def truthy_def)

lemma full_disk_cleared:
  "\<exists>s'. cleared_branch full_disk_env msg s = (Inl ''SQLITE_FULL: database or disk is full'', s')
     \<and> metric_rows s' = []"
  by (simp add: cleared_branch_def clearGithubTeamMetrics_def saveGithubTeamMetric_def new_Date_def
      sql_def full_disk_facts run_stmt_def emit_def)

lemma full_disk_try:
  "\<exists>s2. refresh_try full_disk_env None [(''overall_snapshot'', no_data\<lparr>apiTotalBytes_current := Some 2000\<rparr>)]
       (emit (Sql SelectMetrics None) stale_state)
     = Some (Inl ''SQLITE_FULL: database or disk is full'', s2) \<and> metric_rows s2 = []"
proof -
  have b: "GITHUB_API_BASE full_disk_env ''https://github.com/acme'' = Inr ''https://api.github.com''"
    by (simp add: GITHUB_API_BASE_def)
  from full_disk_cleared [of none_selected
      "emit (Sql SelectConfig None) (emit (Sql SelectMetrics None) stale_state)"]
  obtain s2 where c: "cleared_branch full_disk_env none_selected
      (emit (Sql SelectConfig None) (emit (Sql SelectMetrics None) stale_state))
      = (Inl ''SQLITE_FULL: database or disk is full'', s2)" "metric_rows s2 = []"
    by (elim exE conjE) (rule that)
  have "refresh_try full_disk_env None [(''overall_snapshot'', no_data\<lparr>apiTotalBytes_current := Some 2000\<rparr>)]
       (emit (Sql SelectMetrics None) stale_state)
     = Some (Inl ''SQLITE_FULL: database or disk is full'', s2)"
    by (simp add: refresh_try_def full_disk_config truthy_def b c(1))
  with c(2) show ?thesis by blast
qed

text \<open>
  C3 (the claim as stated fails). The store holds an \<^verbatim>\<open>overall_snapshot\<close> with 2000 bytes,
  the configuration selects no repository, and the database accepts \<^verbatim>\<open>SELECT\<close> and
  \<^verbatim>\<open>DELETE\<close> but rejects every \<^verbatim>\<open>INSERT OR REPLACE\<close> (a full disk). The refresh deletes the
  team's rows, the write of the informational snapshot throws, the \<^verbatim>\<open>catch\<close> block's own
  write is rejected too and that rejection is swallowed: the call returns
  \<^verbatim>\<open>success = false\<close> and the store is left with no row at all.
\<close>

theorem full_disk_loses_snapshot:
  "map_of (metric_rows stale_state) ''overall_snapshot''
     = Some (Row (no_data\<lparr>apiTotalBytes_current := Some 2000\<rparr>) ''2023-11-01T00:00:00.000Z'')
   \<and> refreshGithubMetrics full_disk_env None stale_state \<noteq> None
   \<and> \<not> success (fst (the (refreshGithubMetrics full_disk_env None stale_state)))
   \<and> metric_rows (snd (the (refreshGithubMetrics full_disk_env None stale_state))) = []"
proof -
  let ?ex = "[(''overall_snapshot'', no_data\<lparr>apiTotalBytes_current := Some 2000\<rparr>)]"
  let ?msg = "''SQLITE_FULL: database or disk is full''"
  from full_disk_try obtain s2 where
    t: "refresh_try full_disk_env None ?ex (emit (Sql SelectMetrics None) stale_state)
          = Some (Inl ?msg, s2)" "metric_rows s2 = []"
    by (elim exE conjE) (rule that)
  have run: "refreshGithubMetrics full_disk_env None stale_state
      = Some (refresh_catch full_disk_env ?ex ?msg s2)"
    by (simp add: refreshGithubMetrics_def full_disk_read t(1))
  from catch_report [of full_disk_env ?ex ?msg s2] obtain prev stamp ts outcome where
    f: "\<not> success (fst (refresh_catch full_disk_env ?ex ?msg s2))"
    and o: "outcome = db_error full_disk_env (butlast (trace (snd (refresh_catch full_disk_env ?ex ?msg s2))))
          (InsertOrReplace ''overall_snapshot''
                  (prev\<lparr>info := Some (''Refresh failed: '' @ failure_message ?msg),
                         apiLastRefreshed := Some stamp\<rparr>) ts)"
    and r: "outcome \<noteq> None \<longrightarrow> metric_rows (snd (refresh_catch full_disk_env ?ex ?msg s2)) = metric_rows s2"
    by (elim exE conjE) (rule that)
  from o have "outcome \<noteq> None" by (simp add: full_disk_facts)
  with r t(2) have rows: "metric_rows (snd (refresh_catch full_disk_env ?ex ?msg s2)) = []" by simp
  have st: "map_of (metric_rows stale_state) ''overall_snapshot''
     = Some (Row (no_data\<lparr>apiTotalBytes_current := Some 2000\<rparr>) ''2023-11-01T00:00:00.000Z'')"
    by (simp add: stale_state_def)
  from st f rows show ?thesis by (simp add: run)
qed

text \<open>
  C3 (amended). When the first read of the stored metrics throws, or the pipeline after it
  throws, \<^verbatim>\<open>refreshGithubMetrics\<close> returns: the result has \<^verbatim>\<open>success = false\<close>, the
  non-empty message of the failure, and as data the best-available metrics (what was read
  before the pipeline ran when that was not empty, what the store holds now otherwise)
  whose \<^verbatim>\<open>overall_snapshot\<close> is the last-known record with \<^verbatim>\<open>info\<close> set to
  \<^verbatim>\<open>Refresh failed: <message>\<close>. The last statement of the call is the attempt to store
  that record with a fresh \<^verbatim>\<open>apiLastRefreshed\<close>: when the database accepts it, the stored
  \<^verbatim>\<open>overall_snapshot\<close> is that record; when it rejects it, the rejection is swallowed and
  the rows stay as the pipeline left them.
\<close>

theorem refresh_failure_is_reported:
  assumes "(getGithubTeamMetricsFromDb e s = (Inl err, s2) \<and> existingMetrics = [])
     \<or> (\<exists>s1. getGithubTeamMetricsFromDb e s = (Inr existingMetrics, s1)
            \<and> refresh_try e arg existingMetrics s1 = Some (Inl err, s2))"
  shows "\<exists>r s' prev stamp t outcome.
      refreshGithubMetrics e arg s = Some (r, s')
      \<and> \<not> success r \<and> message r = failure_message err \<and> message r \<noteq> []
      \<and> map_of (data r) ''overall_snapshot'' = Some (prev\<lparr>info := Some (''Refresh failed: '' @ message r)\<rparr>)
      \<and> (existingMetrics \<noteq> [] \<longrightarrow>
            existingMetrics = metrics_of_rows (metric_rows s)
            \<and> prev = spread existingMetrics ''overall_snapshot''
            \<and> (\<forall>k. k \<noteq> ''overall_snapshot'' \<longrightarrow> map_of (data r) k = map_of existingMetrics k))
      \<and> (existingMetrics = [] \<and> db_error e (trace s2) SelectMetrics = None
            \<longrightarrow> prev = spread (metrics_of_rows (metric_rows s2)) ''overall_snapshot'')
      \<and> last (trace s') = Sql (InsertOrReplace ''overall_snapshot''
            (prev\<lparr>info := Some (''Refresh failed: '' @ message r), apiLastRefreshed := Some stamp\<rparr>) t) outcome
      \<and> outcome = db_error e (butlast (trace s')) (InsertOrReplace ''overall_snapshot''
            (prev\<lparr>info := Some (''Refresh failed: '' @ message r), apiLastRefreshed := Some stamp\<rparr>) t)
      \<and> (outcome = None \<longrightarrow> metric_rows s' = AList.update ''overall_snapshot''
            (Row (prev\<lparr>info := Some (''Refresh failed: '' @ message r), apiLastRefreshed := Some stamp\<rparr>) t)
            (metric_rows s2))
      \<and> (outcome \<noteq> None \<longrightarrow> metric_rows s' = metric_rows s2)"
proof -
  have run: "refreshGithubMetrics e arg s = Some (refresh_catch e existingMetrics err s2)"
    using assms by (auto simp: refreshGithubMetrics_def)
  have start: "existingMetrics \<noteq> [] \<longrightarrow> existingMetrics = metrics_of_rows (metric_rows s)"
    using assms read_value by blast
  let ?r = "fst (refresh_catch e existingMetrics err s2)"
  let ?s' = "snd (refresh_catch e existingMetrics err s2)"
  from catch_report [of e existingMetrics err s2] obtain prev stamp t outcome where
    c: "\<not> success ?r" "message ?r = failure_message err"
      "map_of (data ?r) ''overall_snapshot''
          = Some (prev\<lparr>info := Some (''Refresh failed: '' @ failure_message err)\<rparr>)"
      "existingMetrics \<noteq> [] \<longrightarrow> prev = spread existingMetrics ''overall_snapshot''
            \<and> (\<forall>k. k \<noteq> ''overall_snapshot'' \<longrightarrow> map_of (data ?r) k = map_of existingMetrics k)"
      "existingMetrics = [] \<and> db_error e (trace s2) SelectMetrics = None
            \<longrightarrow> prev = spread (metrics_of_rows (metric_rows s2)) ''overall_snapshot''"
      "last (trace ?s') = Sql (InsertOrReplace ''overall_snapshot''
                  (prev\<lparr>info := Some (''Refresh failed: '' @ failure_message err),
                         apiLastRefreshed := Some stamp\<rparr>) t) outcome"
      "outcome = db_error e (butlast (trace ?s')) (InsertOrReplace ''overall_snapshot''
                  (prev\<lparr>info := Some (''Refresh failed: '' @ failure_message err),
                         apiLastRefreshed := Some stamp\<rparr>) t)"
      "outcome = None \<longrightarrow> metric_rows ?s' = AList.update ''overall_snapshot''
                (Row (prev\<lparr>info := Some (''Refresh failed: '' @ failure_message err),
                            apiLastRefreshed := Some stamp\<rparr>) t) (metric_rows s2)"
      "outcome \<noteq> None \<longrightarrow> metric_rows ?s' = metric_rows s2"
    by (elim exE conjE) (rule that)
  have n: "message ?r \<noteq> []" by (simp add: c(2) failure_message_nonempty)
  have b: "existingMetrics \<noteq> [] \<longrightarrow>
            existingMetrics = metrics_of_rows (metric_rows s)
            \<and> prev = spread existingMetrics ''overall_snapshot''
            \<and> (\<forall>k. k \<noteq> ''overall_snapshot'' \<longrightarrow> map_of (data ?r) k = map_of existingMetrics k)"
    using start c(4) by blast
  show ?thesis
    apply (rule exI [of _ ?r], rule exI [of _ ?s'], rule exI [of _ prev], rule exI [of _ stamp],
        rule exI [of _ t], rule exI [of _ outcome])
    apply (simp only: c(2))
    apply (intro conjI)
              apply (simp add: run)
             apply (rule c(1))
            apply (rule refl)
           apply (rule failure_message_nonempty)
          apply (rule c(3))
         apply (rule b)
        apply (rule c(5))
       apply (rule c(6))
      apply (rule c(7))
     apply (rule c(8))
    apply (rule c(9))
    done
qed

lemma bad_url_try:
  "refresh_try quiet_env None [(''overall_snapshot'', no_data\<lparr>apiTotalBytes_current := Some 2000\<rparr>)]
       (emit (Sql SelectMetrics None) bad_url_state)
     = Some (Inl ''Invalid URL'', emit (Sql SelectConfig None) (emit (Sql SelectMetrics None) bad_url_state))"
proof -
  have b: "GITHUB_API_BASE quiet_env ''github.example.org/acme'' = Inl ''Invalid URL''"
    by (simp add: GITHUB_API_BASE_def quiet_env_def)
  have g: "getGithubConfigFromDb quiet_env (emit (Sql SelectMetrics None) bad_url_state)
     = (Inr (Some \<lparr>rootUrl = Some ''github.example.org/acme'', accessToken = ''t'', selectedRepos = []\<rparr>),
        emit (Sql SelectConfig None) (emit (Sql SelectMetrics None) bad_url_state))"
    by (simp add: getGithubConfigFromDb_def sql_def quiet_facts run_stmt_def emit_def
        bad_url_state_def stale_state_def acme_state_def empty_state_def truthy_def)
  show ?thesis
    by (simp add: refresh_try_def g truthy_def b)
qed

text \<open>
  C3 at a root reference that is no URL: the pipeline throws \<^verbatim>\<open>Invalid URL\<close>, and the stored
  snapshot keeps its 2000 bytes and gains the failure message.
\<close>

theorem refresh_failure_witness:
  "\<exists>r s' stamp t. refreshGithubMetrics quiet_env None bad_url_state = Some (r, s')
     \<and> \<not> success r \<and> message r = ''Invalid URL''
     \<and> map_of (data r) ''overall_snapshot''
         = Some (no_data\<lparr>apiTotalBytes_current := Some 2000, info := Some ''Refresh failed: Invalid URL''\<rparr>)
     \<and> map_of (metric_rows s') ''overall_snapshot''
         = Some (Row (no_data\<lparr>apiTotalBytes_current := Some 2000,
                   info := Some ''Refresh failed: Invalid URL'', apiLastRefreshed := Some stamp\<rparr>) t)"
proof -
  let ?ex = "[(''overall_snapshot'', no_data\<lparr>apiTotalBytes_current := Some 2000\<rparr>)]"
  let ?s2 = "emit (Sql SelectConfig None) (emit (Sql SelectMetrics None) bad_url_state)"
  have rd: "getGithubTeamMetricsFromDb quiet_env bad_url_state
      = (Inr ?ex, emit (Sql SelectMetrics None) bad_url_state)"
    by (simp add: read_healthy [OF quiet_facts(1)] stale_rows)
  have esc: "(getGithubTeamMetricsFromDb quiet_env bad_url_state = (Inl ''Invalid URL'', ?s2) \<and> ?ex = [])
     \<or> (\<exists>s1. getGithubTeamMetricsFromDb quiet_env bad_url_state = (Inr ?ex, s1)
            \<and> refresh_try quiet_env None ?ex s1 = Some (Inl ''Invalid URL'', ?s2))"
    using rd bad_url_try by blast
  from refresh_failure_is_reported [OF esc] obtain r s' prev stamp t outcome where
    w: "refreshGithubMetrics quiet_env None bad_url_state = Some (r, s')"
      "\<not> success r" "message r = failure_message ''Invalid URL''"
      "map_of (data r) ''overall_snapshot'' = Some (prev\<lparr>info := Some (''Refresh failed: '' @ message r)\<rparr>)"
      "?ex \<noteq> [] \<longrightarrow> ?ex = metrics_of_rows (metric_rows bad_url_state)
            \<and> prev = spread ?ex ''overall_snapshot''
            \<and> (\<forall>k. k \<noteq> ''overall_snapshot'' \<longrightarrow> map_of (data r) k = map_of ?ex k)"
      "outcome = db_error quiet_env (butlast (trace s')) (InsertOrReplace ''overall_snapshot''
            (prev\<lparr>info := Some (''Refresh failed: '' @ message r), apiLastRefreshed := Some stamp\<rparr>) t)"
      "outcome = None \<longrightarrow> metric_rows s' = AList.update ''overall_snapshot''
            (Row (prev\<lparr>info := Some (''Refresh failed: '' @ message r), apiLastRefreshed := Some stamp\<rparr>) t)
            (metric_rows ?s2)"
    by (elim exE conjE) (rule that)
  have m: "message r = ''Invalid URL''" using w(3) by (simp add: failure_message_def)
  from w(5) have p: "prev = no_data\<lparr>apiTotalBytes_current := Some 2000\<rparr>"
    by (simp add: spread_def)
  from w(6) have "outcome = None" by (simp add: quiet_facts)
  with w(7) have "map_of (metric_rows s') ''overall_snapshot''
      = Some (Row (prev\<lparr>info := Some (''Refresh failed: '' @ message r), apiLastRefreshed := Some stamp\<rparr>) t)"
    by (simp add: lookup_update_same)
  with w(1,2,4) m p show ?thesis
    by (intro exI [of _ r] exI [of _ s'] exI [of _ stamp] exI [of _ t]) simp
qed

subsection \<open>C9: the temporary directories of the clones\<close>

lemma released_append:
  "released held evs \<Longrightarrow> released None evs' \<Longrightarrow> released held (evs @ evs')"
  by (induction held evs rule: released.induct) simp_all

lemma clone_and_count_trace:
  "\<exists>mid. trace (snd (clone_and_count e u n d acc s)) = trace s @ GitClone u d # mid
     \<and> (mid = [] \<or> (\<exists>t. mid = [NewDate t]))
     \<and> tmp_dirs (snd (clone_and_count e u n d acc s)) = tmp_dirs s"
  by (cases "git_clone e (trace s) u d")
     (simp_all add: clone_and_count_def emit_def new_Date_def Let_def)

lemma remove_temp_effect:
  "trace (remove_temp e d s) = trace s @ [Remove d (removeCallback e (trace s) d)]
   \<and> (removeCallback e (trace s) d = None \<longrightarrow> tmp_dirs (remove_temp e d s) = removeAll d (tmp_dirs s))
   \<and> (removeCallback e (trace s) d \<noteq> None \<longrightarrow> tmp_dirs (remove_temp e d s) = tmp_dirs s)"
  by (cases "removeCallback e (trace s) d") (simp_all add: remove_temp_def emit_def)

lemma failed_removals_append:
  "failed_removals (evs @ evs') = failed_removals evs @ failed_removals evs'"
  by (induction evs rule: failed_removals.induct) simp_all

lemma clone_repo_effect:
  "\<exists>evs. trace (snd (clone_repo e token repo acc s)) = trace s @ evs \<and> released None evs
     \<and> set (tmp_dirs (snd (clone_repo e token repo acc s))) \<subseteq> set (tmp_dirs s) \<union> set (failed_removals evs)"
proof (cases "tmp_dirSync e (trace s)")
  case (Inl msg)
  then show ?thesis
    by (intro exI [of _ "[TmpDir (Inl msg)]"]) (simp add: clone_repo_def emit_def Let_def)
next
  case (Inr d)
  define u where "u = (if prefix ''https://'' (the (repo_url repo)) \<and> token \<noteq> []
                          then ''https://x-access-token:'' @ token @ ''@'' @ drop 8 (the (repo_url repo))
                          else the (repo_url repo))"
  define s1 where "s1 = emit (TmpDir (Inr d)) (s\<lparr>tmp_dirs := tmp_dirs s @ [d]\<rparr>)"
  define s2 where "s2 = snd (clone_and_count e u (the (repo_fullName repo)) d acc s1)"
  have run: "snd (clone_repo e token repo acc s) = remove_temp e d s2"
    by (simp add: clone_repo_def Inr Let_def u_def s1_def s2_def split: prod.splits)
  from clone_and_count_trace [of e u "the (repo_fullName repo)" d acc s1, folded s2_def]
  obtain mid where m: "trace s2 = trace s1 @ GitClone u d # mid"
      "mid = [] \<or> (\<exists>t. mid = [NewDate t])" "tmp_dirs s2 = tmp_dirs s1"
    by (elim exE conjE) (rule that)
  have t1: "trace s1 = trace s @ [TmpDir (Inr d)]" "tmp_dirs s1 = tmp_dirs s @ [d]"
    by (simp_all add: s1_def emit_def)
  let ?out = "removeCallback e (trace s2) d"
  let ?evs = "TmpDir (Inr d) # GitClone u d # mid @ [Remove d ?out]"
  have tr: "trace (remove_temp e d s2) = trace s @ ?evs"
    using remove_temp_effect [of e d s2] m(1) t1(1) by simp
  have rel: "released None ?evs" using m(2) by auto
  have dirs: "set (tmp_dirs (remove_temp e d s2)) \<subseteq> set (tmp_dirs s) \<union> set (failed_removals ?evs)"
  proof (cases ?out)
    case None
    then show ?thesis using remove_temp_effect [of e d s2] m(3) t1(2) by auto
  next
    case (Some msg)
    then have "d \<in> set (failed_removals ?evs)" using m(2) by auto
    moreover have "tmp_dirs (remove_temp e d s2) = tmp_dirs s @ [d]"
      using remove_temp_effect [of e d s2] m(3) t1(2) Some by simp
    ultimately show ?thesis by auto
  qed
  from tr rel dirs show ?thesis unfolding run by blast
qed

lemma stuck_env_facts:
  "tmp_dirSync stuck_env tr = Inr (if tr = [] then ''/tmp/gh-loc-1'' else ''/tmp/gh-loc-2'')"
  "git_clone stuck_env tr u d = (if u = ''https://x-access-token:t@github.com/acme/slow''
                     then CloneTimeout ''ETIMEDOUT''
                     else Cloned (Some [File ''main.go'' (Some ''package main'')]))"
  "removeCallback stuck_env tr d = Some ''EBUSY''" "now stuck_env tr = 1700000000000"
  by (simp_all add: stuck_env_def clone_env_def quiet_env_def)

lemma stuck_slow:
  "clone_repo stuck_env ''t'' slow_repo acc empty_state
     = (acc, empty_state\<lparr>trace := [TmpDir (Inr ''/tmp/gh-loc-1''),
          GitClone ''https://x-access-token:t@github.com/acme/slow'' ''/tmp/gh-loc-1'',
          Remove ''/tmp/gh-loc-1'' (Some ''EBUSY'')], tmp_dirs := [''/tmp/gh-loc-1'']\<rparr>)"
  by (simp add: clone_repo_def clone_and_count_def remove_temp_def stuck_env_facts emit_def
      slow_repo_def empty_state_def Let_def)

lemma stuck_small:
  "trace s \<noteq> [] \<Longrightarrow> clonedLoCTimestamp acc = None \<Longrightarrow>
   trace (snd (clone_repo stuck_env ''t'' small_repo acc s))
     = trace s @ [TmpDir (Inr ''/tmp/gh-loc-2''),
          GitClone ''https://x-access-token:t@github.com/acme/small'' ''/tmp/gh-loc-2'',
          NewDate 1700000000000, Remove ''/tmp/gh-loc-2'' (Some ''EBUSY'')]
   \<and> tmp_dirs (snd (clone_repo stuck_env ''t'' small_repo acc s)) = tmp_dirs s @ [''/tmp/gh-loc-2'']"
  by (simp add: clone_repo_def clone_and_count_def remove_temp_def stuck_env_facts emit_def
      small_repo_def Let_def new_Date_def truthy_def split: prod.splits)

text \<open>
  C9 (the claim as stated fails). On a host where \<^verbatim>\<open>removeCallback\<close> throws, the removal is
  called for both repositories, the \<^verbatim>\<open>catch\<close> inside the \<^verbatim>\<open>finally\<close> logs each failure, and
  both directories created during the run are still there when the loop ends.
\<close>

theorem failed_removal_leaves_directories:
  "tmp_dirs empty_state = []
   \<and> trace (snd (cloned_loc_loop stuck_env ''t'' [slow_repo, small_repo] no_clones empty_state))
     = [TmpDir (Inr ''/tmp/gh-loc-1''),
        GitClone ''https://x-access-token:t@github.com/acme/slow'' ''/tmp/gh-loc-1'',
        Remove ''/tmp/gh-loc-1'' (Some ''EBUSY''),
        TmpDir (Inr ''/tmp/gh-loc-2''),
        GitClone ''https://x-access-token:t@github.com/acme/small'' ''/tmp/gh-loc-2'',
        NewDate 1700000000000, Remove ''/tmp/gh-loc-2'' (Some ''EBUSY'')]
   \<and> tmp_dirs (snd (cloned_loc_loop stuck_env ''t'' [slow_repo, small_repo] no_clones empty_state))
     = [''/tmp/gh-loc-1'', ''/tmp/gh-loc-2'']"
proof -
  let ?s1 = "empty_state\<lparr>trace := [TmpDir (Inr ''/tmp/gh-loc-1''),
          GitClone ''https://x-access-token:t@github.com/acme/slow'' ''/tmp/gh-loc-1'',
          Remove ''/tmp/gh-loc-1'' (Some ''EBUSY'')], tmp_dirs := [''/tmp/gh-loc-1'']\<rparr>"
  have urls: "truthy (repo_url slow_repo)" "truthy (repo_fullName slow_repo)"
      "truthy (repo_url small_repo)" "truthy (repo_fullName small_repo)"
    by (simp_all add: slow_repo_def small_repo_def truthy_def)
  have run: "snd (cloned_loc_loop stuck_env ''t'' [slow_repo, small_repo] no_clones empty_state)
      = snd (clone_repo stuck_env ''t'' small_repo no_clones ?s1)"
    by (simp add: urls stuck_slow split: prod.splits)
  have "trace ?s1 \<noteq> []" "clonedLoCTimestamp no_clones = None" by (simp_all add: no_clones_def)
  from stuck_small [OF this] show ?thesis
    unfolding run by (simp add: empty_state_def)
qed

lemma cloned_loc_loop_effect:
  "\<exists>evs. trace (snd (cloned_loc_loop e token repos acc s)) = trace s @ evs \<and> released None evs
     \<and> set (tmp_dirs (snd (cloned_loc_loop e token repos acc s))) \<subseteq> set (tmp_dirs s) \<union> set (failed_removals evs)"
proof (induction repos arbitrary: acc s)
  case Nil
  show ?case by simp
next
  case (Cons repo rest)
  show ?case
  proof (cases "\<not> truthy (repo_url repo) \<or> \<not> truthy (repo_fullName repo)")
    case True
    then show ?thesis using Cons.IH [of acc s] by simp
  next
    case False
    obtain acc1 s1 where c: "clone_repo e token repo acc s = (acc1, s1)" by (cases "clone_repo e token repo acc s")
    from clone_repo_effect [of e token repo acc s] c
    obtain evs1 where a: "trace s1 = trace s @ evs1" "released None evs1"
        "set (tmp_dirs s1) \<subseteq> set (tmp_dirs s) \<union> set (failed_removals evs1)"
      by auto
    from Cons.IH [of acc1 s1]
    obtain evs2 where b: "trace (snd (cloned_loc_loop e token rest acc1 s1)) = trace s1 @ evs2"
        "released None evs2"
        "set (tmp_dirs (snd (cloned_loc_loop e token rest acc1 s1))) \<subseteq> set (tmp_dirs s1) \<union> set (failed_removals evs2)"
      by (elim exE conjE) (rule that)
    have run: "cloned_loc_loop e token (repo # rest) acc s = cloned_loc_loop e token rest acc1 s1"
      using False c by simp
    have "trace (snd (cloned_loc_loop e token rest acc1 s1)) = trace s @ (evs1 @ evs2)"
      using a(1) b(1) by simp
    moreover have "released None (evs1 @ evs2)" using a(2) b(2) by (rule released_append)
    moreover have "set (tmp_dirs (snd (cloned_loc_loop e token rest acc1 s1)))
        \<subseteq> set (tmp_dirs s) \<union> set (failed_removals (evs1 @ evs2))"
      using a(3) b(3) by (auto simp: failed_removals_append)
    ultimately show ?thesis unfolding run by blast
  qed
qed

text \<open>
  C9 (amended). Over the whole second loop, whatever the clones and the counts do: every
  directory that \<^verbatim>\<open>tmp.dirSync\<close> creates gets its \<^verbatim>\<open>removeCallback\<close> called before the next
  repository asks for a directory and before the loop ends (successful count, failed
  clone, timed-out clone, unreadable files alike). A directory that is there after the
  loop was there before it or is one whose \<^verbatim>\<open>removeCallback\<close> threw; so no directory
  created during the run remains when no removal throws.
\<close>

theorem temp_directory_is_removed:
  "\<exists>evs. trace (snd (cloned_loc_loop e token repos acc s)) = trace s @ evs \<and> released None evs
     \<and> set (tmp_dirs (snd (cloned_loc_loop e token repos acc s))) \<subseteq> set (tmp_dirs s) \<union> set (failed_removals evs)
     \<and> (failed_removals evs = [] \<longrightarrow>
          set (tmp_dirs (snd (cloned_loc_loop e token repos acc s))) \<subseteq> set (tmp_dirs s))"
proof -
  from cloned_loc_loop_effect [of e token repos acc s]
  obtain evs where w: "trace (snd (cloned_loc_loop e token repos acc s)) = trace s @ evs"
      "released None evs"
      "set (tmp_dirs (snd (cloned_loc_loop e token repos acc s))) \<subseteq> set (tmp_dirs s) \<union> set (failed_removals evs)"
    by (elim exE conjE) (rule that)
  from w(3) have "failed_removals evs = [] \<longrightarrow>
      set (tmp_dirs (snd (cloned_loc_loop e token repos acc s))) \<subseteq> set (tmp_dirs s)"
    by auto
  with w show ?thesis by (intro exI [of _ evs]) simp
qed

lemma clone_env_facts:
  "tmp_dirSync clone_env tr = Inr (if tr = [] then ''/tmp/gh-loc-1'' else ''/tmp/gh-loc-2'')"
  "git_clone clone_env tr u d = (if u = ''https://x-access-token:t@github.com/acme/slow''
                     then CloneTimeout ''ETIMEDOUT''
                     else Cloned (Some [File ''main.go'' (Some ''package main'')]))"
  "removeCallback clone_env tr d = None" "now clone_env tr = 1700000000000"
  by (simp_all add: clone_env_def quiet_env_def)

lemma clone_slow:
  "snd (clone_repo clone_env ''t'' slow_repo acc empty_state)
     = empty_state\<lparr>trace := [TmpDir (Inr ''/tmp/gh-loc-1''),
          GitClone ''https://x-access-token:t@github.com/acme/slow'' ''/tmp/gh-loc-1'',
          Remove ''/tmp/gh-loc-1'' None]\<rparr>"
  by (simp add: clone_repo_def clone_and_count_def remove_temp_def clone_env_facts emit_def
      slow_repo_def empty_state_def Let_def)

lemma clone_small:
  "trace s \<noteq> [] \<Longrightarrow> clonedLoCTimestamp acc = None \<Longrightarrow>
   trace (snd (clone_repo clone_env ''t'' small_repo acc s))
     = trace s @ [TmpDir (Inr ''/tmp/gh-loc-2''),
          GitClone ''https://x-access-token:t@github.com/acme/small'' ''/tmp/gh-loc-2'',
          NewDate 1700000000000, Remove ''/tmp/gh-loc-2'' None]"
  by (simp add: clone_repo_def clone_and_count_def remove_temp_def clone_env_facts emit_def
      small_repo_def Let_def new_Date_def truthy_def split: prod.splits)

lemma clone_slow_acc: "fst (clone_repo clone_env ''t'' slow_repo acc empty_state) = acc"
  by (simp add: clone_repo_def clone_and_count_def remove_temp_def clone_env_facts emit_def
      slow_repo_def empty_state_def Let_def)

text \<open>
  C9 at two repositories, the first with a clone that times out: each directory is removed
  before the next one is created, and none is left.
\<close>

theorem temp_directory_is_removed_witness:
  "trace (snd (cloned_loc_loop clone_env ''t'' [slow_repo, small_repo] no_clones empty_state))
     = [TmpDir (Inr ''/tmp/gh-loc-1''),
        GitClone ''https://x-access-token:t@github.com/acme/slow'' ''/tmp/gh-loc-1'',
        Remove ''/tmp/gh-loc-1'' None,
        TmpDir (Inr ''/tmp/gh-loc-2''),
        GitClone ''https://x-access-token:t@github.com/acme/small'' ''/tmp/gh-loc-2'',
        NewDate 1700000000000, Remove ''/tmp/gh-loc-2'' None]
   \<and> released None (trace (snd (cloned_loc_loop clone_env ''t'' [slow_repo, small_repo] no_clones empty_state)))
   \<and> tmp_dirs (snd (cloned_loc_loop clone_env ''t'' [slow_repo, small_repo] no_clones empty_state)) = []"
proof -
  let ?s = "snd (cloned_loc_loop clone_env ''t'' [slow_repo, small_repo] no_clones empty_state)"
  let ?evs = "[TmpDir (Inr ''/tmp/gh-loc-1''),
        GitClone ''https://x-access-token:t@github.com/acme/slow'' ''/tmp/gh-loc-1'',
        Remove ''/tmp/gh-loc-1'' None,
        TmpDir (Inr ''/tmp/gh-loc-2''),
        GitClone ''https://x-access-token:t@github.com/acme/small'' ''/tmp/gh-loc-2'',
        NewDate 1700000000000, Remove ''/tmp/gh-loc-2'' None]"
  obtain acc1 s1 where c1: "clone_repo clone_env ''t'' slow_repo no_clones empty_state = (acc1, s1)"
    by (cases "clone_repo clone_env ''t'' slow_repo no_clones empty_state")
  have s1: "s1 = empty_state\<lparr>trace := [TmpDir (Inr ''/tmp/gh-loc-1''),
          GitClone ''https://x-access-token:t@github.com/acme/slow'' ''/tmp/gh-loc-1'',
          Remove ''/tmp/gh-loc-1'' None]\<rparr>"
    using clone_slow [of no_clones] c1 by simp
  have acc1: "acc1 = no_clones" using clone_slow_acc [of no_clones] c1 by simp
  obtain acc2 s2 where c2: "clone_repo clone_env ''t'' small_repo acc1 s1 = (acc2, s2)"
    by (cases "clone_repo clone_env ''t'' small_repo acc1 s1")
  have urls: "truthy (repo_url slow_repo)" "truthy (repo_fullName slow_repo)"
      "truthy (repo_url small_repo)" "truthy (repo_fullName small_repo)"
    by (simp_all add: slow_repo_def small_repo_def truthy_def)
  have run: "?s = s2"
    by (simp add: c1 c2 urls)
  have tr: "trace ?s = ?evs"
    using clone_small [of s1 acc1] c2 unfolding run by (simp add: s1 acc1 no_clones_def)
  from temp_directory_is_removed [of clone_env "''t''" "[slow_repo, small_repo]" no_clones empty_state]
  obtain evs where w: "trace ?s = trace empty_state @ evs" "released None evs"
      "failed_removals evs = [] \<longrightarrow> set (tmp_dirs ?s) \<subseteq> set (tmp_dirs empty_state)"
    by (elim exE conjE) (rule that)
  from w(1) tr have evs: "evs = ?evs" by (simp add: empty_state_def)
  have "failed_removals ?evs = []" by simp
  with w(3) evs have "tmp_dirs ?s = []" by (simp add: empty_state_def)
  moreover have "released None (trace ?s)" using w(2) evs tr by simp
  ultimately show ?thesis using tr by simp
qed

subsection \<open>C8: every period key resolves\<close>


lemma info_defaults [simp]: "info (with_defaults d) = info d"
  by (simp add: with_defaults_def)





lemma rows_emit [simp]: "metric_rows (emit ev s) = metric_rows s"
  by (simp add: emit_def)

lemma rows_do_fetch [simp]: "metric_rows (snd (do_fetch oracle u s)) = metric_rows s"
  by (simp add: do_fetch_def)

lemma rows_new_Date [simp]: "metric_rows (snd (new_Date e s)) = metric_rows s"
  by (simp add: new_Date_def)

lemma rows_fetchCommitDetails [simp]:
  "metric_rows (snd (fetchCommitDetails e f sh t b s)) = metric_rows s"
  by (simp add: fetchCommitDetails_def do_fetch_def split: fetched.splits sum.splits)

lemma rows_commit_stats_of [simp]:
  "metric_rows (snd (commit_stats_of e b t f c s)) = metric_rows s"
proof -
  have "metric_rows (snd (fetchCommitDetails e f (sha c) t b s)) = metric_rows s" by simp
  then show ?thesis
    by (cases "fetchCommitDetails e f (sha c) t b s")
       (auto simp: commit_stats_of_def split: sum.splits)
qed

lemma rows_process_commit [simp]:
  "metric_rows (snd (process_commit e b t f c acc s)) = metric_rows s"
proof -
  have "metric_rows (snd (commit_stats_of e b t f c s)) = metric_rows s" by simp
  then show ?thesis
    by (cases "commit_stats_of e b t f c s")
       (auto simp: process_commit_def Let_def split: option.splits)
qed

lemma rows_process_commits [simp]:
  "metric_rows (snd (process_commits e b t f cs acc s)) = metric_rows s"
proof (induction cs arbitrary: acc s)
  case Nil
  show ?case by simp
next
  case (Cons c cs)
  obtain acc1 s1 where p: "process_commit e b t f c acc s = (acc1, s1)"
    by (cases "process_commit e b t f c acc s")
  with rows_process_commit [of e b t f c acc s] have "metric_rows s1 = metric_rows s" by simp
  with Cons [of acc1 s1] p show ?case by simp
qed






lemma rows_push_tag [simp]:
  "metric_rows (snd (push_tag e b t repo f tag tags s)) = metric_rows s"
proof -
  have "metric_rows (snd (fetchCommitDetails e f (tag_sha tag) t b s)) = metric_rows s" by simp
  then show ?thesis
    by (cases "fetchCommitDetails e f (tag_sha tag) t b s")
       (auto simp: push_tag_def Let_def new_Date_def split: sum.splits prod.splits)
qed

lemma rows_push_tags [simp]:
  "metric_rows (snd (push_tags e b t repo f page tags s)) = metric_rows s"
proof (induction page arbitrary: tags s)
  case Nil
  show ?case by simp
next
  case (Cons tag rest)
  obtain tags1 s1 where p: "push_tag e b t repo f tag tags s = (tags1, s1)"
    by (cases "push_tag e b t repo f tag tags s")
  with rows_push_tag [of e b t repo f tag tags s] have "metric_rows s1 = metric_rows s" by simp
  with Cons [of tags1 s1] p show ?case by simp
qed





lemma save_rows:
  "saveGithubTeamMetric e k d s = (res, s') \<Longrightarrow>
     (case res of
        Inr u \<Rightarrow> \<exists>t. metric_rows s' = AList.update k (Row d t) (metric_rows s)
      | Inl msg \<Rightarrow> metric_rows s' = metric_rows s)"
  by (auto simp: saveGithubTeamMetric_def new_Date_def sql_def emit_def run_stmt_def
      split: option.splits)

lemma unique_update: "distinct (map fst al) \<Longrightarrow> distinct (map fst (AList.update k v al))"
  by (simp add: distinct_update)

lemma unique_save:
  "saveGithubTeamMetric e k d s = (res, s') \<Longrightarrow> distinct (map fst (metric_rows s))
     \<Longrightarrow> distinct (map fst (metric_rows s'))"
  using save_rows [of e k d s res s'] by (cases res) (auto simp: unique_update)


























































end
